theory Spec2Isabelle
  imports Complex_Main "HOL-Library.Monad_Syntax"
begin

section \<open>Numbers, vectors and small matrices\<close>

text \<open>
  The solver of \<^verbatim>\<open>gauss_newton_solver.cpp\<close> computes on C++ \<^verbatim>\<open>float\<close>. The
  embedding computes on \<^typ>\<open>real\<close>: every arithmetic operation of the source is the exact
  operation on reals, so rounding, infinities and NaN are not represented, and a quotient
  with denominator zero has HOL's value \<open>0\<close>. Counts (\<^verbatim>\<open>nFeatures\<close>, \<^verbatim>\<open>nShapeCoeffs\<close>,
  \<^verbatim>\<open>nUnknowns\<close>, ...) and indices are \<^typ>\<open>nat\<close>; the two configured iteration counts stay
  \<^typ>\<open>int\<close>, because the loops compare a counter with them and they may be zero or negative.
\<close>

datatype vec2 = Vec2 (x2: real) (y2: real)
datatype vec3 = Vec3 (x3: real) (y3: real) (z3: real)
datatype vec4 = Vec4 (x4: real) (y4: real) (z4: real) (w4: real)

text \<open>A \<^verbatim>\<open>glm\<close> matrix is indexed column first: \<^verbatim>\<open>m[c][r]\<close> is \<open>m c r\<close>.\<close>

type_synonym mat3 = "nat \<Rightarrow> nat \<Rightarrow> real"
type_synonym mat4 = "nat \<Rightarrow> nat \<Rightarrow> real"

definition mat4_mul_vec4 :: "mat4 \<Rightarrow> vec4 \<Rightarrow> vec4" where
  "mat4_mul_vec4 m v =
     Vec4 (m 0 0 * x4 v + m 1 0 * y4 v + m 2 0 * z4 v + m 3 0 * w4 v)
          (m 0 1 * x4 v + m 1 1 * y4 v + m 2 1 * z4 v + m 3 1 * w4 v)
          (m 0 2 * x4 v + m 1 2 * y4 v + m 2 2 * z4 v + m 3 2 * w4 v)
          (m 0 3 * x4 v + m 1 3 * y4 v + m 2 3 * z4 v + m 3 3 * w4 v)"

definition mat3_mul_vec3 :: "mat3 \<Rightarrow> vec3 \<Rightarrow> vec3" where
  "mat3_mul_vec3 m v =
     Vec3 (m 0 0 * x3 v + m 1 0 * y3 v + m 2 0 * z3 v)
          (m 0 1 * x3 v + m 1 1 * y3 v + m 2 1 * z3 v)
          (m 0 2 * x3 v + m 1 2 * y3 v + m 2 2 * z3 v)"

text \<open>\<^verbatim>\<open>projection[0][0] -= d\<close>: one entry of the matrix changes.\<close>

definition mat4_set :: "mat4 \<Rightarrow> nat \<Rightarrow> nat \<Rightarrow> real \<Rightarrow> mat4" where
  "mat4_set m c r v = m(c := (m c)(r := v))"

text \<open>\<^verbatim>\<open>std::max\<close> and \<^verbatim>\<open>std::min\<close> as the standard library defines them, by \<open><\<close> alone.\<close>

definition std_max :: "real \<Rightarrow> real \<Rightarrow> real" where
  "std_max a b = (if a < b then b else a)"

definition std_min :: "real \<Rightarrow> real \<Rightarrow> real" where
  "std_min a b = (if b < a then b else a)"

text \<open>
  \<^verbatim>\<open>v[i]\<close> on a \<^verbatim>\<open>std::vector\<close> is undefined behaviour out of range; the embedding makes
  that the result \<open>None\<close> of the whole computation.
\<close>

definition at_index :: "'a list \<Rightarrow> nat \<Rightarrow> 'a option" where
  "at_index xs i = (if i < length xs then Some (xs ! i) else None)"

text \<open>\<^verbatim>\<open>for (int i = lo; i < n; ++i) body\<close>, the body being able to fail.\<close>

function for_range :: "nat \<Rightarrow> nat \<Rightarrow> (nat \<Rightarrow> 's \<Rightarrow> 's option) \<Rightarrow> 's \<Rightarrow> 's option" where
  "for_range i n body s =
     (if i < n then (case body i s of None \<Rightarrow> None | Some s' \<Rightarrow> for_range (i + 1) n body s')
      else Some s)"
  by pat_completeness auto
termination
  by (relation "measure (\<lambda>(i, n, body, s). n - i)") auto

declare for_range.simps [simp del]

section \<open>The face model, the parameters and the collaborators\<close>

text \<open>
  The fields of \<^verbatim>\<open>Face\<close> that the solver reads or writes. The rotation and translation
  coefficients are reached through \<^verbatim>\<open>getRotationCoefficients()\<close> and
  \<^verbatim>\<open>getTranslationCoefficients()\<close>, which return references; the basis matrices are flat,
  column-major arrays of \<open>3 * m_number_of_vertices\<close> rows.
\<close>

record Face =
  rotation_coefficients :: vec3
  translation_coefficients :: vec3
  m_shape_coefficients :: "real list"
  m_expression_coefficients :: "real list"
  m_shape_std_dev :: "real list"
  m_expression_std_dev :: "real list"
  m_number_of_vertices :: nat
  m_shape_basis :: "real list"
  m_expression_basis :: "real list"
  m_current_face_gpu :: "vec3 list"

text \<open>\<^verbatim>\<open>m_params\<close>: the configuration the solver reads (its declaration is in a header).\<close>

record Params =
  num_shape_coefficients :: nat
  num_expression_coefficients :: nat
  num_gn_iterations :: int
  num_pcg_iterations :: int
  regularisation_weight_exponent :: real
  kNearZero :: real
  kTolerance :: real

text \<open>The arguments \<^verbatim>\<open>solve\<close> hands to the kernel \<^verbatim>\<open>computeJacobianSparseFeatures\<close>. Of
  the small scratch matrices only the entries initialised before the call are data:
  literal constants, \<open>projection[1][1]\<close> as read on entry (\<open>ja_world11\<close>) and
  \<^verbatim>\<open>jacobian_local\<close>.\<close>

record JacobianArgs =
  ja_nFeatures :: nat
  ja_nShapeCoeffs :: nat
  ja_nExpressionCoeffs :: nat
  ja_nUnknowns :: nat
  ja_nResiduals :: nat
  ja_nVerticesTimes3 :: nat
  ja_nShapeCoeffsTotal :: nat
  ja_nExpressionCoeffsTotal :: nat
  ja_face_pose :: mat4
  ja_drx :: mat3
  ja_dry :: mat3
  ja_drz :: mat3
  ja_projection :: mat4
  ja_world11 :: real
  ja_local :: "nat \<Rightarrow> nat \<Rightarrow> real"
  ja_ids :: "nat list"
  ja_current_face :: "vec3 list"
  ja_keyPts :: "vec2 list"
  ja_shape_basis :: "real list"
  ja_expression_basis :: "real list"

text \<open>
  What the solver calls and this file does not contain is a parameter: the methods of the
  face model, the prior's vertex ids, the CUDA kernels, and the contents of freshly
  allocated memory (\<open>uninitialised\<close>). A kernel writes into buffers allocated by its caller, so it
  is a function from the buffers to the buffers.
\<close>

record Collaborators =
  getPriorIds :: "nat list"
  computeFace_vertices :: "Face \<Rightarrow> vec3 list"
  computeModelMatrix :: "Face \<Rightarrow> mat4"
  computeRotationDerivatives :: "Face \<Rightarrow> mat3 \<times> mat3 \<times> mat3"
  computeJacobianSparseFeatures ::
    "JacobianArgs \<Rightarrow> real list \<times> real list \<Rightarrow> real list \<times> real list"
  computeRegularizer ::
    "Face \<Rightarrow> nat \<Rightarrow> nat \<Rightarrow> nat \<Rightarrow> real \<Rightarrow> real list \<times> real list \<Rightarrow> real list \<times> real list"
  computeJacobiPreconditioner :: "nat \<Rightarrow> nat \<Rightarrow> real list \<Rightarrow> real list"
  elementwiseMultiplication :: "nat \<Rightarrow> real list \<Rightarrow> real list \<Rightarrow> real list"
  uninitialised :: "nat \<Rightarrow> real"

text \<open>Modelled from the spec: \<^verbatim>\<open>Face::computeFace\<close> is not in this file; the spec's
  \<^verbatim>\<open>recomputeGeometry()\<close> "regenerates current vertex positions from coefficients", so it
  replaces the current vertex positions and nothing else.\<close>

definition computeFace :: "Collaborators \<Rightarrow> Face \<Rightarrow> Face" where
  "computeFace env face = face\<lparr>m_current_face_gpu := computeFace_vertices env face\<rparr>"

text \<open>\<^verbatim>\<open>util::DeviceArray<float>(n)\<close>: \<open>n\<close> elements, contents not initialised.\<close>

definition DeviceArray :: "Collaborators \<Rightarrow> nat \<Rightarrow> real list" where
  "DeviceArray env n = map (uninitialised env) [0..<n]"

text \<open>\<^verbatim>\<open>std::powf(10, e)\<close>.\<close>

definition powf :: "real \<Rightarrow> real \<Rightarrow> real" where
  "powf b e = b powr e"

section \<open>cuBLAS level 1 and 2 routines\<close>

text \<open>
  The routines as the cuBLAS documentation specifies them, on arrays with stride 1. The
  result is the destination array after the call; every destination in this file is
  allocated with exactly the number of elements the routine writes. The Jacobian is stored
  column-major with leading dimension \<open>lda\<close>: entry (row \<open>i\<close>, column \<open>j\<close>) is
  \<open>A ! (i + j * lda)\<close>. With \<open>beta = 0\<close> the routine does not read the destination.
\<close>

datatype cublasOperation = CUBLAS_OP_N | CUBLAS_OP_T

definition cublasSgemv ::
  "cublasOperation \<Rightarrow> nat \<Rightarrow> nat \<Rightarrow> real \<Rightarrow> real list \<Rightarrow> nat \<Rightarrow> real list \<Rightarrow> real \<Rightarrow> real list
     \<Rightarrow> real list" where
  "cublasSgemv oper m n alpha A lda xv beta y =
     (case oper of
        CUBLAS_OP_N \<Rightarrow>
          map (\<lambda>i. alpha * (\<Sum>j\<leftarrow>[0..<n]. A ! (i + j * lda) * xv ! j)
                   + (if beta = 0 then 0 else beta * y ! i)) [0..<m]
      | CUBLAS_OP_T \<Rightarrow>
          map (\<lambda>j. alpha * (\<Sum>i\<leftarrow>[0..<m]. A ! (i + j * lda) * xv ! i)
                   + (if beta = 0 then 0 else beta * y ! j)) [0..<n])"

definition cublasSdot :: "nat \<Rightarrow> real list \<Rightarrow> real list \<Rightarrow> real" where
  "cublasSdot n xv yv = (\<Sum>i\<leftarrow>[0..<n]. xv ! i * yv ! i)"

definition cublasSaxpy :: "nat \<Rightarrow> real \<Rightarrow> real list \<Rightarrow> real list \<Rightarrow> real list" where
  "cublasSaxpy n alpha xv yv = map (\<lambda>i. alpha * xv ! i + yv ! i) [0..<n]"

definition cublasSscal :: "nat \<Rightarrow> real \<Rightarrow> real list \<Rightarrow> real list" where
  "cublasSscal n alpha xv = map (\<lambda>i. alpha * xv ! i) [0..<n]"

definition cublasScopy :: "nat \<Rightarrow> real list \<Rightarrow> real list" where
  "cublasScopy n xv = map (\<lambda>i. xv ! i) [0..<n]"

text \<open>\<^verbatim>\<open>x.memset(0)\<close> on an array of \<open>n\<close> floats.\<close>

definition memset0 :: "nat \<Rightarrow> real list" where
  "memset0 n = replicate n 0"

text \<open>\<^verbatim>\<open>util::copy(dst, src, n)\<close> into a destination of \<open>n\<close> elements.\<close>

definition util_copy :: "nat \<Rightarrow> real list \<Rightarrow> real list" where
  "util_copy n src = map (\<lambda>i. src ! i) [0..<n]"

section \<open>The linear solvers\<close>

text \<open>
  The state of the loop of \<^verbatim>\<open>solveUpdatePCG\<close>: the device arrays and the two scalars that
  live across iterations. The last three fields are instrumentation and not program
  state: the denominators the loop has divided by, the inner products it has compared
  with the tolerance, and whether it left through \<^verbatim>\<open>break\<close>.
\<close>

record pcg_state =
  pcg_x :: "real list"
  pcg_r :: "real list"
  pcg_p :: "real list"
  pcg_z :: "real list"
  pcg_Jp :: "real list"
  pcg_JTJp :: "real list"
  pcg_zTr_old :: real
  pcg_zTr :: real
  pcg_divisors :: "real list"
  pcg_tested :: "real list"
  pcg_stopped :: bool

text \<open>The loop body up to the test \<^verbatim>\<open>if (zTr < m_params.kTolerance) break;\<close>.\<close>

definition solveUpdatePCG_head ::
  "Collaborators \<Rightarrow> Params \<Rightarrow> nat \<Rightarrow> nat \<Rightarrow> real list \<Rightarrow> real list \<Rightarrow> real \<Rightarrow> pcg_state
     \<Rightarrow> pcg_state" where
  "solveUpdatePCG_head env params nUnknowns nResiduals jacobian M alphaLHS st =
     (let alpha = 1; beta = 0;
          Jp = cublasSgemv CUBLAS_OP_N nResiduals nUnknowns alphaLHS jacobian nResiduals
                 (pcg_p st) beta (pcg_Jp st);
          JTJp = cublasSgemv CUBLAS_OP_T nResiduals nUnknowns alpha jacobian nResiduals
                 Jp beta (pcg_JTJp st);
          pTJTJp = cublasSdot nUnknowns (pcg_p st) JTJp;
          ak = pcg_zTr_old st / std_max pTJTJp (kNearZero params);
          x = cublasSaxpy nUnknowns ak (pcg_p st) (pcg_x st);
          ak' = ak * (- 1);
          r = cublasSaxpy nUnknowns ak' JTJp (pcg_r st);
          z = elementwiseMultiplication env nUnknowns M r;
          zTr = cublasSdot nUnknowns z r
      in st\<lparr>pcg_x := x, pcg_r := r, pcg_z := z, pcg_Jp := Jp, pcg_JTJp := JTJp, pcg_zTr := zTr,
            pcg_divisors := pcg_divisors st @ [std_max pTJTJp (kNearZero params)],
            pcg_tested := pcg_tested st @ [zTr]\<rparr>)"

text \<open>The rest of the body, reached when the test fails.\<close>

definition solveUpdatePCG_tail :: "Params \<Rightarrow> nat \<Rightarrow> pcg_state \<Rightarrow> pcg_state" where
  "solveUpdatePCG_tail params nUnknowns st =
     (let alpha = 1;
          bk = pcg_zTr st / std_max (pcg_zTr_old st) (kNearZero params);
          p = cublasSscal nUnknowns bk (pcg_p st);
          p' = cublasSaxpy nUnknowns alpha (pcg_z st) p
      in st\<lparr>pcg_p := p', pcg_zTr_old := pcg_zTr st,
            pcg_divisors := pcg_divisors st @ [std_max (pcg_zTr_old st) (kNearZero params)]\<rparr>)"

text \<open>\<^verbatim>\<open>for (; i < std::min(nUnknowns, m_params.num_pcg_iterations); ++i)\<close>; the result
  carries the counter \<open>i\<close> at exit.\<close>

function solveUpdatePCG_loop ::
  "Collaborators \<Rightarrow> Params \<Rightarrow> nat \<Rightarrow> nat \<Rightarrow> real list \<Rightarrow> real list \<Rightarrow> real \<Rightarrow> int \<Rightarrow> pcg_state
     \<Rightarrow> int \<times> pcg_state" where
  "solveUpdatePCG_loop env params nUnknowns nResiduals jacobian M alphaLHS i st =
     (if i < min (int nUnknowns) (num_pcg_iterations params) then
        (let st1 = solveUpdatePCG_head env params nUnknowns nResiduals jacobian M alphaLHS st in
         if pcg_zTr st1 < kTolerance params then (i, st1\<lparr>pcg_stopped := True\<rparr>)
         else solveUpdatePCG_loop env params nUnknowns nResiduals jacobian M alphaLHS (i + 1)
                (solveUpdatePCG_tail params nUnknowns st1))
      else (i, st))"
  by pat_completeness auto
termination
  by (relation "measure (\<lambda>(env, params, nUnknowns, nResiduals, jacobian, M, alphaLHS, i, st).
        nat (min (int nUnknowns) (num_pcg_iterations params) - i))") auto

declare solveUpdatePCG_loop.simps [simp del]

text \<open>The statements of \<^verbatim>\<open>solveUpdatePCG\<close> before the loop.\<close>

definition solveUpdatePCG_init ::
  "Collaborators \<Rightarrow> nat \<Rightarrow> nat \<Rightarrow> real list \<Rightarrow> real list \<Rightarrow> real list \<Rightarrow> real \<Rightarrow> pcg_state" where
  "solveUpdatePCG_init env nUnknowns nResiduals jacobian residuals M alphaRHS =
     (let beta = 0;
          x = memset0 nUnknowns;
          r = cublasSgemv CUBLAS_OP_T nResiduals nUnknowns alphaRHS jacobian nResiduals
                residuals beta (DeviceArray env nUnknowns);
          z = elementwiseMultiplication env nUnknowns M r;
          p = cublasScopy nUnknowns z;
          zTr_old = cublasSdot nUnknowns z r
      in \<lparr>pcg_x = x, pcg_r = r, pcg_p = p, pcg_z = z,
          pcg_Jp = DeviceArray env nResiduals, pcg_JTJp = DeviceArray env nUnknowns,
          pcg_zTr_old = zTr_old, pcg_zTr = 0,
          pcg_divisors = [], pcg_tested = [], pcg_stopped = False\<rparr>)"

definition solveUpdatePCG_run ::
  "Collaborators \<Rightarrow> Params \<Rightarrow> nat \<Rightarrow> nat \<Rightarrow> real list \<Rightarrow> real list \<Rightarrow> real \<Rightarrow> real
     \<Rightarrow> int \<times> pcg_state" where
  "solveUpdatePCG_run env params nUnknowns nResiduals jacobian residuals alphaLHS alphaRHS =
     (let M = computeJacobiPreconditioner env nUnknowns nResiduals jacobian
      in solveUpdatePCG_loop env params nUnknowns nResiduals jacobian M alphaLHS 0
           (solveUpdatePCG_init env nUnknowns nResiduals jacobian residuals M alphaRHS))"

text \<open>\<^verbatim>\<open>solveUpdatePCG\<close> returns nothing; its output is the array \<open>x\<close>.\<close>

definition solveUpdatePCG ::
  "Collaborators \<Rightarrow> Params \<Rightarrow> nat \<Rightarrow> nat \<Rightarrow> real list \<Rightarrow> real list \<Rightarrow> real \<Rightarrow> real \<Rightarrow> real list" where
  "solveUpdatePCG env params nUnknowns nResiduals jacobian residuals alphaLHS alphaRHS =
     pcg_x (snd (solveUpdatePCG_run env params nUnknowns nResiduals jacobian residuals
                   alphaLHS alphaRHS))"

text \<open>\<^verbatim>\<open>solveUpdateCG\<close>, in the same way.\<close>

record cg_state =
  cg_x :: "real list"
  cg_r :: "real list"
  cg_p :: "real list"
  cg_Jp :: "real list"
  cg_JTJp :: "real list"
  cg_rTr_old :: real
  cg_rTr :: real
  cg_divisors :: "real list"
  cg_tested :: "real list"
  cg_stopped :: bool

definition solveUpdateCG_head ::
  "Params \<Rightarrow> nat \<Rightarrow> nat \<Rightarrow> real list \<Rightarrow> real \<Rightarrow> cg_state \<Rightarrow> cg_state" where
  "solveUpdateCG_head params nUnknowns nResiduals jacobian alphaLHS st =
     (let alpha = 1; beta = 0;
          Jp = cublasSgemv CUBLAS_OP_N nResiduals nUnknowns alphaLHS jacobian nResiduals
                 (cg_p st) beta (cg_Jp st);
          JTJp = cublasSgemv CUBLAS_OP_T nResiduals nUnknowns alpha jacobian nResiduals
                 Jp beta (cg_JTJp st);
          rTr_old = cg_rTr st;
          pTJTJp = cublasSdot nUnknowns (cg_p st) JTJp;
          ak = cg_rTr st / std_max pTJTJp (kNearZero params);
          x = cublasSaxpy nUnknowns ak (cg_p st) (cg_x st);
          ak' = ak * (- 1);
          r = cublasSaxpy nUnknowns ak' JTJp (cg_r st);
          rTr = cublasSdot nUnknowns r r
      in st\<lparr>cg_x := x, cg_r := r, cg_Jp := Jp, cg_JTJp := JTJp, cg_rTr_old := rTr_old,
            cg_rTr := rTr,
            cg_divisors := cg_divisors st @ [std_max pTJTJp (kNearZero params)],
            cg_tested := cg_tested st @ [rTr]\<rparr>)"

definition solveUpdateCG_tail :: "Params \<Rightarrow> nat \<Rightarrow> cg_state \<Rightarrow> cg_state" where
  "solveUpdateCG_tail params nUnknowns st =
     (let alpha = 1;
          bk = cg_rTr st / std_max (cg_rTr_old st) (kNearZero params);
          p = cublasSscal nUnknowns bk (cg_p st);
          p' = cublasSaxpy nUnknowns alpha (cg_r st) p
      in st\<lparr>cg_p := p',
            cg_divisors := cg_divisors st @ [std_max (cg_rTr_old st) (kNearZero params)]\<rparr>)"

function solveUpdateCG_loop ::
  "Params \<Rightarrow> nat \<Rightarrow> nat \<Rightarrow> real list \<Rightarrow> real \<Rightarrow> int \<Rightarrow> cg_state \<Rightarrow> int \<times> cg_state" where
  "solveUpdateCG_loop params nUnknowns nResiduals jacobian alphaLHS i st =
     (if i < min (int nUnknowns) (num_pcg_iterations params) then
        (let st1 = solveUpdateCG_head params nUnknowns nResiduals jacobian alphaLHS st in
         if cg_rTr st1 < kTolerance params then (i, st1\<lparr>cg_stopped := True\<rparr>)
         else solveUpdateCG_loop params nUnknowns nResiduals jacobian alphaLHS (i + 1)
                (solveUpdateCG_tail params nUnknowns st1))
      else (i, st))"
  by pat_completeness auto
termination
  by (relation "measure (\<lambda>(params, nUnknowns, nResiduals, jacobian, alphaLHS, i, st).
        nat (min (int nUnknowns) (num_pcg_iterations params) - i))") auto

declare solveUpdateCG_loop.simps [simp del]

definition solveUpdateCG_init ::
  "Collaborators \<Rightarrow> nat \<Rightarrow> nat \<Rightarrow> real list \<Rightarrow> real list \<Rightarrow> real \<Rightarrow> cg_state" where
  "solveUpdateCG_init env nUnknowns nResiduals jacobian residuals alphaRHS =
     (let beta = 0;
          x = memset0 nUnknowns;
          r = cublasSgemv CUBLAS_OP_T nResiduals nUnknowns alphaRHS jacobian nResiduals
                residuals beta (DeviceArray env nUnknowns);
          p = cublasScopy nUnknowns r;
          rTr = cublasSdot nUnknowns r r
      in \<lparr>cg_x = x, cg_r = r, cg_p = p,
          cg_Jp = DeviceArray env nResiduals, cg_JTJp = DeviceArray env nUnknowns,
          cg_rTr_old = 0, cg_rTr = rTr,
          cg_divisors = [], cg_tested = [], cg_stopped = False\<rparr>)"

definition solveUpdateCG_run ::
  "Collaborators \<Rightarrow> Params \<Rightarrow> nat \<Rightarrow> nat \<Rightarrow> real list \<Rightarrow> real list \<Rightarrow> real \<Rightarrow> real
     \<Rightarrow> int \<times> cg_state" where
  "solveUpdateCG_run env params nUnknowns nResiduals jacobian residuals alphaLHS alphaRHS =
     solveUpdateCG_loop params nUnknowns nResiduals jacobian alphaLHS 0
       (solveUpdateCG_init env nUnknowns nResiduals jacobian residuals alphaRHS)"

definition solveUpdateCG ::
  "Collaborators \<Rightarrow> Params \<Rightarrow> nat \<Rightarrow> nat \<Rightarrow> real list \<Rightarrow> real list \<Rightarrow> real \<Rightarrow> real \<Rightarrow> real list" where
  "solveUpdateCG env params nUnknowns nResiduals jacobian residuals alphaLHS alphaRHS =
     cg_x (snd (solveUpdateCG_run env params nUnknowns nResiduals jacobian residuals
                  alphaLHS alphaRHS))"

section \<open>Applying the step\<close>

text \<open>
  Lines 391 to 413 of \<^verbatim>\<open>solve\<close>. The two coefficient loops carry
  \<^verbatim>\<open>#pragma omp parallel for\<close>; iteration \<open>i\<close> reads and writes element \<open>i\<close> only, so the
  loops are modelled in index order.
\<close>

definition solve_update_shape :: "real list \<Rightarrow> nat \<Rightarrow> Face \<Rightarrow> Face option" where
  "solve_update_shape result i face =
     do {
       coeff \<leftarrow> at_index (m_shape_coefficients face) i;
       delta \<leftarrow> at_index result (7 + i);
       sigma \<leftarrow> at_index (m_shape_std_dev face) i;
       let sca = 1;
       let c = coeff - delta * sca / sigma;
       Some (face\<lparr>m_shape_coefficients := (m_shape_coefficients face)[i := c]\<rparr>)
     }"

definition solve_update_expression :: "real list \<Rightarrow> nat \<Rightarrow> nat \<Rightarrow> Face \<Rightarrow> Face option" where
  "solve_update_expression result nShapeCoeffs i face =
     do {
       coeff \<leftarrow> at_index (m_expression_coefficients face) i;
       delta \<leftarrow> at_index result (7 + nShapeCoeffs + i);
       sigma \<leftarrow> at_index (m_expression_std_dev face) i;
       let sca = 1;
       let c = coeff - delta * sca / sigma;
       Some (face\<lparr>m_expression_coefficients :=
                    (m_expression_coefficients face)[i := std_max 0 (std_min 1 c)]\<rparr>)
     }"

definition solve_apply_step ::
  "nat \<Rightarrow> nat \<Rightarrow> real list \<Rightarrow> Face \<Rightarrow> mat4 \<Rightarrow> (Face \<times> mat4) option" where
  "solve_apply_step nShapeCoeffs nExpressionCoeffs result face projection =
     do {
       r0 \<leftarrow> at_index result 0;
       let projection = mat4_set projection 0 0 (projection 0 0 - r0);
       r1 \<leftarrow> at_index result 1;
       r2 \<leftarrow> at_index result 2;
       r3 \<leftarrow> at_index result 3;
       let face = face\<lparr>rotation_coefficients :=
                    Vec3 (x3 (rotation_coefficients face) - r1)
                         (y3 (rotation_coefficients face) - r2)
                         (z3 (rotation_coefficients face) - r3)\<rparr>;
       r4 \<leftarrow> at_index result 4;
       r5 \<leftarrow> at_index result 5;
       r6 \<leftarrow> at_index result 6;
       let face = face\<lparr>translation_coefficients :=
                    Vec3 (x3 (translation_coefficients face) - r4)
                         (y3 (translation_coefficients face) - r5)
                         (z3 (translation_coefficients face) - r6)\<rparr>;
       face \<leftarrow> for_range 0 nShapeCoeffs (solve_update_shape result) face;
       face \<leftarrow> for_range 0 nExpressionCoeffs (solve_update_expression result nShapeCoeffs) face;
       Some (face, projection)
     }"

text \<open>Lines 237 to 260 of \<^verbatim>\<open>solve_CPU\<close>, the second copy of the same block.\<close>

definition solve_CPU_update_shape :: "real list \<Rightarrow> nat \<Rightarrow> Face \<Rightarrow> Face option" where
  "solve_CPU_update_shape result i face =
     do {
       coeff \<leftarrow> at_index (m_shape_coefficients face) i;
       delta \<leftarrow> at_index result (7 + i);
       sigma \<leftarrow> at_index (m_shape_std_dev face) i;
       let sca = 1;
       let c = coeff - delta * sca / sigma;
       Some (face\<lparr>m_shape_coefficients := (m_shape_coefficients face)[i := c]\<rparr>)
     }"

definition solve_CPU_update_expression ::
  "real list \<Rightarrow> nat \<Rightarrow> nat \<Rightarrow> Face \<Rightarrow> Face option" where
  "solve_CPU_update_expression result nShapeCoeffs i face =
     do {
       coeff \<leftarrow> at_index (m_expression_coefficients face) i;
       delta \<leftarrow> at_index result (7 + nShapeCoeffs + i);
       sigma \<leftarrow> at_index (m_expression_std_dev face) i;
       let sca = 1;
       let c = coeff - delta * sca / sigma;
       Some (face\<lparr>m_expression_coefficients :=
                    (m_expression_coefficients face)[i := std_max 0 (std_min 1 c)]\<rparr>)
     }"

definition solve_CPU_apply_step ::
  "nat \<Rightarrow> nat \<Rightarrow> real list \<Rightarrow> Face \<Rightarrow> mat4 \<Rightarrow> (Face \<times> mat4) option" where
  "solve_CPU_apply_step nShapeCoeffs nExpressionCoeffs result face projection =
     do {
       r0 \<leftarrow> at_index result 0;
       let projection = mat4_set projection 0 0 (projection 0 0 - r0);
       r1 \<leftarrow> at_index result 1;
       r2 \<leftarrow> at_index result 2;
       r3 \<leftarrow> at_index result 3;
       let face = face\<lparr>rotation_coefficients :=
                    Vec3 (x3 (rotation_coefficients face) - r1)
                         (y3 (rotation_coefficients face) - r2)
                         (z3 (rotation_coefficients face) - r3)\<rparr>;
       r4 \<leftarrow> at_index result 4;
       r5 \<leftarrow> at_index result 5;
       r6 \<leftarrow> at_index result 6;
       let face = face\<lparr>translation_coefficients :=
                    Vec3 (x3 (translation_coefficients face) - r4)
                         (y3 (translation_coefficients face) - r5)
                         (z3 (translation_coefficients face) - r6)\<rparr>;
       face \<leftarrow> for_range 0 nShapeCoeffs (solve_CPU_update_shape result) face;
       face \<leftarrow> for_range 0 nExpressionCoeffs
                 (solve_CPU_update_expression result nShapeCoeffs) face;
       Some (face, projection)
     }"

section \<open>The Gauss-Newton driver \<^verbatim>\<open>solve\<close>\<close>

text \<open>
  The calls one iteration of \<^verbatim>\<open>solve\<close> makes, in the order it makes them, are recorded:
  the linear solve with the vector it returned, the application of the step with the
  vector it applied. The record is instrumentation.
\<close>

datatype call =
    Call_computeFace
  | Call_computeModelMatrix
  | Call_computeRotationDerivatives
  | Call_computeJacobianSparseFeatures
  | Call_computeRegularizer
  | Call_solveUpdatePCG "real list"
  | Apply_step "real list"

record gn_state =
  gn_face :: Face
  gn_projection :: mat4
  gn_jacobian_gpu :: "real list"
  gn_residuals_gpu :: "real list"
  gn_result_gpu :: "real list"
  gn_calls :: "call list"

text \<open>The first part of the body of the loop of \<^verbatim>\<open>solve\<close> (lines 353 to 382): the
  face model recomputes its geometry, its model matrix and its rotation derivatives, and
  the two kernels fill the Jacobian and the residuals. \<open>world11\<close> is
  \<^verbatim>\<open>jacobian_world(1, 1)\<close>, set before the loop.\<close>

definition solve_linearise ::
  "Collaborators \<Rightarrow> Params \<Rightarrow> vec2 list \<Rightarrow> real \<Rightarrow> gn_state \<Rightarrow> Face \<times> real list \<times> real list" where
  "solve_linearise env params sparse_features world11 st =
     (let nFeatures = length sparse_features;
          nShapeCoeffs = num_shape_coefficients params;
          nExpressionCoeffs = num_expression_coefficients params;
          nFaceCoeffs = nShapeCoeffs + nExpressionCoeffs;
          nUnknowns = 7 + nFaceCoeffs;
          nResiduals = 2 * nFeatures + nFaceCoeffs;
          regulatization_weigth = powf 10 (regularisation_weight_exponent params);
          face = computeFace env (gn_face st);
          face_pose = computeModelMatrix env face;
          jacobian_local = (\<lambda>r c. face_pose c r);
          (drx, dry, drz) = computeRotationDerivatives env face;
          args = \<lparr>ja_nFeatures = nFeatures, ja_nShapeCoeffs = nShapeCoeffs,
                  ja_nExpressionCoeffs = nExpressionCoeffs, ja_nUnknowns = nUnknowns,
                  ja_nResiduals = nResiduals,
                  ja_nVerticesTimes3 = m_number_of_vertices face * 3,
                  ja_nShapeCoeffsTotal = length (m_shape_coefficients face),
                  ja_nExpressionCoeffsTotal = length (m_expression_coefficients face),
                  ja_face_pose = face_pose, ja_drx = drx, ja_dry = dry, ja_drz = drz,
                  ja_projection = gn_projection st, ja_world11 = world11,
                  ja_local = jacobian_local, ja_ids = getPriorIds env,
                  ja_current_face = m_current_face_gpu face, ja_keyPts = sparse_features,
                  ja_shape_basis = m_shape_basis face,
                  ja_expression_basis = m_expression_basis face\<rparr>;
          buffers = computeJacobianSparseFeatures env args
                      (gn_jacobian_gpu st, gn_residuals_gpu st);
          (jacobian_gpu, residuals_gpu) =
             computeRegularizer env face (2 * nFeatures) nUnknowns nResiduals
               regulatization_weigth buffers
      in (face, jacobian_gpu, residuals_gpu))"

text \<open>The body of the loop of \<^verbatim>\<open>solve\<close> (lines 351 to 414).\<close>

definition solve_iteration ::
  "Collaborators \<Rightarrow> Params \<Rightarrow> vec2 list \<Rightarrow> real \<Rightarrow> gn_state \<Rightarrow> gn_state option" where
  "solve_iteration env params sparse_features world11 st =
     (let nFeatures = length sparse_features;
          nShapeCoeffs = num_shape_coefficients params;
          nExpressionCoeffs = num_expression_coefficients params;
          nFaceCoeffs = nShapeCoeffs + nExpressionCoeffs;
          nUnknowns = 7 + nFaceCoeffs;
          nResiduals = 2 * nFeatures + nFaceCoeffs;
          (face, jacobian_gpu, residuals_gpu) =
             solve_linearise env params sparse_features world11 st;
          result_gpu = solveUpdatePCG env params nUnknowns nResiduals jacobian_gpu
                         residuals_gpu 2 (- 1);
          result = util_copy nUnknowns result_gpu
      in case solve_apply_step nShapeCoeffs nExpressionCoeffs result face (gn_projection st) of
           None \<Rightarrow> None
         | Some (face', projection') \<Rightarrow>
             Some \<lparr>gn_face = face', gn_projection = projection',
                   gn_jacobian_gpu = jacobian_gpu, gn_residuals_gpu = residuals_gpu,
                   gn_result_gpu = result_gpu,
                   gn_calls = gn_calls st @
                     [Call_computeFace, Call_computeModelMatrix,
                      Call_computeRotationDerivatives, Call_computeJacobianSparseFeatures,
                      Call_computeRegularizer, Call_solveUpdatePCG result_gpu,
                      Apply_step result]\<rparr>)"

text \<open>\<^verbatim>\<open>for (int iteration = 0; iteration < m_params.num_gn_iterations; ++iteration)\<close>.\<close>

function solve_loop ::
  "Collaborators \<Rightarrow> Params \<Rightarrow> vec2 list \<Rightarrow> real \<Rightarrow> int \<Rightarrow> gn_state \<Rightarrow> gn_state option" where
  "solve_loop env params sparse_features world11 iteration st =
     (if iteration < num_gn_iterations params then
        (case solve_iteration env params sparse_features world11 st of
           None \<Rightarrow> None
         | Some st' \<Rightarrow> solve_loop env params sparse_features world11 (iteration + 1) st')
      else Some st)"
  by pat_completeness auto
termination
  by (relation "measure (\<lambda>(env, params, sparse_features, world11, iteration, st).
        nat (num_gn_iterations params - iteration))") auto

declare solve_loop.simps [simp del]

text \<open>\<^verbatim>\<open>GaussNewtonSolver::solve\<close>. It returns nothing; its outputs are the face model and
  the projection matrix it was given by reference, here with the record of calls.\<close>

definition solve ::
  "Collaborators \<Rightarrow> Params \<Rightarrow> vec2 list \<Rightarrow> Face \<Rightarrow> mat4 \<Rightarrow> (Face \<times> mat4 \<times> call list) option" where
  "solve env params sparse_features face projection =
     (if sparse_features = [] then Some (face, projection, [])
      else
        (let nFeatures = length sparse_features;
             nShapeCoeffs = num_shape_coefficients params;
             nExpressionCoeffs = num_expression_coefficients params;
             nFaceCoeffs = nShapeCoeffs + nExpressionCoeffs;
             nUnknowns = 7 + nFaceCoeffs;
             nResiduals = 2 * nFeatures + nFaceCoeffs;
             st0 = \<lparr>gn_face = face, gn_projection = projection,
                    gn_jacobian_gpu = DeviceArray env (nUnknowns * nResiduals),
                    gn_residuals_gpu = DeviceArray env nResiduals,
                    gn_result_gpu = DeviceArray env nUnknowns,
                    gn_calls = []\<rparr>
         in case solve_loop env params sparse_features (projection 1 1) 0 st0 of
              None \<Rightarrow> None
            | Some st \<Rightarrow> Some (gn_face st, gn_projection st, gn_calls st)))"

section \<open>The host path \<^verbatim>\<open>solve_CPU\<close>\<close>

text \<open>
  A fixed-size Eigen matrix is a function of (row, column). The Jacobian
  \<^verbatim>\<open>Eigen::MatrixXf jacobian(nResiduals, nUnknowns)\<close> is its column-major data, which is
  what \<^verbatim>\<open>jacobian.data()\<close> hands to the device: entry (row \<open>r\<close>, column \<open>c\<close>) is element
  \<open>r + c * nResiduals\<close>.
\<close>

type_synonym emat = "nat \<Rightarrow> nat \<Rightarrow> real"

definition emat_mul :: "nat \<Rightarrow> emat \<Rightarrow> emat \<Rightarrow> emat" where
  "emat_mul k A B = (\<lambda>r c. \<Sum>j\<leftarrow>[0..<k]. A r j * B j c)"

definition jac_index :: "nat \<Rightarrow> nat \<Rightarrow> nat \<Rightarrow> nat" where
  "jac_index nRows r c = r + c * nRows"

text \<open>\<^verbatim>\<open>jacobian.block(r0, c0, nr, nc) = B\<close>.\<close>

definition set_block :: "nat \<Rightarrow> real list \<Rightarrow> nat \<Rightarrow> nat \<Rightarrow> nat \<Rightarrow> nat \<Rightarrow> emat \<Rightarrow> real list" where
  "set_block nRows J r0 c0 nr nc B =
     fold (\<lambda>(r, c) J. J[jac_index nRows (r0 + r) (c0 + c) := B r c])
       (List.product [0..<nr] [0..<nc]) J"

text \<open>\<^verbatim>\<open>Eigen::Map<Eigen::MatrixXf>(data, rows, cols).block(startRow, 0, 3, nCols)\<close>: it
  fails when the block leaves the matrix or the matrix leaves the data.\<close>

definition basis_block :: "real list \<Rightarrow> nat \<Rightarrow> nat \<Rightarrow> nat \<Rightarrow> nat \<Rightarrow> emat option" where
  "basis_block data rows cols startRow nCols =
     (if rows * cols \<le> length data \<and> startRow + 3 \<le> rows \<and> nCols \<le> cols
      then Some (\<lambda>r c. data ! ((startRow + r) + c * rows)) else None)"

text \<open>The body of the loop over the sparse features (lines 125 to 184).\<close>

definition solve_CPU_feature ::
  "nat list \<Rightarrow> vec2 list \<Rightarrow> Face \<Rightarrow> vec3 list \<Rightarrow> mat4 \<Rightarrow> mat3 \<Rightarrow> mat3 \<Rightarrow> mat3 \<Rightarrow> mat4 \<Rightarrow> real \<Rightarrow> emat
     \<Rightarrow> nat \<Rightarrow> nat \<Rightarrow> nat \<Rightarrow> nat \<Rightarrow> real list \<times> real list \<Rightarrow> (real list \<times> real list) option" where
  "solve_CPU_feature prior_local_ids sparse_features face current_face face_pose drx dry drz
       projection world11 jacobian_local nResiduals nShapeCoeffs nExpressionCoeffs i buffers =
     (case buffers of (jacobian, residuals) \<Rightarrow>
      do {
        vertexId \<leftarrow> at_index prior_local_ids i;
        local_coord \<leftarrow> at_index current_face vertexId;
        feature \<leftarrow> at_index sparse_features i;
        let world_coord =
              mat4_mul_vec4 face_pose (Vec4 (x3 local_coord) (y3 local_coord) (z3 local_coord) 1);
        let proj_coord = mat4_mul_vec4 projection world_coord;
        let uv = Vec2 (x4 proj_coord / w4 proj_coord) (y4 proj_coord / w4 proj_coord);
        let residual = Vec2 (x2 feature - x2 uv) (y2 feature - y2 uv);
        let residuals = residuals[i * 2 := x2 residual];
        let residuals = residuals[i * 2 + 1 := y2 residual];
        let one_over_wp = 1 / w4 proj_coord;
        let jacobian_proj = (\<lambda>r c.
              if r = 0 \<and> c = 0 then one_over_wp
              else if r = 0 \<and> c = 2 then - x4 proj_coord * one_over_wp * one_over_wp
              else if r = 1 \<and> c = 1 then one_over_wp
              else if r = 1 \<and> c = 2 then - y4 proj_coord * one_over_wp * one_over_wp
              else 0);
        let jacobian_world = (\<lambda>r c.
              if r = 0 \<and> c = 0 then projection 0 0
              else if r = 1 \<and> c = 1 then world11
              else if r = 2 \<and> c = 2 then - 1
              else 0);
        let jacobian_intrinsics = (\<lambda>r c. if r = 0 \<and> c = 0 then x4 world_coord else 0);
        let jacobian = set_block nResiduals jacobian (i * 2) 0 2 1
                         (emat_mul 3 jacobian_proj jacobian_intrinsics);
        let dx = mat3_mul_vec3 drx local_coord;
        let dy = mat3_mul_vec3 dry local_coord;
        let dz = mat3_mul_vec3 drz local_coord;
        let jacobian_pose = (\<lambda>r c.
              if c = 0 then (if r = 0 then x3 dx else if r = 1 then y3 dx else z3 dx)
              else if c = 1 then (if r = 0 then x3 dy else if r = 1 then y3 dy else z3 dy)
              else if c = 2 then (if r = 0 then x3 dz else if r = 1 then y3 dz else z3 dz)
              else if c = r + 3 then 1 else 0);
        let jacobian_proj_world = emat_mul 3 jacobian_proj jacobian_world;
        let jacobian = set_block nResiduals jacobian (i * 2) 1 2 6
                         (emat_mul 3 jacobian_proj_world jacobian_pose);
        let jacobian_proj_world_local = emat_mul 3 jacobian_proj_world jacobian_local;
        shape_rows \<leftarrow> basis_block (m_shape_basis face) (m_number_of_vertices face * 3)
                        (length (m_shape_coefficients face)) (3 * vertexId) nShapeCoeffs;
        let jacobian_shape = emat_mul 3 jacobian_proj_world_local shape_rows;
        let jacobian = set_block nResiduals jacobian (i * 2) 7 2 nShapeCoeffs jacobian_shape;
        expression_rows \<leftarrow> basis_block (m_expression_basis face) (m_number_of_vertices face * 3)
                        (length (m_expression_coefficients face)) (3 * vertexId)
                        nExpressionCoeffs;
        let jacobian_expression = emat_mul 3 jacobian_proj_world_local expression_rows;
        let jacobian = set_block nResiduals jacobian (i * 2) (7 + nShapeCoeffs) 2
                         nExpressionCoeffs jacobian_expression;
        Some (jacobian, residuals)
      })"

text \<open>The bodies of the two loops of the regulariser (lines 195 to 206).\<close>

definition solve_CPU_regularizer_shape ::
  "Face \<Rightarrow> real \<Rightarrow> nat \<Rightarrow> nat \<Rightarrow> nat \<Rightarrow> nat \<Rightarrow> real list \<times> real list
     \<Rightarrow> (real list \<times> real list) option" where
  "solve_CPU_regularizer_shape face wReg nResiduals offset_rows_shape offset_cols_shape i buffers =
     (case buffers of (jacobian, residuals) \<Rightarrow>
      do {
        sigma \<leftarrow> at_index (m_shape_std_dev face) i;
        let divSigma = 1 / sigma;
        coeff \<leftarrow> at_index (m_shape_coefficients face) i;
        let jacobian = jacobian[jac_index nResiduals (offset_rows_shape + i) (offset_cols_shape + i)
                         := divSigma * divSigma * coeff * wReg * 2];
        let residuals = residuals[offset_rows_shape + i := 0];
        Some (jacobian, residuals)
      })"

definition solve_CPU_regularizer_expression ::
  "Face \<Rightarrow> real \<Rightarrow> nat \<Rightarrow> nat \<Rightarrow> nat \<Rightarrow> nat \<Rightarrow> real list \<times> real list
     \<Rightarrow> (real list \<times> real list) option" where
  "solve_CPU_regularizer_expression face wReg nResiduals offset_rows_expression
       offset_cols_expression i buffers =
     (case buffers of (jacobian, residuals) \<Rightarrow>
      do {
        sigma \<leftarrow> at_index (m_expression_std_dev face) i;
        let divSigma = 1 / sigma;
        coeff \<leftarrow> at_index (m_expression_coefficients face) i;
        let jacobian = jacobian[jac_index nResiduals (offset_rows_expression + i)
                                  (offset_cols_expression + i)
                         := divSigma * divSigma * coeff * wReg * 2];
        let residuals = residuals[offset_rows_expression + i := 0];
        Some (jacobian, residuals)
      })"

text \<open>Lines 109 to 207: the Jacobian and the residuals of one iteration, built on the
  host from the face model as \<^verbatim>\<open>computeFace\<close> left it.\<close>

definition solve_CPU_build ::
  "Collaborators \<Rightarrow> Params \<Rightarrow> vec2 list \<Rightarrow> real \<Rightarrow> Face \<Rightarrow> mat4 \<Rightarrow> real list \<times> real list
     \<Rightarrow> (real list \<times> real list) option" where
  "solve_CPU_build env params sparse_features world11 face projection buffers =
     (let nFeatures = length sparse_features;
          nShapeCoeffs = num_shape_coefficients params;
          nExpressionCoeffs = num_expression_coefficients params;
          nFaceCoeffs = nShapeCoeffs + nExpressionCoeffs;
          nResiduals = 2 * nFeatures + nFaceCoeffs;
          wReg = powf 10 (regularisation_weight_exponent params);
          prior_local_ids = getPriorIds env
      in do {
        current_face \<leftarrow>
          (if m_number_of_vertices face \<le> length (m_current_face_gpu face)
           then Some (take (m_number_of_vertices face) (m_current_face_gpu face)) else None);
        let face_pose = computeModelMatrix env face;
        let jacobian_local = (\<lambda>r c. face_pose c r);
        let (drx, dry, drz) = computeRotationDerivatives env face;
        buffers \<leftarrow> for_range 0 nFeatures
          (solve_CPU_feature prior_local_ids sparse_features face current_face face_pose
             drx dry drz projection world11 jacobian_local nResiduals nShapeCoeffs
             nExpressionCoeffs) buffers;
        let offset_cols_shape = 7;
        let offset_rows_shape = 2 * nFeatures;
        let offset_cols_expression = offset_cols_shape + nShapeCoeffs;
        let offset_rows_expression = offset_rows_shape + nShapeCoeffs;
        buffers \<leftarrow> for_range 0 nShapeCoeffs
          (solve_CPU_regularizer_shape face wReg nResiduals offset_rows_shape
             offset_cols_shape) buffers;
        for_range 0 nExpressionCoeffs
          (solve_CPU_regularizer_expression face wReg nResiduals offset_rows_expression
             offset_cols_expression) buffers
      })"

record cpu_state =
  cpu_face :: Face
  cpu_projection :: mat4
  cpu_jacobian :: "real list"
  cpu_residuals :: "real list"
  cpu_jacobian_gpu :: "real list"
  cpu_residuals_gpu :: "real list"
  cpu_result_gpu :: "real list"

text \<open>The body of the loop of \<^verbatim>\<open>solve_CPU\<close> (lines 108 to 272).\<close>

definition solve_CPU_iteration ::
  "Collaborators \<Rightarrow> Params \<Rightarrow> vec2 list \<Rightarrow> real \<Rightarrow> cpu_state \<Rightarrow> cpu_state option" where
  "solve_CPU_iteration env params sparse_features world11 st =
     (let nFeatures = length sparse_features;
          nShapeCoeffs = num_shape_coefficients params;
          nExpressionCoeffs = num_expression_coefficients params;
          nFaceCoeffs = nShapeCoeffs + nExpressionCoeffs;
          nUnknowns = 7 + nFaceCoeffs;
          nResiduals = 2 * nFeatures + nFaceCoeffs;
          face = computeFace env (cpu_face st)
      in do {
        (jacobian, residuals) \<leftarrow>
          solve_CPU_build env params sparse_features world11 face (cpu_projection st)
            (cpu_jacobian st, cpu_residuals st);
        let jacobian_gpu = util_copy (nUnknowns * nResiduals) jacobian;
        let residuals_gpu = util_copy nResiduals residuals;
        let result_gpu = solveUpdatePCG env params nUnknowns nResiduals jacobian_gpu
                           residuals_gpu 2 (- 1);
        let result = util_copy nUnknowns result_gpu;
        (face', projection') \<leftarrow>
          solve_CPU_apply_step nShapeCoeffs nExpressionCoeffs result face (cpu_projection st);
        Some \<lparr>cpu_face = face', cpu_projection = projection',
              cpu_jacobian = jacobian, cpu_residuals = residuals,
              cpu_jacobian_gpu = jacobian_gpu, cpu_residuals_gpu = residuals_gpu,
              cpu_result_gpu = result_gpu\<rparr>
      })"

function solve_CPU_loop ::
  "Collaborators \<Rightarrow> Params \<Rightarrow> vec2 list \<Rightarrow> real \<Rightarrow> int \<Rightarrow> cpu_state \<Rightarrow> cpu_state option" where
  "solve_CPU_loop env params sparse_features world11 iteration st =
     (if iteration < num_gn_iterations params then
        (case solve_CPU_iteration env params sparse_features world11 st of
           None \<Rightarrow> None
         | Some st' \<Rightarrow> solve_CPU_loop env params sparse_features world11 (iteration + 1) st')
      else Some st)"
  by pat_completeness auto
termination
  by (relation "measure (\<lambda>(env, params, sparse_features, world11, iteration, st).
        nat (num_gn_iterations params - iteration))") auto

declare solve_CPU_loop.simps [simp del]

text \<open>The statements of \<^verbatim>\<open>solve_CPU\<close> before the loop: the Jacobian is zeroed once,
  here; the residual vector is allocated without initialisation.\<close>

definition solve_CPU_init :: "Collaborators \<Rightarrow> Params \<Rightarrow> vec2 list \<Rightarrow> Face \<Rightarrow> mat4 \<Rightarrow> cpu_state" where
  "solve_CPU_init env params sparse_features face projection =
     (let nFeatures = length sparse_features;
          nShapeCoeffs = num_shape_coefficients params;
          nExpressionCoeffs = num_expression_coefficients params;
          nFaceCoeffs = nShapeCoeffs + nExpressionCoeffs;
          nUnknowns = 7 + nFaceCoeffs;
          nResiduals = 2 * nFeatures + nFaceCoeffs
      in \<lparr>cpu_face = face, cpu_projection = projection,
          cpu_jacobian = replicate (nResiduals * nUnknowns) 0,
          cpu_residuals = map (uninitialised env) [0..<nResiduals],
          cpu_jacobian_gpu = DeviceArray env (nUnknowns * nResiduals),
          cpu_residuals_gpu = DeviceArray env nResiduals,
          cpu_result_gpu = DeviceArray env nUnknowns\<rparr>)"

text \<open>\<^verbatim>\<open>GaussNewtonSolver::solve_CPU\<close>.\<close>

definition solve_CPU ::
  "Collaborators \<Rightarrow> Params \<Rightarrow> vec2 list \<Rightarrow> Face \<Rightarrow> mat4 \<Rightarrow> (Face \<times> mat4) option" where
  "solve_CPU env params sparse_features face projection =
     (if sparse_features = [] then Some (face, projection)
      else
        (case solve_CPU_loop env params sparse_features (projection 1 1) 0
                (solve_CPU_init env params sparse_features face projection) of
           None \<Rightarrow> None
         | Some st \<Rightarrow> Some (cpu_face st, cpu_projection st)))"

text \<open>The states at the head of the loop of \<^verbatim>\<open>solve_CPU\<close> that follow a given one.\<close>

inductive solve_CPU_reaches ::
  "Collaborators \<Rightarrow> Params \<Rightarrow> vec2 list \<Rightarrow> real \<Rightarrow> cpu_state \<Rightarrow> cpu_state \<Rightarrow> bool"
  for env params sparse_features world11 st where
    reaches_start: "solve_CPU_reaches env params sparse_features world11 st st"
  | reaches_step:
      "solve_CPU_reaches env params sparse_features world11 st st1 \<Longrightarrow>
       solve_CPU_iteration env params sparse_features world11 st1 = Some st2 \<Longrightarrow>
       solve_CPU_reaches env params sparse_features world11 st st2"

section \<open>The two kernels of the preconditioned solver, from the specification\<close>

text \<open>Modelled from the spec: the kernel \<^verbatim>\<open>computeJacobiPreconditioner\<close> is not in this
  file. The spec: a Jacobi preconditioner \<open>M = 1/(2\<cdot>diag(J\<^sup>tJ))\<close> "computed without forming
  \<open>J\<^sup>tJ\<close> (accumulate sum of squares per column)".\<close>

definition spec_computeJacobiPreconditioner :: "nat \<Rightarrow> nat \<Rightarrow> real list \<Rightarrow> real list" where
  "spec_computeJacobiPreconditioner nUnknowns nResiduals jacobian =
     map (\<lambda>j. 1 / (2 * (\<Sum>i\<leftarrow>[0..<nResiduals]. (jacobian ! (i + j * nResiduals))\<^sup>2)))
       [0..<nUnknowns]"

text \<open>Modelled from the spec: the kernel \<^verbatim>\<open>elementwiseMultiplication\<close> is not in this
  file. The spec: "per-element vector operations (multiply)".\<close>

definition spec_elementwiseMultiplication :: "nat \<Rightarrow> real list \<Rightarrow> real list \<Rightarrow> real list" where
  "spec_elementwiseMultiplication n a b = map (\<lambda>i. a ! i * b ! i) [0..<n]"

section \<open>The update rule as the specification words it\<close>

text \<open>\<open>clamp v lo hi\<close>, the value \<open>v\<close> brought into \<open>[lo, hi]\<close>.\<close>

definition clamp :: "real \<Rightarrow> real \<Rightarrow> real \<Rightarrow> real" where
  "clamp v lo hi = (if v < lo then lo else if hi < v then hi else v)"

text \<open>"for each shape coefficient i: \<open>shape[i] -= delta[7+i] / shapeStdDev[i]\<close> (no
  clamping)", for the first \<open>n\<close> coefficients.\<close>

definition spec_shape_update :: "nat \<Rightarrow> real list \<Rightarrow> real list \<Rightarrow> real list \<Rightarrow> real list" where
  "spec_shape_update n result sigma coeffs =
     map (\<lambda>k. if k < n then coeffs ! k - result ! (7 + k) / sigma ! k else coeffs ! k)
       [0..<length coeffs]"

text \<open>"for each expression coefficient i:
  \<open>expr[i] = clamp(expr[i] - delta[7+nShape+i] / exprStdDev[i], 0, 1)\<close>", for the first \<open>n\<close>
  coefficients.\<close>

definition spec_expression_update ::
  "nat \<Rightarrow> nat \<Rightarrow> real list \<Rightarrow> real list \<Rightarrow> real list \<Rightarrow> real list" where
  "spec_expression_update nShape n result sigma coeffs =
     map (\<lambda>k. if k < n then clamp (coeffs ! k - result ! (7 + nShape + k) / sigma ! k) 0 1
              else coeffs ! k)
       [0..<length coeffs]"

text \<open>The whole rule on the face model: "\<open>rotation -= delta[1:4]\<close>;
  \<open>translation -= delta[4:7]\<close>" and the two coefficient updates.\<close>

definition spec_apply_delta :: "nat \<Rightarrow> nat \<Rightarrow> real list \<Rightarrow> Face \<Rightarrow> Face" where
  "spec_apply_delta nShape nExpr delta face =
     face\<lparr>rotation_coefficients :=
            Vec3 (x3 (rotation_coefficients face) - delta ! 1)
                 (y3 (rotation_coefficients face) - delta ! 2)
                 (z3 (rotation_coefficients face) - delta ! 3),
          translation_coefficients :=
            Vec3 (x3 (translation_coefficients face) - delta ! 4)
                 (y3 (translation_coefficients face) - delta ! 5)
                 (z3 (translation_coefficients face) - delta ! 6),
          m_shape_coefficients :=
            spec_shape_update nShape delta (m_shape_std_dev face) (m_shape_coefficients face),
          m_expression_coefficients :=
            spec_expression_update nShape nExpr delta (m_expression_std_dev face)
              (m_expression_coefficients face)\<rparr>"

section \<open>One iteration of the driver as the specification words it\<close>

text \<open>The calls of one iteration of \<^verbatim>\<open>solve\<close> around the step \<open>delta\<close>.\<close>

definition iteration_calls :: "real list \<Rightarrow> call list" where
  "iteration_calls delta =
     [Call_computeFace, Call_computeModelMatrix, Call_computeRotationDerivatives,
      Call_computeJacobianSparseFeatures, Call_computeRegularizer,
      Call_solveUpdatePCG delta, Apply_step delta]"

text \<open>Step 1: "ask the face model to recompute vertex positions and the current
  model-to-world matrix from its coefficients".\<close>

definition spec_recompute_geometry :: "Collaborators \<Rightarrow> Face \<Rightarrow> Face \<times> mat4" where
  "spec_recompute_geometry env face =
     (let face1 = computeFace env face in (face1, computeModelMatrix env face1))"

text \<open>Step 2: "ask it for rotation-derivative matrices (dR/drx, dR/dry, dR/drz) at the
  current rotation".\<close>

definition spec_rotation_derivatives :: "Collaborators \<Rightarrow> Face \<Rightarrow> mat3 \<times> mat3 \<times> mat3" where
  "spec_rotation_derivatives env face1 = computeRotationDerivatives env face1"

text \<open>Step 3: "invoke the Jacobian/Residual Builder": the feature rows from the features,
  the recomputed face model, its model matrix (also transposed, as the local Jacobian), the
  rotation derivatives and the projection; then the rows of the regulariser, after the
  \<open>2 * nFeatures\<close> feature rows, with the weight \<open>10\<close> to the power of the configured
  exponent. Both write into the buffers of the previous iteration.\<close>

definition spec_build_system ::
  "Collaborators \<Rightarrow> Params \<Rightarrow> vec2 list \<Rightarrow> real \<Rightarrow> mat4 \<Rightarrow> Face \<Rightarrow> mat4 \<Rightarrow> mat3 \<times> mat3 \<times> mat3
     \<Rightarrow> real list \<times> real list \<Rightarrow> real list \<times> real list" where
  "spec_build_system env params features world11 projection face1 pose derivatives buffers =
     (let nS = num_shape_coefficients params;
          nE = num_expression_coefficients params;
          nU = 7 + (nS + nE);
          nR = 2 * length features + (nS + nE)
      in computeRegularizer env face1 (2 * length features) nU nR
           (10 powr regularisation_weight_exponent params)
           (computeJacobianSparseFeatures env
              \<lparr>ja_nFeatures = length features, ja_nShapeCoeffs = nS,
               ja_nExpressionCoeffs = nE, ja_nUnknowns = nU, ja_nResiduals = nR,
               ja_nVerticesTimes3 = m_number_of_vertices face1 * 3,
               ja_nShapeCoeffsTotal = length (m_shape_coefficients face1),
               ja_nExpressionCoeffsTotal = length (m_expression_coefficients face1),
               ja_face_pose = pose, ja_drx = fst derivatives,
               ja_dry = fst (snd derivatives), ja_drz = snd (snd derivatives),
               ja_projection = projection, ja_world11 = world11,
               ja_local = (\<lambda>r c. pose c r), ja_ids = getPriorIds env,
               ja_current_face = m_current_face_gpu face1, ja_keyPts = features,
               ja_shape_basis = m_shape_basis face1,
               ja_expression_basis = m_expression_basis face1\<rparr>
              buffers))"

text \<open>Step 4: "invoke a Linear Solver to obtain an unknowns-length delta": the
  preconditioned solver on the normal equations \<open>2\<cdot>J\<^sup>tJ\<cdot>x = - J\<^sup>t\<cdot>residual\<close>.\<close>

definition spec_linear_solve ::
  "Collaborators \<Rightarrow> Params \<Rightarrow> nat \<Rightarrow> real list \<Rightarrow> real list \<Rightarrow> real list" where
  "spec_linear_solve env params nFeatures J r =
     solveUpdatePCG env params
       (7 + (num_shape_coefficients params + num_expression_coefficients params))
       (2 * nFeatures + (num_shape_coefficients params + num_expression_coefficients params))
       J r 2 (- 1)"

text \<open>One iteration: the four steps above in their order, each on the results of the
  steps before it, then step 5, "apply the delta": the update rule on the recomputed face
  model and \<open>projection[focal] -= delta[0]\<close>. The calls are recorded as the iteration makes
  them.\<close>

definition spec_gn_iteration ::
  "Collaborators \<Rightarrow> Params \<Rightarrow> vec2 list \<Rightarrow> real \<Rightarrow> gn_state \<Rightarrow> gn_state" where
  "spec_gn_iteration env params features world11 st =
     (let (face1, pose) = spec_recompute_geometry env (gn_face st);
          derivatives = spec_rotation_derivatives env face1;
          (J, r) = spec_build_system env params features world11 (gn_projection st) face1 pose
                     derivatives (gn_jacobian_gpu st, gn_residuals_gpu st);
          delta = spec_linear_solve env params (length features) J r
      in \<lparr>gn_face = spec_apply_delta (num_shape_coefficients params)
                       (num_expression_coefficients params) delta face1,
          gn_projection = mat4_set (gn_projection st) 0 0 (gn_projection st 0 0 - delta ! 0),
          gn_jacobian_gpu = J, gn_residuals_gpu = r, gn_result_gpu = delta,
          gn_calls = gn_calls st @ iteration_calls delta\<rparr>)"

text \<open>The state \<^verbatim>\<open>solve\<close> enters its loop with: the face model and the projection it
  was given and three freshly allocated device arrays.\<close>

definition spec_gn_start :: "Collaborators \<Rightarrow> Params \<Rightarrow> vec2 list \<Rightarrow> Face \<Rightarrow> mat4 \<Rightarrow> gn_state" where
  "spec_gn_start env params features face projection =
     (let nS = num_shape_coefficients params;
          nE = num_expression_coefficients params;
          nU = 7 + (nS + nE);
          nR = 2 * length features + (nS + nE)
      in \<lparr>gn_face = face, gn_projection = projection,
          gn_jacobian_gpu = DeviceArray env (nU * nR),
          gn_residuals_gpu = DeviceArray env nR,
          gn_result_gpu = DeviceArray env nU, gn_calls = []\<rparr>)"

section \<open>The conjugate gradient as the specification words it\<close>

text \<open>The inner product of two vectors.\<close>

definition spec_dot :: "real list \<Rightarrow> real list \<Rightarrow> real" where
  "spec_dot u v = (\<Sum>(a, b)\<leftarrow>zip u v. a * b)"

text \<open>\<open>J\<cdot>p\<close> and \<open>J\<^sup>t\<cdot>q\<close> for the Jacobian of \<open>nR\<close> rows and \<open>nU\<close> columns.\<close>

definition spec_J_times :: "nat \<Rightarrow> nat \<Rightarrow> real list \<Rightarrow> real list \<Rightarrow> real list" where
  "spec_J_times nR nU J p = map (\<lambda>i. \<Sum>j\<leftarrow>[0..<nU]. J ! (i + j * nR) * p ! j) [0..<nR]"

definition spec_JT_times :: "nat \<Rightarrow> nat \<Rightarrow> real list \<Rightarrow> real list \<Rightarrow> real list" where
  "spec_JT_times nR nU J q = map (\<lambda>j. \<Sum>i\<leftarrow>[0..<nR]. J ! (i + j * nR) * q ! i) [0..<nU]"

text \<open>\<open>J\<^sup>tJ\<close> is never formed; it is applied "as two sequential matrix-vector products
  (\<open>J\<cdot>p\<close> then \<open>J\<^sup>t\<cdot>(J\<cdot>p)\<close>)", the first scaled by \<open>alphaLHS\<close>.\<close>

definition spec_JTJ_times :: "real \<Rightarrow> nat \<Rightarrow> nat \<Rightarrow> real list \<Rightarrow> real list \<Rightarrow> real list" where
  "spec_JTJ_times alphaLHS nR nU J p =
     spec_JT_times nR nU J (map (\<lambda>v. alphaLHS * v) (spec_J_times nR nU J p))"

text \<open>The entry (a, b) of the matrix \<open>J\<^sup>tJ\<close>, formed explicitly.\<close>

definition spec_JTJ_entry :: "nat \<Rightarrow> real list \<Rightarrow> nat \<Rightarrow> nat \<Rightarrow> real" where
  "spec_JTJ_entry nR J a b = (\<Sum>i\<leftarrow>[0..<nR]. J ! (i + a * nR) * J ! (i + b * nR))"

text \<open>The iteration of the conjugate gradient, with the preconditioned residual
  \<open>z = prec r\<close> in the place of \<open>r\<close> in the inner products and in the search direction
  (plain CG is \<open>prec r = r\<close>): "compute \<open>J\<^sup>tJ\<cdot>p\<close>, step length
  \<open>ak = (r\<^sup>tr)/max(p\<^sup>tJ\<^sup>tJp, \<epsilon>)\<close>, update \<open>x += ak\<cdot>p\<close>, \<open>r -= ak\<cdot>J\<^sup>tJp\<close>, recompute
  \<open>r\<^sup>tr\<close>, early-terminate if below tolerance, else compute
  \<open>bk = r\<^sup>tr_new/max(r\<^sup>tr_old, \<epsilon>)\<close> and \<open>p = r + bk\<cdot>p\<close>". The fifth argument counts the
  iterations left; \<open>rho\<close> is the inner product of the previous iteration.\<close>

fun spec_cg_iterate ::
  "(real list \<Rightarrow> real list) \<Rightarrow> (real list \<Rightarrow> real list) \<Rightarrow> real \<Rightarrow> real \<Rightarrow> nat
     \<Rightarrow> real list \<Rightarrow> real list \<Rightarrow> real list \<Rightarrow> real \<Rightarrow> real list" where
  "spec_cg_iterate prec JTJ eps tol 0 x r p rho = x"
| "spec_cg_iterate prec JTJ eps tol (Suc k) x r p rho =
     (let q = JTJ p;
          ak = rho / max (spec_dot p q) eps;
          x' = map2 (\<lambda>xi pi. xi + ak * pi) x p;
          r' = map2 (\<lambda>ri qi. ri - ak * qi) r q;
          z' = prec r';
          rho' = spec_dot z' r'
      in if rho' < tol then x'
         else (let bk = rho' / max rho eps;
                   p' = map2 (\<lambda>zi pi. zi + bk * pi) z' p
               in spec_cg_iterate prec JTJ eps tol k x' r' p' rho'))"

text \<open>The solver: "Initializes \<open>x=0\<close>, \<open>r = J\<^sup>t\<cdot>residual\<cdot>alphaRHS\<close>, \<open>p=r\<close>. Iterates up to
  \<open>min(nUnknowns, maxPcgIterations)\<close> times"; with a preconditioner, \<open>p = z = prec r\<close>.\<close>

definition spec_cg_solve ::
  "(real list \<Rightarrow> real list) \<Rightarrow> Params \<Rightarrow> nat \<Rightarrow> nat \<Rightarrow> real list \<Rightarrow> real list \<Rightarrow> real \<Rightarrow> real
     \<Rightarrow> real list" where
  "spec_cg_solve prec params nU nR J residuals alphaLHS alphaRHS =
     (let r = map (\<lambda>v. alphaRHS * v) (spec_JT_times nR nU J residuals);
          z = prec r
      in spec_cg_iterate prec (spec_JTJ_times alphaLHS nR nU J) (kNearZero params)
           (kTolerance params) (nat (min (int nU) (num_pcg_iterations params)))
           (replicate nU 0) r z (spec_dot z r))"

section \<open>Conditions on the inputs and invariants\<close>

text \<open>The face model has at least the configured numbers of coefficients and standard
  deviations: the condition under which the coefficient loops stay inside their vectors.\<close>

definition sizes_ok :: "Params \<Rightarrow> Face \<Rightarrow> bool" where
  "sizes_ok params face \<longleftrightarrow>
     num_shape_coefficients params \<le> length (m_shape_coefficients face) \<and>
     num_shape_coefficients params \<le> length (m_shape_std_dev face) \<and>
     num_expression_coefficients params \<le> length (m_expression_coefficients face) \<and>
     num_expression_coefficients params \<le> length (m_expression_std_dev face)"

text \<open>The condition under which the host path stays inside its arrays: in addition, the
  prior has a vertex id for each feature, each id is a vertex of the mesh, the recomputed
  mesh has all its vertices and the basis matrices have their declared size.\<close>

definition solve_CPU_inputs_ok :: "Collaborators \<Rightarrow> Params \<Rightarrow> vec2 list \<Rightarrow> Face \<Rightarrow> bool" where
  "solve_CPU_inputs_ok env params fs face \<longleftrightarrow>
     sizes_ok params face \<and>
     m_number_of_vertices face \<le> length (computeFace_vertices env face) \<and>
     length fs \<le> length (getPriorIds env) \<and>
     list_all (\<lambda>v. v < m_number_of_vertices face) (take (length fs) (getPriorIds env)) \<and>
     m_number_of_vertices face * 3 * length (m_shape_coefficients face)
       \<le> length (m_shape_basis face) \<and>
     m_number_of_vertices face * 3 * length (m_expression_coefficients face)
       \<le> length (m_expression_basis face)"

text \<open>What a solver loop with budget \<open>b\<close>, started at counter \<open>i\<close>, has compared with the
  tolerance (\<open>new\<close>), where it left its counter (\<open>i'\<close>) and whether it left through
  \<^verbatim>\<open>break\<close>.\<close>

definition loop_tests_ok :: "real \<Rightarrow> int \<Rightarrow> int \<Rightarrow> int \<Rightarrow> bool \<Rightarrow> bool \<Rightarrow> real list \<Rightarrow> bool" where
  "loop_tests_ok tol b i i' stopped stopped' new \<longleftrightarrow>
     int (length new) \<le> max 0 (b - i) \<and>
     (\<forall>k. Suc k < length new \<longrightarrow> \<not> new ! k < tol) \<and>
     (stopped' \<longleftrightarrow> stopped \<or> (new \<noteq> [] \<and> last new < tol)) \<and>
     (\<not> (new \<noteq> [] \<and> last new < tol) \<longrightarrow> int (length new) = max 0 (b - i)) \<and>
     i' = i + int (length new) - (if new \<noteq> [] \<and> last new < tol then 1 else 0)"

text \<open>The common form of the two loop bodies of the regulariser of \<^verbatim>\<open>solve_CPU\<close>.\<close>

definition regularizer_body ::
  "real list \<Rightarrow> real list \<Rightarrow> real \<Rightarrow> nat \<Rightarrow> nat \<Rightarrow> nat \<Rightarrow> nat \<Rightarrow> real list \<times> real list
     \<Rightarrow> (real list \<times> real list) option" where
  "regularizer_body sd cf wReg nResiduals offset_rows offset_cols i buffers =
     (case buffers of (jacobian, residuals) \<Rightarrow>
        if i < length sd \<and> i < length cf
        then Some (jacobian[jac_index nResiduals (offset_rows + i) (offset_cols + i)
                     := 1 / sd ! i * (1 / sd ! i) * cf ! i * wReg * 2],
                   residuals[offset_rows + i := 0])
        else None)"

text \<open>The Jacobian has its size and, in the rows after the feature rows, zeros off the
  diagonal of the regulariser.\<close>

definition regularizer_rows_clear :: "nat \<Rightarrow> nat \<Rightarrow> nat \<Rightarrow> real list \<Rightarrow> bool" where
  "regularizer_rows_clear nF nS nE J \<longleftrightarrow>
     length J = (2 * nF + nS + nE) * (7 + nS + nE) \<and>
     (\<forall>r c. 2 * nF \<le> r \<and> r < 2 * nF + nS + nE \<and> c < 7 + nS + nE \<and> c \<noteq> 7 + (r - 2 * nF) \<longrightarrow>
        J ! jac_index (2 * nF + nS + nE) r c = 0)"

text \<open>The invariant of the loop of \<^verbatim>\<open>solve_CPU\<close> on its host buffers.\<close>

definition solve_CPU_invariant :: "Params \<Rightarrow> vec2 list \<Rightarrow> cpu_state \<Rightarrow> bool" where
  "solve_CPU_invariant params fs st \<longleftrightarrow>
     regularizer_rows_clear (length fs) (num_shape_coefficients params)
       (num_expression_coefficients params) (cpu_jacobian st) \<and>
     length (cpu_residuals st)
       = 2 * length fs + num_shape_coefficients params + num_expression_coefficients params"

section \<open>A small instance\<close>

text \<open>One feature, one shape and two expression coefficients: ten unknowns, five
  residuals. The kernels of this instance return a Jacobian whose rows 0, 1, 2 select the
  three coefficients; the face model returns the identity as model matrix.\<close>

definition example_jacobian :: "real list" where
  "example_jacobian = map (\<lambda>k. if k = 35 \<or> k = 41 \<or> k = 47 then 1 else 0) [0..<50]"

definition example_residuals :: "real list" where
  "example_residuals = [9 / 5, 9 / 5, - (8 / 5), 0, 0]"

definition example_env :: Collaborators where
  "example_env =
     \<lparr>getPriorIds = [0],
      computeFace_vertices = (\<lambda>face. [Vec3 0 0 1]),
      computeModelMatrix = (\<lambda>face c r. if c = r then 1 else 0),
      computeRotationDerivatives = (\<lambda>face. (\<lambda>c r. 0, \<lambda>c r. 0, \<lambda>c r. 0)),
      computeJacobianSparseFeatures = (\<lambda>args buffers. (example_jacobian, example_residuals)),
      computeRegularizer = (\<lambda>face offset nUnknowns nResiduals w buffers. buffers),
      computeJacobiPreconditioner = spec_computeJacobiPreconditioner,
      elementwiseMultiplication = spec_elementwiseMultiplication,
      uninitialised = (\<lambda>k. 0)\<rparr>"

definition example_params :: Params where
  "example_params =
     \<lparr>num_shape_coefficients = 1, num_expression_coefficients = 2, num_gn_iterations = 2,
      num_pcg_iterations = 5, regularisation_weight_exponent = - 2,
      kNearZero = 1 / 1000000, kTolerance = 1 / 1000000\<rparr>"

text \<open>The same parameters with a tolerance no inner product falls below and a budget of
  two inner iterations.\<close>

definition example_params_full :: Params where
  "example_params_full =
     \<lparr>num_shape_coefficients = 1, num_expression_coefficients = 2, num_gn_iterations = 1,
      num_pcg_iterations = 2, regularisation_weight_exponent = - 2,
      kNearZero = 1 / 1000000, kTolerance = 0\<rparr>"

definition example_face :: Face where
  "example_face =
     \<lparr>rotation_coefficients = Vec3 0 0 0, translation_coefficients = Vec3 0 0 (- 1),
      m_shape_coefficients = [1 / 2], m_expression_coefficients = [1 / 2, 1 / 2],
      m_shape_std_dev = [1], m_expression_std_dev = [1, 1],
      m_number_of_vertices = 1, m_shape_basis = [0, 0, 0],
      m_expression_basis = [0, 0, 0, 0, 0, 0], m_current_face_gpu = [Vec3 0 0 1]\<rparr>"

text \<open>A face model with distinct coefficients and standard deviations.\<close>

definition example_face_reg :: Face where
  "example_face_reg =
     \<lparr>rotation_coefficients = Vec3 0 0 0, translation_coefficients = Vec3 0 0 (- 1),
      m_shape_coefficients = [3], m_expression_coefficients = [1 / 2, 1],
      m_shape_std_dev = [2], m_expression_std_dev = [1, 4],
      m_number_of_vertices = 1, m_shape_basis = [0, 0, 0],
      m_expression_basis = [0, 0, 0, 0, 0, 0], m_current_face_gpu = [Vec3 0 0 1]\<rparr>"

text \<open>A face model with one expression coefficient more than the two the parameters
  configure.\<close>

definition example_face_wide :: Face where
  "example_face_wide =
     \<lparr>rotation_coefficients = Vec3 0 0 0, translation_coefficients = Vec3 0 0 (- 1),
      m_shape_coefficients = [1 / 2], m_expression_coefficients = [1 / 2, 1 / 2, 7],
      m_shape_std_dev = [1], m_expression_std_dev = [1, 1, 1],
      m_number_of_vertices = 1, m_shape_basis = [0, 0, 0],
      m_expression_basis = [0, 0, 0, 0, 0, 0, 0, 0, 0], m_current_face_gpu = [Vec3 0 0 1]\<rparr>"

definition example_projection :: mat4 where
  "example_projection = (\<lambda>c r. if c = r then 1 else 0)"

definition example_state :: gn_state where
  "example_state =
     \<lparr>gn_face = example_face, gn_projection = example_projection,
      gn_jacobian_gpu = DeviceArray example_env 50,
      gn_residuals_gpu = DeviceArray example_env 5,
      gn_result_gpu = DeviceArray example_env 10, gn_calls = []\<rparr>"

text \<open>A state of the loop of each solver whose search direction \<open>p\<close> lies in the null
  space of the Jacobian of the instance, so that \<open>p\<^sup>tJ\<^sup>tJp = 0\<close>, and whose previous inner
  product is below the near-zero constant.\<close>

definition example_pcg_null :: pcg_state where
  "example_pcg_null =
     \<lparr>pcg_x = [0, 0, 0, 0, 0, 0, 0, 0, 0, 0], pcg_r = [0, 0, 0, 0, 0, 0, 0, 0, 0, 0],
      pcg_p = [1, 0, 0, 0, 0, 0, 0, 0, 0, 0], pcg_z = [0, 0, 0, 0, 0, 0, 0, 0, 0, 0],
      pcg_Jp = [0, 0, 0, 0, 0], pcg_JTJp = [0, 0, 0, 0, 0, 0, 0, 0, 0, 0],
      pcg_zTr_old = 1 / 2000000, pcg_zTr = 1 / 250000,
      pcg_divisors = [], pcg_tested = [], pcg_stopped = False\<rparr>"

definition example_cg_null :: cg_state where
  "example_cg_null =
     \<lparr>cg_x = [0, 0, 0, 0, 0, 0, 0, 0, 0, 0], cg_r = [0, 0, 0, 0, 0, 0, 0, 0, 0, 0],
      cg_p = [1, 0, 0, 0, 0, 0, 0, 0, 0, 0],
      cg_Jp = [0, 0, 0, 0, 0], cg_JTJp = [0, 0, 0, 0, 0, 0, 0, 0, 0, 0],
      cg_rTr_old = 1 / 2000000, cg_rTr = 1 / 250000,
      cg_divisors = [], cg_tested = [], cg_stopped = False\<rparr>"

text \<open>Vectors of the instance: the preconditioner, the right-hand side \<open>- J\<^sup>t\<cdot>residual\<close>
  and the step the solvers return.\<close>

abbreviation zero5 :: "real list" where
  "zero5 \<equiv> [0, 0, 0, 0, 0]"

abbreviation zero10 :: "real list" where
  "zero10 \<equiv> [0, 0, 0, 0, 0, 0, 0, 0, 0, 0]"

abbreviation example_M :: "real list" where
  "example_M \<equiv> [0, 0, 0, 0, 0, 0, 0, 1 / 2, 1 / 2, 1 / 2]"

abbreviation example_gradient :: "real list" where
  "example_gradient \<equiv> [0, 0, 0, 0, 0, 0, 0, - (9 / 5), - (9 / 5), 8 / 5]"

abbreviation example_step :: "real list" where
  "example_step \<equiv> [0, 0, 0, 0, 0, 0, 0, - (9 / 10), - (9 / 10), 4 / 5]"

section \<open>Facts about the counted loop\<close>

lemma for_range_total:
  assumes "i \<le> n" "P i s"
    and step: "\<And>j t. i \<le> j \<Longrightarrow> j < n \<Longrightarrow> P j t \<Longrightarrow> \<exists>t'. body j t = Some t' \<and> P (j + 1) t'"
  shows "\<exists>s'. for_range i n body s = Some s' \<and> P n s'"
  using assms
proof (induction i n body s rule: for_range.induct)
  case (1 i n body s)
  show ?case
  proof (cases "i < n")
    case True
    from "1.prems"(3)[of i s] True "1.prems"(2) obtain t where t: "body i s = Some t" "P (i + 1) t"
      by auto
    have "\<exists>s'. for_range (i + 1) n body t = Some s' \<and> P n s'"
      using "1.IH"[OF True t(1)] True t(2) "1.prems"(3) by auto
    then show ?thesis using True t(1) by (subst for_range.simps) simp
  next
    case False
    then show ?thesis using "1.prems" by (subst for_range.simps) simp
  qed
qed

lemma for_range_partial:
  assumes "for_range i n body s = Some s'" "i \<le> n" "P i s"
    and step: "\<And>j t t'. i \<le> j \<Longrightarrow> j < n \<Longrightarrow> P j t \<Longrightarrow> body j t = Some t' \<Longrightarrow> P (j + 1) t'"
  shows "P n s'"
  using assms
proof (induction i n body s rule: for_range.induct)
  case (1 i n body s)
  show ?case
  proof (cases "i < n")
    case True
    from "1.prems"(1) True obtain t where t: "body i s = Some t" "for_range (i + 1) n body t = Some s'"
      by (subst (asm) for_range.simps) (auto split: option.splits)
    have "P (i + 1) t" using "1.prems"(4)[of i s t] True "1.prems"(3) t(1) by simp
    then show ?thesis
      using "1.IH"[OF True t(1) t(2)] True "1.prems"(4) by auto
  next
    case False
    then show ?thesis using "1.prems" by (subst (asm) for_range.simps) simp
  qed
qed

section \<open>The blocks that apply the step compute the update rule\<close>

lemma std_clamp: "std_max 0 (std_min 1 c) = clamp c 0 1"
  by (simp add: std_max_def std_min_def clamp_def)

lemma spec_shape_update_0: "spec_shape_update 0 result sigma coeffs = coeffs"
  by (simp add: spec_shape_update_def map_nth)

lemma spec_shape_update_Suc:
  "j < length coeffs \<Longrightarrow>
   (spec_shape_update j result sigma coeffs)[j := coeffs ! j - result ! (7 + j) / sigma ! j]
     = spec_shape_update (Suc j) result sigma coeffs"
  by (rule nth_equalityI) (auto simp: spec_shape_update_def nth_list_update less_Suc_eq)

lemma spec_expression_update_0: "spec_expression_update nS 0 result sigma coeffs = coeffs"
  by (simp add: spec_expression_update_def map_nth)

lemma spec_expression_update_Suc:
  "j < length coeffs \<Longrightarrow>
   (spec_expression_update nS j result sigma coeffs)
      [j := clamp (coeffs ! j - result ! (7 + nS + j) / sigma ! j) 0 1]
     = spec_expression_update nS (Suc j) result sigma coeffs"
  by (rule nth_equalityI) (auto simp: spec_expression_update_def nth_list_update less_Suc_eq)

lemma solve_update_shape_loop:
  assumes "n \<le> length (m_shape_coefficients face)" "n \<le> length (m_shape_std_dev face)"
    "7 + n \<le> length result"
  shows "for_range 0 n (solve_update_shape result) face =
     Some (face\<lparr>m_shape_coefficients :=
        spec_shape_update n result (m_shape_std_dev face) (m_shape_coefficients face)\<rparr>)"
proof -
  let ?P = "\<lambda>j f. f = face\<lparr>m_shape_coefficients :=
        spec_shape_update j result (m_shape_std_dev face) (m_shape_coefficients face)\<rparr>"
  have "\<exists>s'. for_range 0 n (solve_update_shape result) face = Some s' \<and> ?P n s'"
  proof (rule for_range_total)
    show "0 \<le> n" by simp
    show "?P 0 face" by (simp add: spec_shape_update_0)
  next
    fix j t assume j: "0 \<le> j" "j < n" and t: "?P j t"
    have len: "length (spec_shape_update j result (m_shape_std_dev face) (m_shape_coefficients face))
        = length (m_shape_coefficients face)"
      by (simp add: spec_shape_update_def)
    have nth: "spec_shape_update j result (m_shape_std_dev face) (m_shape_coefficients face) ! j
        = m_shape_coefficients face ! j"
      using j assms by (simp add: spec_shape_update_def)
    show "\<exists>t'. solve_update_shape result j t = Some t' \<and> ?P (j + 1) t'"
      using j assms t len nth
      by (simp add: solve_update_shape_def at_index_def spec_shape_update_Suc)
  qed
  then show ?thesis by auto
qed

lemma solve_update_expression_loop:
  assumes "n \<le> length (m_expression_coefficients face)" "n \<le> length (m_expression_std_dev face)"
    "7 + nS + n \<le> length result"
  shows "for_range 0 n (solve_update_expression result nS) face =
     Some (face\<lparr>m_expression_coefficients :=
        spec_expression_update nS n result (m_expression_std_dev face)
          (m_expression_coefficients face)\<rparr>)"
proof -
  let ?P = "\<lambda>j f. f = face\<lparr>m_expression_coefficients :=
        spec_expression_update nS j result (m_expression_std_dev face)
          (m_expression_coefficients face)\<rparr>"
  have "\<exists>s'. for_range 0 n (solve_update_expression result nS) face = Some s' \<and> ?P n s'"
  proof (rule for_range_total)
    show "0 \<le> n" by simp
    show "?P 0 face" by (simp add: spec_expression_update_0)
  next
    fix j t assume j: "0 \<le> j" "j < n" and t: "?P j t"
    have len: "length (spec_expression_update nS j result (m_expression_std_dev face)
         (m_expression_coefficients face)) = length (m_expression_coefficients face)"
      by (simp add: spec_expression_update_def)
    have nth: "spec_expression_update nS j result (m_expression_std_dev face)
         (m_expression_coefficients face) ! j = m_expression_coefficients face ! j"
      using j assms by (simp add: spec_expression_update_def)
    show "\<exists>t'. solve_update_expression result nS j t = Some t' \<and> ?P (j + 1) t'"
      using j assms t len nth
      by (simp add: solve_update_expression_def at_index_def std_clamp
            spec_expression_update_Suc)
  qed
  then show ?thesis by auto
qed

lemma solve_apply_step_closed:
  assumes "7 + nS + nE \<le> length result"
    "nS \<le> length (m_shape_coefficients face)" "nS \<le> length (m_shape_std_dev face)"
    "nE \<le> length (m_expression_coefficients face)" "nE \<le> length (m_expression_std_dev face)"
  shows "solve_apply_step nS nE result face projection =
     Some (spec_apply_delta nS nE result face,
           mat4_set projection 0 0 (projection 0 0 - result ! 0))"
proof -
  have "result \<noteq> []" using assms(1) by auto
  then show ?thesis
    using assms
    by (simp add: solve_apply_step_def at_index_def solve_update_shape_loop
          solve_update_expression_loop spec_apply_delta_def)
qed

lemma length_util_copy [simp]: "length (util_copy n xs) = n"
  by (simp add: util_copy_def)

lemma util_copy_id: "length xs = n \<Longrightarrow> util_copy n xs = xs"
  by (auto simp: util_copy_def intro: nth_equalityI)

lemma solveUpdatePCG_loop_invariant:
  assumes "P st"
    and "\<And>t. P t \<Longrightarrow> P (solveUpdatePCG_head env params nU nR jacobian M alphaLHS t)"
    and "\<And>t. P t \<Longrightarrow> P (solveUpdatePCG_tail params nU t)"
    and "\<And>t. P t \<Longrightarrow> P (t\<lparr>pcg_stopped := True\<rparr>)"
  shows "P (snd (solveUpdatePCG_loop env params nU nR jacobian M alphaLHS i st))"
  using assms
proof (induction env params nU nR jacobian M alphaLHS i st rule: solveUpdatePCG_loop.induct)
  case (1 env params nU nR jacobian M alphaLHS i st)
  show ?case
  proof (cases "i < min (int nU) (num_pcg_iterations params)")
    case False
    then show ?thesis using "1.prems"(1)
      by (subst solveUpdatePCG_loop.simps) (simp del: min_less_iff_conj)
  next
    case True
    let ?st1 = "solveUpdatePCG_head env params nU nR jacobian M alphaLHS st"
    have p1: "P ?st1" using "1.prems" by blast
    show ?thesis
    proof (cases "pcg_zTr ?st1 < kTolerance params")
      case stop: True
      then show ?thesis using True p1 "1.prems"(4)
        by (subst solveUpdatePCG_loop.simps) (simp add: Let_def del: min_less_iff_conj)
    next
      case go: False
      have "P (solveUpdatePCG_tail params nU ?st1)" using p1 "1.prems"(3) by blast
      then have "P (snd (solveUpdatePCG_loop env params nU nR jacobian M alphaLHS (i + 1)
                (solveUpdatePCG_tail params nU ?st1)))"
        using "1.IH"[OF True refl go] "1.prems"(2,3,4) by blast
      then show ?thesis using True go
        by (subst solveUpdatePCG_loop.simps) (simp add: Let_def del: min_less_iff_conj)
    qed
  qed
qed

lemma length_solveUpdatePCG [simp]:
  "length (solveUpdatePCG env params nU nR jacobian residuals alphaLHS alphaRHS) = nU"
proof -
  have "length (pcg_x (snd (solveUpdatePCG_loop env params nU nR jacobian M alphaLHS i st))) = nU"
    if "length (pcg_x st) = nU" for M i st
    using that
    by (rule solveUpdatePCG_loop_invariant)
       (simp_all add: solveUpdatePCG_head_def solveUpdatePCG_tail_def Let_def cublasSaxpy_def)
  then show ?thesis
    by (simp add: solveUpdatePCG_def solveUpdatePCG_run_def solveUpdatePCG_init_def Let_def
          memset0_def)
qed

lemma solve_linearise_face:
  "solve_linearise env params fs w st = (face, J, r) \<Longrightarrow> face = computeFace env (gn_face st)"
  by (auto simp: solve_linearise_def Let_def split: prod.splits)

lemma solve_iteration_closed:
  assumes ok: "sizes_ok params (gn_face st)"
    and lin: "solve_linearise env params fs w st = (face, J, r)"
    and delta: "delta = solveUpdatePCG env params
                 (7 + (num_shape_coefficients params + num_expression_coefficients params))
                 (2 * length fs + (num_shape_coefficients params + num_expression_coefficients params))
                 J r 2 (- 1)"
  shows "solve_iteration env params fs w st =
     Some \<lparr>gn_face = spec_apply_delta (num_shape_coefficients params)
                      (num_expression_coefficients params) delta face,
           gn_projection = mat4_set (gn_projection st) 0 0 (gn_projection st 0 0 - delta ! 0),
           gn_jacobian_gpu = J, gn_residuals_gpu = r, gn_result_gpu = delta,
           gn_calls = gn_calls st @
             [Call_computeFace, Call_computeModelMatrix, Call_computeRotationDerivatives,
              Call_computeJacobianSparseFeatures, Call_computeRegularizer,
              Call_solveUpdatePCG delta, Apply_step delta]\<rparr>"
proof -
  have f: "face = computeFace env (gn_face st)" using lin by (rule solve_linearise_face)
  have len: "length delta = 7 + (num_shape_coefficients params + num_expression_coefficients params)"
    by (simp add: delta)
  have cp: "util_copy (7 + (num_shape_coefficients params + num_expression_coefficients params)) delta
      = delta" using len by (simp add: util_copy_id)
  have step: "solve_apply_step (num_shape_coefficients params) (num_expression_coefficients params)
      delta face (gn_projection st) =
     Some (spec_apply_delta (num_shape_coefficients params) (num_expression_coefficients params)
       delta face, mat4_set (gn_projection st) 0 0 (gn_projection st 0 0 - delta ! 0))"
    using ok len by (intro solve_apply_step_closed) (simp_all add: sizes_ok_def f computeFace_def)
  show ?thesis
    unfolding solve_iteration_def Let_def lin prod.case delta[symmetric] cp step
    by simp
qed

section \<open>The small instance, evaluated\<close>

lemma upt_0_5: "[0..<5] = [0, 1, 2, 3, 4]"
  by (simp add: upt_rec)

lemma upt_0_10: "[0..<10] = [0, 1, 2, 3, 4, 5, 6, 7, 8, 9]"
  by (simp add: upt_rec)

lemma example_jacobian_nth:
  "k < 50 \<Longrightarrow> example_jacobian ! k = (if k = 35 \<or> k = 41 \<or> k = 47 then 1 else 0)"
  by (simp add: example_jacobian_def)

lemma ex_M: "computeJacobiPreconditioner example_env 10 5 example_jacobian
    = [0, 0, 0, 0, 0, 0, 0, 1 / 2, 1 / 2, 1 / 2]"
  by (simp add: example_env_def spec_computeJacobiPreconditioner_def upt_0_5 upt_0_10
        example_jacobian_nth)

lemma ex_gemv_T:
  "cublasSgemv CUBLAS_OP_T 5 10 alpha example_jacobian 5 [a, b, c, d, e] 0 y
    = [0, 0, 0, 0, 0, 0, 0, alpha * a, alpha * b, alpha * c]"
  by (simp add: cublasSgemv_def upt_0_5 upt_0_10 example_jacobian_nth)

lemma ex_gemv_N:
  "cublasSgemv CUBLAS_OP_N 5 10 alpha example_jacobian 5 [p0, p1, p2, p3, p4, p5, p6, p7, p8, p9] 0 y
    = [alpha * p7, alpha * p8, alpha * p9, 0, 0]"
  by (simp add: cublasSgemv_def upt_0_5 upt_0_10 example_jacobian_nth)

lemma example_elementwise:
  "elementwiseMultiplication example_env 10 [m0, m1, m2, m3, m4, m5, m6, m7, m8, m9]
     [r0, r1, r2, r3, r4, r5, r6, r7, r8, r9]
    = [m0 * r0, m1 * r1, m2 * r2, m3 * r3, m4 * r4, m5 * r5, m6 * r6, m7 * r7, m8 * r8, m9 * r9]"
  by (simp add: example_env_def spec_elementwiseMultiplication_def upt_0_10)

lemma example_dot:
  "cublasSdot 10 [m0, m1, m2, m3, m4, m5, m6, m7, m8, m9]
     [r0, r1, r2, r3, r4, r5, r6, r7, r8, r9]
    = m0 * r0 + (m1 * r1 + (m2 * r2 + (m3 * r3 + (m4 * r4 + (m5 * r5 + (m6 * r6 + (m7 * r7
        + (m8 * r8 + m9 * r9))))))))"
  by (simp add: cublasSdot_def upt_0_10)

lemma example_axpy:
  "cublasSaxpy 10 a [m0, m1, m2, m3, m4, m5, m6, m7, m8, m9]
     [r0, r1, r2, r3, r4, r5, r6, r7, r8, r9]
    = [a * m0 + r0, a * m1 + r1, a * m2 + r2, a * m3 + r3, a * m4 + r4, a * m5 + r5,
       a * m6 + r6, a * m7 + r7, a * m8 + r8, a * m9 + r9]"
  by (simp add: cublasSaxpy_def upt_0_10)

lemma example_copy:
  "cublasScopy 10 [r0, r1, r2, r3, r4, r5, r6, r7, r8, r9]
    = [r0, r1, r2, r3, r4, r5, r6, r7, r8, r9]"
  by (simp add: cublasScopy_def upt_0_10)

lemma example_init:
  "solveUpdatePCG_init example_env 10 5 example_jacobian example_residuals
      [0, 0, 0, 0, 0, 0, 0, 1 / 2, 1 / 2, 1 / 2] (- 1) =
     \<lparr>pcg_x = [0, 0, 0, 0, 0, 0, 0, 0, 0, 0],
      pcg_r = [0, 0, 0, 0, 0, 0, 0, - (9 / 5), - (9 / 5), 8 / 5],
      pcg_p = [0, 0, 0, 0, 0, 0, 0, - (9 / 10), - (9 / 10), 4 / 5],
      pcg_z = [0, 0, 0, 0, 0, 0, 0, - (9 / 10), - (9 / 10), 4 / 5],
      pcg_Jp = [0, 0, 0, 0, 0], pcg_JTJp = [0, 0, 0, 0, 0, 0, 0, 0, 0, 0],
      pcg_zTr_old = 113 / 25, pcg_zTr = 0,
      pcg_divisors = [], pcg_tested = [], pcg_stopped = False\<rparr>"
  unfolding solveUpdatePCG_init_def Let_def example_residuals_def ex_gemv_T example_elementwise
    example_copy example_dot
  by (simp add: memset0_def DeviceArray_def example_env_def upt_0_5 upt_0_10 eval_nat_numeral)

lemma example_head:
  "solveUpdatePCG_head example_env example_params 10 5 example_jacobian
      [0, 0, 0, 0, 0, 0, 0, 1 / 2, 1 / 2, 1 / 2] 2
     \<lparr>pcg_x = [0, 0, 0, 0, 0, 0, 0, 0, 0, 0],
      pcg_r = [0, 0, 0, 0, 0, 0, 0, - (9 / 5), - (9 / 5), 8 / 5],
      pcg_p = [0, 0, 0, 0, 0, 0, 0, - (9 / 10), - (9 / 10), 4 / 5],
      pcg_z = [0, 0, 0, 0, 0, 0, 0, - (9 / 10), - (9 / 10), 4 / 5],
      pcg_Jp = [0, 0, 0, 0, 0], pcg_JTJp = [0, 0, 0, 0, 0, 0, 0, 0, 0, 0],
      pcg_zTr_old = 113 / 25, pcg_zTr = 0,
      pcg_divisors = [], pcg_tested = [], pcg_stopped = False\<rparr> =
     \<lparr>pcg_x = [0, 0, 0, 0, 0, 0, 0, - (9 / 10), - (9 / 10), 4 / 5],
      pcg_r = [0, 0, 0, 0, 0, 0, 0, 0, 0, 0],
      pcg_p = [0, 0, 0, 0, 0, 0, 0, - (9 / 10), - (9 / 10), 4 / 5],
      pcg_z = [0, 0, 0, 0, 0, 0, 0, 0, 0, 0],
      pcg_Jp = [- (9 / 5), - (9 / 5), 8 / 5, 0, 0],
      pcg_JTJp = [0, 0, 0, 0, 0, 0, 0, - (9 / 5), - (9 / 5), 8 / 5],
      pcg_zTr_old = 113 / 25, pcg_zTr = 0,
      pcg_divisors = [113 / 25], pcg_tested = [0], pcg_stopped = False\<rparr>"
  unfolding solveUpdatePCG_head_def Let_def pcg_state.simps ex_gemv_N ex_gemv_T example_dot
    example_axpy example_elementwise
  by (simp add: std_max_def example_params_def)

lemma example_run:
  "solveUpdatePCG_run example_env example_params 10 5 example_jacobian example_residuals 2 (- 1) =
     (0, \<lparr>pcg_x = [0, 0, 0, 0, 0, 0, 0, - (9 / 10), - (9 / 10), 4 / 5],
      pcg_r = [0, 0, 0, 0, 0, 0, 0, 0, 0, 0],
      pcg_p = [0, 0, 0, 0, 0, 0, 0, - (9 / 10), - (9 / 10), 4 / 5],
      pcg_z = [0, 0, 0, 0, 0, 0, 0, 0, 0, 0],
      pcg_Jp = [- (9 / 5), - (9 / 5), 8 / 5, 0, 0],
      pcg_JTJp = [0, 0, 0, 0, 0, 0, 0, - (9 / 5), - (9 / 5), 8 / 5],
      pcg_zTr_old = 113 / 25, pcg_zTr = 0,
      pcg_divisors = [113 / 25], pcg_tested = [0], pcg_stopped = True\<rparr>)"
  unfolding solveUpdatePCG_run_def Let_def ex_M example_init
  by (subst solveUpdatePCG_loop.simps, unfold example_head Let_def)
     (simp add: example_params_def)

lemma example_delta:
  "solveUpdatePCG example_env example_params 10 5 example_jacobian example_residuals 2 (- 1) =
     [0, 0, 0, 0, 0, 0, 0, - (9 / 10), - (9 / 10), 4 / 5]"
  by (simp add: solveUpdatePCG_def example_run)

lemma example_linearise:
  "solve_linearise example_env example_params [Vec2 0 0] 1 example_state =
     (computeFace example_env example_face, example_jacobian, example_residuals)"
  by (simp add: solve_linearise_def Let_def example_env_def example_state_def)

lemma example_linearise_any:
  "solve_linearise example_env params fs w st =
     (computeFace example_env (gn_face st), example_jacobian, example_residuals)"
  by (simp add: solve_linearise_def Let_def example_env_def)

section \<open>The update of one iteration\<close>

lemma spec_shape_update_nth:
  "i < length coeffs \<Longrightarrow> spec_shape_update n result sigma coeffs ! i =
     (if i < n then coeffs ! i - result ! (7 + i) / sigma ! i else coeffs ! i)"
  by (simp add: spec_shape_update_def)

lemma spec_expression_update_nth:
  "i < length coeffs \<Longrightarrow> spec_expression_update nS n result sigma coeffs ! i =
     (if i < n then clamp (coeffs ! i - result ! (7 + nS + i) / sigma ! i) 0 1 else coeffs ! i)"
  by (simp add: spec_expression_update_def)

lemma length_spec_shape_update [simp]:
  "length (spec_shape_update n result sigma coeffs) = length coeffs"
  by (simp add: spec_shape_update_def)

lemma length_spec_expression_update [simp]:
  "length (spec_expression_update nS n result sigma coeffs) = length coeffs"
  by (simp add: spec_expression_update_def)

lemma clamp_bounds: "0 \<le> clamp c 0 1 \<and> clamp c 0 1 \<le> 1"
  by (simp add: clamp_def)

text \<open>
  C1. One iteration of \<^verbatim>\<open>solve\<close> applies the vector \<open>delta\<close> that
  \<^verbatim>\<open>solveUpdatePCG\<close> returned, of length \<open>7 + nShape + nExpr\<close>, in this way: the focal
  entry \<open>projection[0][0]\<close> decreases by \<open>delta[0]\<close> and no other entry of the projection
  changes; the rotation coefficients decrease by \<open>delta[1..3]\<close>, the translation
  coefficients by \<open>delta[4..6]\<close>; shape coefficient \<open>i\<close> decreases by \<open>delta[7+i]\<close> divided
  by its standard deviation, without clamping; expression coefficient \<open>i\<close> becomes
  \<open>clamp (expr[i] - delta[7+nShape+i] / exprStdDev[i]) 0 1\<close>. Coefficients beyond the configured
  counts and the standard deviations are unchanged. The iteration succeeds whenever the
  face model has at least the configured number of coefficients and standard deviations.
\<close>

theorem solve_iteration_applies_delta:
  assumes ok: "sizes_ok params (gn_face st)"
    and lin: "solve_linearise env params sparse_features world11 st
                = (face, jacobian_gpu, residuals_gpu)"
    and nS: "nS = num_shape_coefficients params"
    and nE: "nE = num_expression_coefficients params"
    and delta: "delta = solveUpdatePCG env params (7 + (nS + nE))
                  (2 * length sparse_features + (nS + nE)) jacobian_gpu residuals_gpu 2 (- 1)"
  shows "length delta = 7 + nS + nE \<and>
    (\<exists>st'. solve_iteration env params sparse_features world11 st = Some st' \<and>
       gn_result_gpu st' = delta \<and>
       gn_projection st' 0 0 = gn_projection st 0 0 - delta ! 0 \<and>
       (\<forall>c r. (c, r) \<noteq> (0, 0) \<longrightarrow> gn_projection st' c r = gn_projection st c r) \<and>
       rotation_coefficients (gn_face st') =
         Vec3 (x3 (rotation_coefficients (gn_face st)) - delta ! 1)
              (y3 (rotation_coefficients (gn_face st)) - delta ! 2)
              (z3 (rotation_coefficients (gn_face st)) - delta ! 3) \<and>
       translation_coefficients (gn_face st') =
         Vec3 (x3 (translation_coefficients (gn_face st)) - delta ! 4)
              (y3 (translation_coefficients (gn_face st)) - delta ! 5)
              (z3 (translation_coefficients (gn_face st)) - delta ! 6) \<and>
       length (m_shape_coefficients (gn_face st')) = length (m_shape_coefficients (gn_face st)) \<and>
       length (m_expression_coefficients (gn_face st'))
         = length (m_expression_coefficients (gn_face st)) \<and>
       (\<forall>i<nS. m_shape_coefficients (gn_face st') ! i =
          m_shape_coefficients (gn_face st) ! i
            - delta ! (7 + i) / m_shape_std_dev (gn_face st) ! i) \<and>
       (\<forall>i<nE. m_expression_coefficients (gn_face st') ! i =
          clamp (m_expression_coefficients (gn_face st) ! i
                  - delta ! (7 + nS + i) / m_expression_std_dev (gn_face st) ! i) 0 1) \<and>
       (\<forall>i. nS \<le> i \<and> i < length (m_shape_coefficients (gn_face st)) \<longrightarrow>
          m_shape_coefficients (gn_face st') ! i = m_shape_coefficients (gn_face st) ! i) \<and>
       (\<forall>i. nE \<le> i \<and> i < length (m_expression_coefficients (gn_face st)) \<longrightarrow>
          m_expression_coefficients (gn_face st') ! i
            = m_expression_coefficients (gn_face st) ! i) \<and>
       m_shape_std_dev (gn_face st') = m_shape_std_dev (gn_face st) \<and>
       m_expression_std_dev (gn_face st') = m_expression_std_dev (gn_face st))"
proof -
  have f: "face = computeFace env (gn_face st)" using lin by (rule solve_linearise_face)
  have it: "solve_iteration env params sparse_features world11 st =
     Some \<lparr>gn_face = spec_apply_delta nS nE delta face,
           gn_projection = mat4_set (gn_projection st) 0 0 (gn_projection st 0 0 - delta ! 0),
           gn_jacobian_gpu = jacobian_gpu, gn_residuals_gpu = residuals_gpu,
           gn_result_gpu = delta,
           gn_calls = gn_calls st @
             [Call_computeFace, Call_computeModelMatrix, Call_computeRotationDerivatives,
              Call_computeJacobianSparseFeatures, Call_computeRegularizer,
              Call_solveUpdatePCG delta, Apply_step delta]\<rparr>"
    unfolding nS nE using ok lin by (rule solve_iteration_closed) (simp add: delta nS nE)
  have len: "length delta = 7 + nS + nE" by (simp add: delta)
  have s: "nS \<le> length (m_shape_coefficients (gn_face st))"
    and e: "nE \<le> length (m_expression_coefficients (gn_face st))"
    using ok by (simp_all add: sizes_ok_def nS nE)
  show ?thesis
    unfolding it using len s e
    by (simp add: spec_apply_delta_def f computeFace_def mat4_set_def
          spec_shape_update_nth spec_expression_update_nth)
qed

theorem solve_iteration_applies_delta_witness:
  "\<exists>st'. solve_iteration example_env example_params [Vec2 0 0] 1 example_state = Some st' \<and>
     gn_result_gpu st' = [0, 0, 0, 0, 0, 0, 0, - (9 / 10), - (9 / 10), 4 / 5] \<and>
     gn_projection st' 0 0 = 1 \<and>
     rotation_coefficients (gn_face st') = Vec3 0 0 0 \<and>
     translation_coefficients (gn_face st') = Vec3 0 0 (- 1) \<and>
     m_shape_coefficients (gn_face st') ! 0 = 7 / 5 \<and>
     m_expression_coefficients (gn_face st') ! 0 = 1 \<and>
     m_expression_coefficients (gn_face st') ! 1 = 0"
proof -
  have ok: "sizes_ok example_params (gn_face example_state)"
    by (simp add: sizes_ok_def example_params_def example_state_def example_face_def)
  have nS: "(1::nat) = num_shape_coefficients example_params"
    and nE: "(2::nat) = num_expression_coefficients example_params"
    by (simp_all add: example_params_def)
  have delta: "[0, 0, 0, 0, 0, 0, 0, - (9 / 10), - (9 / 10), 4 / 5] =
      solveUpdatePCG example_env example_params (7 + (1 + 2)) (2 * length [Vec2 0 0] + (1 + 2))
        example_jacobian example_residuals 2 (- 1)"
    by (simp add: example_delta)
  show ?thesis
    using solve_iteration_applies_delta [OF ok example_linearise nS nE delta]
    by (auto simp: example_state_def example_face_def example_projection_def clamp_def)
qed

lemma example_wide_step:
  assumes "m_shape_coefficients f = [s]" "m_shape_std_dev f = [1]"
    "m_expression_coefficients f = [e0, e1, e2]" "m_expression_std_dev f = [1, 1, 1]"
    "rotation_coefficients f = Vec3 0 0 0" "translation_coefficients f = Vec3 0 0 (- 1)"
  shows "solve_iteration example_env example_params [Vec2 0 0] w
         \<lparr>gn_face = f, gn_projection = p, gn_jacobian_gpu = J, gn_residuals_gpu = r,
          gn_result_gpu = x, gn_calls = cs\<rparr> =
       Some \<lparr>gn_face = f\<lparr>m_shape_coefficients := [s + 9 / 10],
                          m_expression_coefficients :=
                            [clamp (e0 + 9 / 10) 0 1, clamp (e1 - 4 / 5) 0 1, e2],
                          m_current_face_gpu := [Vec3 0 0 1]\<rparr>,
             gn_projection = p, gn_jacobian_gpu = example_jacobian,
             gn_residuals_gpu = example_residuals, gn_result_gpu = example_step,
             gn_calls = cs @ iteration_calls example_step\<rparr>"
proof -
  let ?st = "\<lparr>gn_face = f, gn_projection = p, gn_jacobian_gpu = J, gn_residuals_gpu = r,
          gn_result_gpu = x, gn_calls = cs\<rparr>"
  have ok: "sizes_ok example_params (gn_face ?st)"
    using assms by (simp add: sizes_ok_def example_params_def)
  have nS: "num_shape_coefficients example_params = 1"
    and nE: "num_expression_coefficients example_params = 2"
    by (simp_all add: example_params_def)
  have d: "example_step = solveUpdatePCG example_env example_params
       (7 + (num_shape_coefficients example_params + num_expression_coefficients example_params))
       (2 * length [Vec2 0 0]
          + (num_shape_coefficients example_params + num_expression_coefficients example_params))
       example_jacobian example_residuals 2 (- 1)"
    by (simp add: nS nE example_delta)
  have face: "gn_face ?st = f" by simp
  have a: "spec_apply_delta 1 2 example_step (computeFace example_env f) =
      f\<lparr>m_shape_coefficients := [s + 9 / 10],
        m_expression_coefficients := [clamp (e0 + 9 / 10) 0 1, clamp (e1 - 4 / 5) 0 1, e2],
        m_current_face_gpu := [Vec3 0 0 1]\<rparr>"
    using assms
    by (cases f)
       (simp add: spec_apply_delta_def spec_shape_update_def spec_expression_update_def
          computeFace_def example_env_def upt_rec)
  show ?thesis
    unfolding solve_iteration_closed[OF ok example_linearise_any d] nS nE face a
    by (simp add: iteration_calls_def mat4_set_def)
qed

lemma example_wide_iteration:
  "solve_iteration example_env example_params [Vec2 0 0] 1
     (example_state\<lparr>gn_face := example_face_wide\<rparr>) =
   Some \<lparr>gn_face = example_face_wide\<lparr>m_shape_coefficients := [7 / 5],
                       m_expression_coefficients := [1, 0, 7]\<rparr>,
         gn_projection = example_projection,
         gn_jacobian_gpu = example_jacobian, gn_residuals_gpu = example_residuals,
         gn_result_gpu = example_step,
         gn_calls = iteration_calls example_step\<rparr>"
proof -
  have st: "example_state\<lparr>gn_face := example_face_wide\<rparr> =
      \<lparr>gn_face = example_face_wide, gn_projection = example_projection,
       gn_jacobian_gpu = DeviceArray example_env 50,
       gn_residuals_gpu = DeviceArray example_env 5,
       gn_result_gpu = DeviceArray example_env 10, gn_calls = []\<rparr>"
    by (simp add: example_state_def)
  show ?thesis
    unfolding st
    by (subst example_wide_step[where s = "1 / 2" and ?e0.0 = "1 / 2" and ?e1.0 = "1 / 2"
          and ?e2.0 = 7])
       (simp_all add: example_face_wide_def clamp_def)
qed

lemma example_wide_solve:
  "solve example_env example_params [Vec2 0 0] example_face_wide example_projection =
     Some (example_face_wide\<lparr>m_shape_coefficients := [23 / 10],
                              m_expression_coefficients := [1, 0, 7]\<rparr>,
           example_projection,
           iteration_calls example_step @ iteration_calls example_step)"
proof -
  let ?f1 = "example_face_wide\<lparr>m_shape_coefficients := [7 / 5],
                              m_expression_coefficients := [1, 0, 7]\<rparr>"
  let ?f2 = "example_face_wide\<lparr>m_shape_coefficients := [23 / 10],
                              m_expression_coefficients := [1, 0, 7]\<rparr>"
  let ?c1 = "iteration_calls example_step"
  let ?st1 = "\<lparr>gn_face = ?f1, gn_projection = example_projection,
      gn_jacobian_gpu = example_jacobian, gn_residuals_gpu = example_residuals,
      gn_result_gpu = example_step, gn_calls = [] @ ?c1\<rparr>"
  let ?st2 = "\<lparr>gn_face = ?f2, gn_projection = example_projection,
      gn_jacobian_gpu = example_jacobian, gn_residuals_gpu = example_residuals,
      gn_result_gpu = example_step, gn_calls = ([] @ ?c1) @ ?c1\<rparr>"
  have n: "num_gn_iterations example_params = 2" by (simp add: example_params_def)
  have i0: "solve_iteration example_env example_params [Vec2 0 0] w
         \<lparr>gn_face = example_face_wide, gn_projection = example_projection, gn_jacobian_gpu = J,
          gn_residuals_gpu = r, gn_result_gpu = x, gn_calls = []\<rparr> = Some ?st1" for w J r x
    by (subst example_wide_step[where s = "1 / 2" and ?e0.0 = "1 / 2" and ?e1.0 = "1 / 2"
          and ?e2.0 = 7])
       (simp_all add: example_face_wide_def clamp_def)
  have i1: "solve_iteration example_env example_params [Vec2 0 0] w ?st1 = Some ?st2" for w
    by (subst example_wide_step[where s = "7 / 5" and ?e0.0 = 1 and ?e1.0 = 0 and ?e2.0 = 7])
       (simp_all add: example_face_wide_def clamp_def)
  have l2: "solve_loop example_env example_params [Vec2 0 0] w 2 ?st2 = Some ?st2" for w
    by (subst solve_loop.simps) (simp add: n)
  have l1: "solve_loop example_env example_params [Vec2 0 0] w 1 ?st1 = Some ?st2" for w
    by (subst solve_loop.simps) (simp add: n i1 l2 del: append_Nil append_assoc)
  have l0: "solve_loop example_env example_params [Vec2 0 0] w 0
         \<lparr>gn_face = example_face_wide, gn_projection = example_projection, gn_jacobian_gpu = J,
          gn_residuals_gpu = r, gn_result_gpu = x, gn_calls = []\<rparr> = Some ?st2" for w J r x
    by (subst solve_loop.simps) (simp add: n i0 l1 del: append_Nil append_assoc)
  show ?thesis
    unfolding solve_def Let_def l0 by simp
qed

text \<open>
  The face model may hold more expression coefficients than the parameters configure
  (\<^verbatim>\<open>solve\<close> passes \<^verbatim>\<open>face.m_expression_coefficients.size()\<close> to the kernel beside
  \<^verbatim>\<open>nExpressionCoeffs\<close>). The loop that clamps runs over the configured count only: with
  two configured and the coefficients \<open>[1/2, 1/2, 7]\<close> an iteration leaves the third at
  \<open>7\<close>, outside \<open>[0, 1]\<close>, and so does \<^verbatim>\<open>solve\<close> after its two iterations.
\<close>

theorem solve_iteration_expression_beyond_count:
  "sizes_ok example_params example_face_wide \<and>
   m_expression_coefficients example_face_wide = [1 / 2, 1 / 2, 7] \<and>
   num_expression_coefficients example_params = 2 \<and>
   (\<exists>st'. solve_iteration example_env example_params [Vec2 0 0] 1
            (example_state\<lparr>gn_face := example_face_wide\<rparr>) = Some st' \<and>
      m_expression_coefficients (gn_face st') = [1, 0, 7] \<and>
      \<not> (\<forall>c \<in> set (m_expression_coefficients (gn_face st')). 0 \<le> c \<and> c \<le> 1)) \<and>
   (\<exists>face' projection' calls.
      solve example_env example_params [Vec2 0 0] example_face_wide example_projection
        = Some (face', projection', calls) \<and>
      m_expression_coefficients face' = [1, 0, 7] \<and>
      \<not> (\<forall>c \<in> set (m_expression_coefficients face'). 0 \<le> c \<and> c \<le> 1))"
  unfolding example_wide_iteration example_wide_solve
  by (simp add: sizes_ok_def example_params_def example_face_wide_def)

text \<open>
  C3. After an iteration of \<^verbatim>\<open>solve\<close> each of the first \<open>num_expression_coefficients\<close>
  expression coefficients, the ones the solver optimises, lies in \<open>[0, 1]\<close>: a raw update
  below \<open>0\<close> gives \<open>0\<close>, one above \<open>1\<close> gives \<open>1\<close>, one in between is kept. The expression
  coefficients of the face model beyond the configured count keep their value, so all
  expression coefficients are in \<open>[0, 1]\<close> after the iteration exactly when those beyond
  the configured count were in \<open>[0, 1]\<close> before it. A shape coefficient takes its raw update
  whatever its value. Stated for every expression coefficient of the face model, the
  bound fails: the instance above.
\<close>

theorem solve_iteration_expression_clamped:
  assumes ok: "sizes_ok params (gn_face st)"
    and lin: "solve_linearise env params sparse_features world11 st
                = (face, jacobian_gpu, residuals_gpu)"
    and nS: "nS = num_shape_coefficients params"
    and nE: "nE = num_expression_coefficients params"
    and delta: "delta = solveUpdatePCG env params (7 + (nS + nE))
                  (2 * length sparse_features + (nS + nE)) jacobian_gpu residuals_gpu 2 (- 1)"
    and raw: "raw = (\<lambda>i. m_expression_coefficients (gn_face st) ! i
                  - delta ! (7 + nS + i) / m_expression_std_dev (gn_face st) ! i)"
  shows "\<exists>st'. solve_iteration env params sparse_features world11 st = Some st' \<and>
       length (m_expression_coefficients (gn_face st'))
         = length (m_expression_coefficients (gn_face st)) \<and>
       (\<forall>i<nE. 0 \<le> m_expression_coefficients (gn_face st') ! i \<and>
               m_expression_coefficients (gn_face st') ! i \<le> 1 \<and>
               (raw i < 0 \<longrightarrow> m_expression_coefficients (gn_face st') ! i = 0) \<and>
               (1 < raw i \<longrightarrow> m_expression_coefficients (gn_face st') ! i = 1) \<and>
               (0 \<le> raw i \<and> raw i \<le> 1 \<longrightarrow>
                  m_expression_coefficients (gn_face st') ! i = raw i)) \<and>
       (\<forall>i. nE \<le> i \<and> i < length (m_expression_coefficients (gn_face st)) \<longrightarrow>
          m_expression_coefficients (gn_face st') ! i
            = m_expression_coefficients (gn_face st) ! i) \<and>
       (\<forall>i<nS. m_shape_coefficients (gn_face st') ! i =
          m_shape_coefficients (gn_face st) ! i
            - delta ! (7 + i) / m_shape_std_dev (gn_face st) ! i) \<and>
       ((\<forall>c \<in> set (m_expression_coefficients (gn_face st')). 0 \<le> c \<and> c \<le> 1) \<longleftrightarrow>
        (\<forall>i. nE \<le> i \<and> i < length (m_expression_coefficients (gn_face st)) \<longrightarrow>
            0 \<le> m_expression_coefficients (gn_face st) ! i \<and>
            m_expression_coefficients (gn_face st) ! i \<le> 1))"
proof -
  have f: "face = computeFace env (gn_face st)" using lin by (rule solve_linearise_face)
  let ?st' = "\<lparr>gn_face = spec_apply_delta nS nE delta face,
           gn_projection = mat4_set (gn_projection st) 0 0 (gn_projection st 0 0 - delta ! 0),
           gn_jacobian_gpu = jacobian_gpu, gn_residuals_gpu = residuals_gpu,
           gn_result_gpu = delta,
           gn_calls = gn_calls st @
             [Call_computeFace, Call_computeModelMatrix, Call_computeRotationDerivatives,
              Call_computeJacobianSparseFeatures, Call_computeRegularizer,
              Call_solveUpdatePCG delta, Apply_step delta]\<rparr>"
  have it: "solve_iteration env params sparse_features world11 st = Some ?st'"
    unfolding nS nE using ok lin by (rule solve_iteration_closed) (simp add: delta nS nE)
  have s: "nS \<le> length (m_shape_coefficients (gn_face st))"
    and e: "nE \<le> length (m_expression_coefficients (gn_face st))"
    using ok by (simp_all add: sizes_ok_def nS nE)
  let ?e = "m_expression_coefficients (gn_face st)"
  let ?e' = "spec_expression_update nS nE delta (m_expression_std_dev (gn_face st)) ?e"
  have e': "m_expression_coefficients (spec_apply_delta nS nE delta face) = ?e'"
    by (simp add: spec_apply_delta_def f computeFace_def)
  have nth: "?e' ! i = clamp (raw i) 0 1" if "i < nE" for i
    using that e by (simp add: spec_expression_update_nth raw)
  have rest: "?e' ! i = ?e ! i" if "nE \<le> i" "i < length ?e" for i
    using that by (simp add: spec_expression_update_nth)
  have part0: "length ?e' = length ?e" by simp
  have part1: "\<forall>i<nE. 0 \<le> ?e' ! i \<and> ?e' ! i \<le> 1 \<and>
               (raw i < 0 \<longrightarrow> ?e' ! i = 0) \<and> (1 < raw i \<longrightarrow> ?e' ! i = 1) \<and>
               (0 \<le> raw i \<and> raw i \<le> 1 \<longrightarrow> ?e' ! i = raw i)"
    by (simp add: nth) (simp add: clamp_def)
  have part2: "\<forall>i. nE \<le> i \<and> i < length ?e \<longrightarrow> ?e' ! i = ?e ! i"
    using rest by blast
  have part3: "\<forall>i<nS. m_shape_coefficients (spec_apply_delta nS nE delta face) ! i =
          m_shape_coefficients (gn_face st) ! i
            - delta ! (7 + i) / m_shape_std_dev (gn_face st) ! i"
    using s by (simp add: spec_apply_delta_def f computeFace_def spec_shape_update_nth)
  have part4: "(\<forall>c \<in> set ?e'. 0 \<le> c \<and> c \<le> 1) \<longleftrightarrow>
        (\<forall>i. nE \<le> i \<and> i < length ?e \<longrightarrow> 0 \<le> ?e ! i \<and> ?e ! i \<le> 1)"
  proof
    assume all: "\<forall>c \<in> set ?e'. 0 \<le> c \<and> c \<le> 1"
    show "\<forall>i. nE \<le> i \<and> i < length ?e \<longrightarrow> 0 \<le> ?e ! i \<and> ?e ! i \<le> 1"
    proof (intro allI impI)
      fix i assume i: "nE \<le> i \<and> i < length ?e"
      then have "?e' ! i \<in> set ?e'" by (intro nth_mem) simp
      then have "0 \<le> ?e' ! i \<and> ?e' ! i \<le> 1" using all by blast
      then show "0 \<le> ?e ! i \<and> ?e ! i \<le> 1" using rest[of i] i by simp
    qed
  next
    assume tail: "\<forall>i. nE \<le> i \<and> i < length ?e \<longrightarrow> 0 \<le> ?e ! i \<and> ?e ! i \<le> 1"
    show "\<forall>c \<in> set ?e'. 0 \<le> c \<and> c \<le> 1"
    proof
      fix c assume "c \<in> set ?e'"
      then obtain i where i: "i < length ?e" "?e' ! i = c"
        by (auto simp: in_set_conv_nth)
      show "0 \<le> c \<and> c \<le> 1"
      proof (cases "i < nE")
        case True
        then show ?thesis using i nth[of i] clamp_bounds[of "raw i"] by simp
      next
        case False
        then have "?e' ! i = ?e ! i" using i rest[of i] by simp
        then show ?thesis using tail i False by auto
      qed
    qed
  qed
  have g: "m_expression_coefficients (gn_face ?st') = ?e'"
    "m_shape_coefficients (gn_face ?st') = m_shape_coefficients (spec_apply_delta nS nE delta face)"
    by (simp_all add: e')
  show ?thesis
  proof (intro exI[of _ ?st'] conjI)
    show "solve_iteration env params sparse_features world11 st = Some ?st'" by (rule it)
    show "length (m_expression_coefficients (gn_face ?st')) = length ?e"
      unfolding g by (rule part0)
    show "\<forall>i<nE. 0 \<le> m_expression_coefficients (gn_face ?st') ! i \<and>
               m_expression_coefficients (gn_face ?st') ! i \<le> 1 \<and>
               (raw i < 0 \<longrightarrow> m_expression_coefficients (gn_face ?st') ! i = 0) \<and>
               (1 < raw i \<longrightarrow> m_expression_coefficients (gn_face ?st') ! i = 1) \<and>
               (0 \<le> raw i \<and> raw i \<le> 1 \<longrightarrow>
                  m_expression_coefficients (gn_face ?st') ! i = raw i)"
      unfolding g by (rule part1)
    show "\<forall>i. nE \<le> i \<and> i < length ?e \<longrightarrow>
          m_expression_coefficients (gn_face ?st') ! i = ?e ! i"
      unfolding g by (rule part2)
    show "\<forall>i<nS. m_shape_coefficients (gn_face ?st') ! i =
          m_shape_coefficients (gn_face st) ! i
            - delta ! (7 + i) / m_shape_std_dev (gn_face st) ! i"
      unfolding g by (rule part3)
    show "(\<forall>c \<in> set (m_expression_coefficients (gn_face ?st')). 0 \<le> c \<and> c \<le> 1) \<longleftrightarrow>
        (\<forall>i. nE \<le> i \<and> i < length ?e \<longrightarrow> 0 \<le> ?e ! i \<and> ?e ! i \<le> 1)"
      unfolding g by (rule part4)
  qed
qed

theorem solve_iteration_expression_clamped_witness:
  "\<exists>st'. solve_iteration example_env example_params [Vec2 0 0] 1
            (example_state\<lparr>gn_face := example_face_wide\<rparr>) = Some st' \<and>
     sizes_ok example_params example_face_wide \<and>
     m_expression_coefficients example_face_wide ! 0
        - (- (9 / 10)) / m_expression_std_dev example_face_wide ! 0 = 7 / 5 \<and>
     m_expression_coefficients (gn_face st') ! 0 = 1 \<and>
     m_expression_coefficients example_face_wide ! 1
        - (4 / 5) / m_expression_std_dev example_face_wide ! 1 = - (3 / 10) \<and>
     m_expression_coefficients (gn_face st') ! 1 = 0 \<and>
     m_expression_coefficients example_face_wide ! 2 = 7 \<and>
     m_expression_coefficients (gn_face st') ! 2 = 7 \<and>
     length (m_expression_coefficients (gn_face st')) = 3 \<and>
     m_shape_coefficients (gn_face st') ! 0 = 7 / 5"
proof -
  let ?st = "example_state\<lparr>gn_face := example_face_wide\<rparr>"
  have ok: "sizes_ok example_params (gn_face ?st)"
    by (simp add: sizes_ok_def example_params_def example_face_wide_def)
  have nS: "(1::nat) = num_shape_coefficients example_params"
    and nE: "(2::nat) = num_expression_coefficients example_params"
    by (simp_all add: example_params_def)
  have delta: "example_step =
      solveUpdatePCG example_env example_params (7 + (1 + 2)) (2 * length [Vec2 0 0] + (1 + 2))
        example_jacobian example_residuals 2 (- 1)"
    by (simp add: example_delta)
  have face: "gn_face ?st = example_face_wide" by simp
  have e: "m_expression_coefficients example_face_wide = [1 / 2, 1 / 2, 7]"
    "m_expression_std_dev example_face_wide = [1, 1, 1]"
    "m_shape_coefficients example_face_wide = [1 / 2]" "m_shape_std_dev example_face_wide = [1]"
    by (simp_all add: example_face_wide_def)
  let ?raw = "\<lambda>i. m_expression_coefficients (gn_face ?st) ! i
                  - example_step ! (7 + 1 + i) / m_expression_std_dev (gn_face ?st) ! i"
  from solve_iteration_expression_clamped [OF ok example_linearise_any nS nE delta refl]
  obtain st' where it: "solve_iteration example_env example_params [Vec2 0 0] 1 ?st = Some st'"
    and len: "length (m_expression_coefficients (gn_face st'))
         = length (m_expression_coefficients (gn_face ?st))"
    and ex: "\<forall>i<2. 0 \<le> m_expression_coefficients (gn_face st') ! i \<and>
               m_expression_coefficients (gn_face st') ! i \<le> 1 \<and>
               (?raw i < 0 \<longrightarrow> m_expression_coefficients (gn_face st') ! i = 0) \<and>
               (1 < ?raw i \<longrightarrow> m_expression_coefficients (gn_face st') ! i = 1) \<and>
               (0 \<le> ?raw i \<and> ?raw i \<le> 1 \<longrightarrow>
                  m_expression_coefficients (gn_face st') ! i = ?raw i)"
    and tl: "\<forall>i. 2 \<le> i \<and> i < length (m_expression_coefficients (gn_face ?st)) \<longrightarrow>
          m_expression_coefficients (gn_face st') ! i
            = m_expression_coefficients (gn_face ?st) ! i"
    and sh: "\<forall>i<1. m_shape_coefficients (gn_face st') ! i =
          m_shape_coefficients (gn_face ?st) ! i
            - example_step ! (7 + i) / m_shape_std_dev (gn_face ?st) ! i"
    by blast
  have e0: "m_expression_coefficients (gn_face st') ! 0 = 1"
    using ex[rule_format, of 0] by (simp add: e)
  have e1: "m_expression_coefficients (gn_face st') ! 1 = 0"
    using ex[rule_format, of 1] by (simp add: e)
  have e2: "m_expression_coefficients (gn_face st') ! 2 = 7"
    using tl[rule_format, of 2] by (simp add: e)
  have s0: "m_shape_coefficients (gn_face st') ! 0 = 7 / 5"
    using sh[rule_format, of 0] by (simp add: e)
  have l: "length (m_expression_coefficients (gn_face st')) = 3"
    using len by (simp add: e)
  have ok': "sizes_ok example_params example_face_wide" using ok by simp
  show ?thesis using it e0 e1 e2 s0 l ok' by (simp add: e)
qed

text \<open>
  C2. With an empty feature sequence \<^verbatim>\<open>solve\<close> (and \<^verbatim>\<open>solve_CPU\<close> likewise) returns at
  once: the face model and the projection matrix are the ones it was given, and no
  collaborator has been called.
\<close>

theorem solve_empty_features_unchanged:
  "solve env params [] face projection = Some (face, projection, []) \<and>
   solve_CPU env params [] face projection = Some (face, projection)"
  by (simp add: solve_def solve_CPU_def)

text \<open>
  C10. When the configured number of Gauss-Newton iterations is zero or negative,
  \<^verbatim>\<open>solve\<close> (and \<^verbatim>\<open>solve_CPU\<close> likewise) returns the face model and the projection
  matrix it was given, also for a non-empty feature sequence, and calls no collaborator.
\<close>

theorem solve_without_iterations_unchanged:
  assumes "num_gn_iterations params \<le> 0"
  shows "solve env params sparse_features face projection = Some (face, projection, []) \<and>
         solve_CPU env params sparse_features face projection = Some (face, projection)"
proof -
  have "solve_loop env params sparse_features w 0 st = Some st" for w st
    using assms by (subst solve_loop.simps) simp
  moreover have "solve_CPU_loop env params sparse_features w 0 st = Some st" for w st
    using assms by (subst solve_CPU_loop.simps) simp
  ultimately show ?thesis
    by (simp add: solve_def solve_CPU_def solve_CPU_init_def Let_def)
qed

theorem solve_without_iterations_unchanged_witness:
  "num_gn_iterations (example_params\<lparr>num_gn_iterations := - 3\<rparr>) \<le> 0 \<and>
   solve example_env (example_params\<lparr>num_gn_iterations := - 3\<rparr>) [Vec2 0 0] example_face
     example_projection = Some (example_face, example_projection, []) \<and>
   solve_CPU example_env (example_params\<lparr>num_gn_iterations := - 3\<rparr>) [Vec2 0 0] example_face
     example_projection = Some (example_face, example_projection)"
  using solve_without_iterations_unchanged
    [of "example_params\<lparr>num_gn_iterations := - 3\<rparr>" example_env "[Vec2 0 0]" example_face
        example_projection]
  by simp

lemma solve_CPU_update_shape_eq: "solve_CPU_update_shape = solve_update_shape"
  by (intro ext) (simp add: solve_CPU_update_shape_def solve_update_shape_def)

lemma solve_CPU_update_expression_eq: "solve_CPU_update_expression = solve_update_expression"
  by (intro ext) (simp add: solve_CPU_update_expression_def solve_update_expression_def)

text \<open>
  C9. The block of \<^verbatim>\<open>solve_CPU\<close> that applies the step and the block of
  \<^verbatim>\<open>solve\<close> that applies it compute the same result on every input; for a step of
  length \<open>7 + nShape + nExpr\<close> and a face model with enough coefficients that result is
  the update rule: subtraction for focal entry, rotation and translation, division by the
  standard deviation for shape and expression coefficients, and the clamp to \<open>[0, 1]\<close> for
  expression coefficients only.
\<close>

theorem solve_CPU_apply_step_same:
  "solve_CPU_apply_step nS nE delta face projection = solve_apply_step nS nE delta face projection \<and>
   (length delta = 7 + nS + nE \<and>
    nS \<le> length (m_shape_coefficients face) \<and> nS \<le> length (m_shape_std_dev face) \<and>
    nE \<le> length (m_expression_coefficients face) \<and> nE \<le> length (m_expression_std_dev face)
    \<longrightarrow> solve_CPU_apply_step nS nE delta face projection =
          Some (spec_apply_delta nS nE delta face,
                mat4_set projection 0 0 (projection 0 0 - delta ! 0)))"
proof -
  have eq: "solve_CPU_apply_step nS nE delta face projection
      = solve_apply_step nS nE delta face projection"
    by (simp add: solve_CPU_apply_step_def solve_apply_step_def solve_CPU_update_shape_eq
          solve_CPU_update_expression_eq)
  show ?thesis
    unfolding eq by (simp add: solve_apply_step_closed)
qed

theorem solve_CPU_apply_step_same_witness:
  "solve_CPU_apply_step 1 2 [0, 0, 0, 0, 0, 0, 0, - (9 / 10), - (9 / 10), 4 / 5] example_face
      example_projection =
   solve_apply_step 1 2 [0, 0, 0, 0, 0, 0, 0, - (9 / 10), - (9 / 10), 4 / 5] example_face
      example_projection \<and>
   solve_CPU_apply_step 1 2 [0, 0, 0, 0, 0, 0, 0, - (9 / 10), - (9 / 10), 4 / 5] example_face
      example_projection =
   Some (example_face\<lparr>m_shape_coefficients := [7 / 5], m_expression_coefficients := [1, 0]\<rparr>,
         example_projection)"
proof -
  let ?d = "[0, 0, 0, 0, 0, 0, 0, - (9 / 10), - (9 / 10), 4 / 5] :: real list"
  have spec: "spec_apply_delta 1 2 ?d example_face
      = example_face\<lparr>m_shape_coefficients := [7 / 5], m_expression_coefficients := [1, 0]\<rparr>"
    by (simp add: spec_apply_delta_def spec_shape_update_def spec_expression_update_def
          example_face_def clamp_def upt_rec)
  have proj: "mat4_set example_projection 0 0 (example_projection 0 0 - ?d ! 0) = example_projection"
    by (auto simp: mat4_set_def example_projection_def fun_eq_iff)
  have sizes: "length ?d = 7 + 1 + 2 \<and>
    1 \<le> length (m_shape_coefficients example_face) \<and> 1 \<le> length (m_shape_std_dev example_face) \<and>
    2 \<le> length (m_expression_coefficients example_face) \<and>
    2 \<le> length (m_expression_std_dev example_face)"
    by (simp add: example_face_def)
  have both: "solve_CPU_apply_step 1 2 ?d example_face example_projection
        = solve_apply_step 1 2 ?d example_face example_projection \<and>
      solve_CPU_apply_step 1 2 ?d example_face example_projection =
        Some (spec_apply_delta 1 2 ?d example_face,
              mat4_set example_projection 0 0 (example_projection 0 0 - ?d ! 0))"
    using solve_CPU_apply_step_same [of 1 2 ?d example_face example_projection] sizes
    by blast
  show ?thesis
    using both unfolding spec proj .
qed

section \<open>The loops of the linear solvers\<close>

lemma solveUpdateCG_loop_invariant:
  assumes "P st"
    and "\<And>t. P t \<Longrightarrow> P (solveUpdateCG_head params nU nR jacobian alphaLHS t)"
    and "\<And>t. P t \<Longrightarrow> P (solveUpdateCG_tail params nU t)"
    and "\<And>t. P t \<Longrightarrow> P (t\<lparr>cg_stopped := True\<rparr>)"
  shows "P (snd (solveUpdateCG_loop params nU nR jacobian alphaLHS i st))"
  using assms
proof (induction params nU nR jacobian alphaLHS i st rule: solveUpdateCG_loop.induct)
  case (1 params nU nR jacobian alphaLHS i st)
  show ?case
  proof (cases "i < min (int nU) (num_pcg_iterations params)")
    case False
    then show ?thesis using "1.prems"(1)
      by (subst solveUpdateCG_loop.simps) (simp del: min_less_iff_conj)
  next
    case True
    let ?st1 = "solveUpdateCG_head params nU nR jacobian alphaLHS st"
    have p1: "P ?st1" using "1.prems" by blast
    show ?thesis
    proof (cases "cg_rTr ?st1 < kTolerance params")
      case stop: True
      then show ?thesis using True p1 "1.prems"(4)
        by (subst solveUpdateCG_loop.simps) (simp add: Let_def del: min_less_iff_conj)
    next
      case go: False
      have "P (solveUpdateCG_tail params nU ?st1)" using p1 "1.prems"(3) by blast
      then have "P (snd (solveUpdateCG_loop params nU nR jacobian alphaLHS (i + 1)
                (solveUpdateCG_tail params nU ?st1)))"
        using "1.IH"[OF True refl go] "1.prems"(2,3,4) by blast
      then show ?thesis using True go
        by (subst solveUpdateCG_loop.simps) (simp add: Let_def del: min_less_iff_conj)
    qed
  qed
qed

lemma length_solveUpdateCG [simp]:
  "length (solveUpdateCG env params nU nR jacobian residuals alphaLHS alphaRHS) = nU"
proof -
  have "length (cg_x (snd (solveUpdateCG_loop params nU nR jacobian alphaLHS i st))) = nU"
    if "length (cg_x st) = nU" for i st
    using that
    by (rule solveUpdateCG_loop_invariant)
       (simp_all add: solveUpdateCG_head_def solveUpdateCG_tail_def Let_def cublasSaxpy_def)
  then show ?thesis
    by (simp add: solveUpdateCG_def solveUpdateCG_run_def solveUpdateCG_init_def Let_def
          memset0_def)
qed

lemma std_max_max: "std_max a b = max a b"
  by (simp add: std_max_def max_def)

lemma pcg_divisors_floored:
  "list_all (\<lambda>d. kNearZero params \<le> d)
     (pcg_divisors (snd (solveUpdatePCG_run env params nU nR jacobian residuals alphaLHS alphaRHS)))"
  unfolding solveUpdatePCG_run_def Let_def
  by (rule solveUpdatePCG_loop_invariant)
     (simp_all add: solveUpdatePCG_init_def solveUpdatePCG_head_def solveUpdatePCG_tail_def
        Let_def std_max_max)

lemma cg_divisors_floored:
  "list_all (\<lambda>d. kNearZero params \<le> d)
     (cg_divisors (snd (solveUpdateCG_run env params nU nR jacobian residuals alphaLHS alphaRHS)))"
  unfolding solveUpdateCG_run_def
  by (rule solveUpdateCG_loop_invariant)
     (simp_all add: solveUpdateCG_init_def solveUpdateCG_head_def solveUpdateCG_tail_def
        Let_def std_max_max)

text \<open>
  C7. In \<^verbatim>\<open>solveUpdatePCG\<close> and in \<^verbatim>\<open>solveUpdateCG\<close> the step length \<open>ak\<close> and the
  direction coefficient \<open>bk\<close> are quotients by floored denominators. From any state of the
  loop the body computes \<open>x + ak\<cdot>p\<close> and \<open>r - ak\<cdot>J\<^sup>tJp\<close> with \<open>ak\<close> the previous inner
  product divided by \<open>max(p\<^sup>tJ\<^sup>tJp, \<epsilon>)\<close>, where \<open>J\<^sup>tJp\<close> is the product the body has just
  formed, and the new direction \<open>z + bk\<cdot>p\<close> (\<open>r + bk\<cdot>p\<close> in the plain solver) with \<open>bk\<close> the new
  inner product divided by \<open>max(previous inner product, \<epsilon>)\<close>, for \<open>\<epsilon> = kNearZero\<close>. These
  two denominators are the ones the body records. Each is at least \<open>\<epsilon>\<close>, and non-zero for
  a positive \<open>\<epsilon>\<close>; along every run of either solver every denominator divided by is at
  least \<open>\<epsilon>\<close>, and positive for a positive \<open>\<epsilon>\<close>.
\<close>

theorem solver_denominators_floored:
  assumes eps: "eps = kNearZero params"
    and q: "JTJp = cublasSgemv CUBLAS_OP_T nR nU 1 jacobian nR
             (cublasSgemv CUBLAS_OP_N nR nU alphaLHS jacobian nR (pcg_p st) 0 (pcg_Jp st))
             0 (pcg_JTJp st)"
    and d: "pTJTJp = cublasSdot nU (pcg_p st) JTJp"
    and cq: "cJTJp = cublasSgemv CUBLAS_OP_T nR nU 1 jacobian nR
             (cublasSgemv CUBLAS_OP_N nR nU alphaLHS jacobian nR (cg_p ct) 0 (cg_Jp ct))
             0 (cg_JTJp ct)"
    and cd: "cpTJTJp = cublasSdot nU (cg_p ct) cJTJp"
    and st1: "st1 = solveUpdatePCG_head env params nU nR jacobian M alphaLHS st"
    and st2: "st2 = solveUpdatePCG_tail params nU st"
    and ct1: "ct1 = solveUpdateCG_head params nU nR jacobian alphaLHS ct"
    and ct2: "ct2 = solveUpdateCG_tail params nU ct"
    and pcg: "pcg = snd (solveUpdatePCG_run env params nU nR jacobian residuals alphaLHS alphaRHS)"
    and cg: "cg = snd (solveUpdateCG_run env params nU nR jacobian residuals alphaLHS alphaRHS)"
  shows "pcg_x st1 = cublasSaxpy nU (pcg_zTr_old st / max pTJTJp eps) (pcg_p st) (pcg_x st) \<and>
     pcg_r st1 = cublasSaxpy nU (- (pcg_zTr_old st / max pTJTJp eps)) JTJp (pcg_r st) \<and>
     pcg_divisors st1 = pcg_divisors st @ [max pTJTJp eps] \<and>
     pcg_p st2 = cublasSaxpy nU 1 (pcg_z st)
                   (cublasSscal nU (pcg_zTr st / max (pcg_zTr_old st) eps) (pcg_p st)) \<and>
     pcg_divisors st2 = pcg_divisors st @ [max (pcg_zTr_old st) eps] \<and>
     pcg_zTr_old st1 = pcg_zTr_old st \<and> pcg_zTr_old st2 = pcg_zTr st \<and>
     cg_x ct1 = cublasSaxpy nU (cg_rTr ct / max cpTJTJp eps) (cg_p ct) (cg_x ct) \<and>
     cg_r ct1 = cublasSaxpy nU (- (cg_rTr ct / max cpTJTJp eps)) cJTJp (cg_r ct) \<and>
     cg_divisors ct1 = cg_divisors ct @ [max cpTJTJp eps] \<and>
     cg_p ct2 = cublasSaxpy nU 1 (cg_r ct)
                  (cublasSscal nU (cg_rTr ct / max (cg_rTr_old ct) eps) (cg_p ct)) \<and>
     cg_divisors ct2 = cg_divisors ct @ [max (cg_rTr_old ct) eps] \<and>
     cg_rTr_old ct1 = cg_rTr ct \<and>
     eps \<le> max pTJTJp eps \<and> eps \<le> max (pcg_zTr_old st) eps \<and>
     eps \<le> max cpTJTJp eps \<and> eps \<le> max (cg_rTr_old ct) eps \<and>
     (0 < eps \<longrightarrow> max pTJTJp eps \<noteq> 0 \<and> max (pcg_zTr_old st) eps \<noteq> 0 \<and>
                 max cpTJTJp eps \<noteq> 0 \<and> max (cg_rTr_old ct) eps \<noteq> 0) \<and>
     (\<forall>v \<in> set (pcg_divisors pcg). eps \<le> v \<and> (0 < eps \<longrightarrow> 0 < v \<and> v \<noteq> 0)) \<and>
     (\<forall>v \<in> set (cg_divisors cg). eps \<le> v \<and> (0 < eps \<longrightarrow> 0 < v \<and> v \<noteq> 0))"
proof -
  have ph: "pcg_x st1 = cublasSaxpy nU (pcg_zTr_old st / max pTJTJp eps) (pcg_p st) (pcg_x st)"
    "pcg_r st1 = cublasSaxpy nU (- (pcg_zTr_old st / max pTJTJp eps)) JTJp (pcg_r st)"
    "pcg_divisors st1 = pcg_divisors st @ [max pTJTJp eps]"
    "pcg_zTr_old st1 = pcg_zTr_old st"
    by (simp_all add: eps q d st1 solveUpdatePCG_head_def Let_def std_max_max)
  have pt: "pcg_p st2 = cublasSaxpy nU 1 (pcg_z st)
                   (cublasSscal nU (pcg_zTr st / max (pcg_zTr_old st) eps) (pcg_p st))"
    "pcg_divisors st2 = pcg_divisors st @ [max (pcg_zTr_old st) eps]"
    "pcg_zTr_old st2 = pcg_zTr st"
    by (simp_all add: eps st2 solveUpdatePCG_tail_def Let_def std_max_max)
  have ch: "cg_x ct1 = cublasSaxpy nU (cg_rTr ct / max cpTJTJp eps) (cg_p ct) (cg_x ct)"
    "cg_r ct1 = cublasSaxpy nU (- (cg_rTr ct / max cpTJTJp eps)) cJTJp (cg_r ct)"
    "cg_divisors ct1 = cg_divisors ct @ [max cpTJTJp eps]"
    "cg_rTr_old ct1 = cg_rTr ct"
    by (simp_all add: eps cq cd ct1 solveUpdateCG_head_def Let_def std_max_max)
  have ct: "cg_p ct2 = cublasSaxpy nU 1 (cg_r ct)
                  (cublasSscal nU (cg_rTr ct / max (cg_rTr_old ct) eps) (cg_p ct))"
    "cg_divisors ct2 = cg_divisors ct @ [max (cg_rTr_old ct) eps]"
    by (simp_all add: eps ct2 solveUpdateCG_tail_def Let_def std_max_max)
  have pos: "eps \<le> v \<and> (0 < eps \<longrightarrow> 0 < v \<and> v \<noteq> 0)" if "eps \<le> v" for v :: real
    using that by auto
  have run_pcg: "\<forall>v \<in> set (pcg_divisors pcg). eps \<le> v \<and> (0 < eps \<longrightarrow> 0 < v \<and> v \<noteq> 0)"
    using pcg_divisors_floored[of params env nU nR jacobian residuals alphaLHS alphaRHS] pos
    unfolding list_all_iff pcg eps by blast
  have run_cg: "\<forall>v \<in> set (cg_divisors cg). eps \<le> v \<and> (0 < eps \<longrightarrow> 0 < v \<and> v \<noteq> 0)"
    using cg_divisors_floored[of params env nU nR jacobian residuals alphaLHS alphaRHS] pos
    unfolding list_all_iff cg eps by blast
  have nz: "0 < eps \<longrightarrow> max pTJTJp eps \<noteq> 0 \<and> max (pcg_zTr_old st) eps \<noteq> 0 \<and>
                 max cpTJTJp eps \<noteq> 0 \<and> max (cg_rTr_old ct) eps \<noteq> 0"
    by auto
  show ?thesis
    by (intro conjI ph pt ch ct max.cobounded2 nz run_pcg run_cg)
qed

lemma pcg_head_fields:
  "pcg_tested (solveUpdatePCG_head env params nU nR J M aL st)
     = pcg_tested st @ [pcg_zTr (solveUpdatePCG_head env params nU nR J M aL st)]"
  "pcg_stopped (solveUpdatePCG_head env params nU nR J M aL st) = pcg_stopped st"
  by (simp_all add: solveUpdatePCG_head_def Let_def)

lemma pcg_tail_fields:
  "pcg_tested (solveUpdatePCG_tail params nU st) = pcg_tested st"
  "pcg_stopped (solveUpdatePCG_tail params nU st) = pcg_stopped st"
  by (simp_all add: solveUpdatePCG_tail_def Let_def)

lemma loop_tests_ok_Nil: "\<not> i < b \<Longrightarrow> loop_tests_ok tol b i i stopped stopped []"
  by (simp add: loop_tests_ok_def)

lemma loop_tests_ok_stop: "i < b \<Longrightarrow> v < tol \<Longrightarrow> loop_tests_ok tol b i i stopped True [v]"
  by (simp add: loop_tests_ok_def)

lemma loop_tests_ok_Cons:
  assumes "i < b" "\<not> v < tol" "loop_tests_ok tol b (i + 1) i' stopped stopped' new"
  shows "loop_tests_ok tol b i i' stopped stopped' (v # new)"
proof -
  have nth: "\<not> (v # new) ! k < tol" if "Suc k < length (v # new)" for k
    using that assms(2,3) by (cases k) (auto simp: loop_tests_ok_def)
  show ?thesis
    using assms nth unfolding loop_tests_ok_def
    by (auto simp del: nth_Cons_Suc)
qed

lemma solveUpdatePCG_loop_tests:
  "\<exists>new. pcg_tested (snd (solveUpdatePCG_loop env params nU nR J M aL i st)) = pcg_tested st @ new \<and>
     loop_tests_ok (kTolerance params) (min (int nU) (num_pcg_iterations params)) i
       (fst (solveUpdatePCG_loop env params nU nR J M aL i st)) (pcg_stopped st)
       (pcg_stopped (snd (solveUpdatePCG_loop env params nU nR J M aL i st))) new"
proof (induction env params nU nR J M aL i st rule: solveUpdatePCG_loop.induct)
  case (1 env params nU nR J M aL i st)
  let ?b = "min (int nU) (num_pcg_iterations params)"
  show ?case
  proof (cases "i < ?b")
    case False
    then show ?thesis
      by (subst (1 2 3) solveUpdatePCG_loop.simps)
         (simp add: loop_tests_ok_Nil del: min_less_iff_conj)
  next
    case True
    let ?st1 = "solveUpdatePCG_head env params nU nR J M aL st"
    show ?thesis
    proof (cases "pcg_zTr ?st1 < kTolerance params")
      case stop: True
      have "loop_tests_ok (kTolerance params) ?b i i (pcg_stopped st) True [pcg_zTr ?st1]"
        using True stop by (rule loop_tests_ok_stop)
      then show ?thesis using True stop
        by (subst (1 2 3) solveUpdatePCG_loop.simps)
           (simp add: Let_def pcg_head_fields del: min_less_iff_conj)
    next
      case go: False
      let ?st2 = "solveUpdatePCG_tail params nU ?st1"
      let ?res = "solveUpdatePCG_loop env params nU nR J M aL (i + 1) ?st2"
      from "1.IH"[OF True refl go] obtain new where
        new: "pcg_tested (snd ?res) = pcg_tested ?st2 @ new"
          "loop_tests_ok (kTolerance params) ?b (i + 1) (fst ?res) (pcg_stopped ?st2)
             (pcg_stopped (snd ?res)) new"
        by blast
      have "loop_tests_ok (kTolerance params) ?b i (fst ?res) (pcg_stopped st)
             (pcg_stopped (snd ?res)) (pcg_zTr ?st1 # new)"
        using True go new(2) by (intro loop_tests_ok_Cons) (simp_all add: pcg_tail_fields pcg_head_fields)
      moreover have "pcg_tested (snd ?res) = pcg_tested st @ (pcg_zTr ?st1 # new)"
        using new(1) by (simp add: pcg_tail_fields pcg_head_fields)
      ultimately have "\<exists>new. pcg_tested (snd ?res) = pcg_tested st @ new \<and>
         loop_tests_ok (kTolerance params) ?b i (fst ?res) (pcg_stopped st)
             (pcg_stopped (snd ?res)) new" by blast
      then show ?thesis using True go
        by (subst (1 2 3) solveUpdatePCG_loop.simps)
           (simp add: Let_def del: min_less_iff_conj)
    qed
  qed
qed

lemma cg_head_fields:
  "cg_tested (solveUpdateCG_head params nU nR J aL st)
     = cg_tested st @ [cg_rTr (solveUpdateCG_head params nU nR J aL st)]"
  "cg_stopped (solveUpdateCG_head params nU nR J aL st) = cg_stopped st"
  by (simp_all add: solveUpdateCG_head_def Let_def)

lemma cg_tail_fields:
  "cg_tested (solveUpdateCG_tail params nU st) = cg_tested st"
  "cg_stopped (solveUpdateCG_tail params nU st) = cg_stopped st"
  by (simp_all add: solveUpdateCG_tail_def Let_def)

lemma solveUpdateCG_loop_tests:
  "\<exists>new. cg_tested (snd (solveUpdateCG_loop params nU nR J aL i st)) = cg_tested st @ new \<and>
     loop_tests_ok (kTolerance params) (min (int nU) (num_pcg_iterations params)) i
       (fst (solveUpdateCG_loop params nU nR J aL i st)) (cg_stopped st)
       (cg_stopped (snd (solveUpdateCG_loop params nU nR J aL i st))) new"
proof (induction params nU nR J aL i st rule: solveUpdateCG_loop.induct)
  case (1 params nU nR J aL i st)
  let ?b = "min (int nU) (num_pcg_iterations params)"
  show ?case
  proof (cases "i < ?b")
    case False
    then show ?thesis
      by (subst (1 2 3) solveUpdateCG_loop.simps)
         (simp add: loop_tests_ok_Nil del: min_less_iff_conj)
  next
    case True
    let ?st1 = "solveUpdateCG_head params nU nR J aL st"
    show ?thesis
    proof (cases "cg_rTr ?st1 < kTolerance params")
      case stop: True
      have "loop_tests_ok (kTolerance params) ?b i i (cg_stopped st) True [cg_rTr ?st1]"
        using True stop by (rule loop_tests_ok_stop)
      then show ?thesis using True stop
        by (subst (1 2 3) solveUpdateCG_loop.simps)
           (simp add: Let_def cg_head_fields del: min_less_iff_conj)
    next
      case go: False
      let ?st2 = "solveUpdateCG_tail params nU ?st1"
      let ?res = "solveUpdateCG_loop params nU nR J aL (i + 1) ?st2"
      from "1.IH"[OF True refl go] obtain new where
        new: "cg_tested (snd ?res) = cg_tested ?st2 @ new"
          "loop_tests_ok (kTolerance params) ?b (i + 1) (fst ?res) (cg_stopped ?st2)
             (cg_stopped (snd ?res)) new"
        by blast
      have "loop_tests_ok (kTolerance params) ?b i (fst ?res) (cg_stopped st)
             (cg_stopped (snd ?res)) (cg_rTr ?st1 # new)"
        using True go new(2) by (intro loop_tests_ok_Cons) (simp_all add: cg_tail_fields cg_head_fields)
      moreover have "cg_tested (snd ?res) = cg_tested st @ (cg_rTr ?st1 # new)"
        using new(1) by (simp add: cg_tail_fields cg_head_fields)
      ultimately have "\<exists>new. cg_tested (snd ?res) = cg_tested st @ new \<and>
         loop_tests_ok (kTolerance params) ?b i (fst ?res) (cg_stopped st)
             (cg_stopped (snd ?res)) new" by blast
      then show ?thesis using True go
        by (subst (1 2 3) solveUpdateCG_loop.simps)
           (simp add: Let_def del: min_less_iff_conj)
    qed
  qed
qed

lemma example_scal:
  "cublasSscal 10 a [r0, r1, r2, r3, r4, r5, r6, r7, r8, r9]
    = [a * r0, a * r1, a * r2, a * r3, a * r4, a * r5, a * r6, a * r7, a * r8, a * r9]"
  by (simp add: cublasSscal_def upt_0_10)

lemma example_pcg_head1:
  assumes "kNearZero params = 1 / 1000000"
  shows "solveUpdatePCG_head example_env params 10 5 example_jacobian example_M 2
     \<lparr>pcg_x = zero10, pcg_r = example_gradient, pcg_p = example_step, pcg_z = example_step,
      pcg_Jp = zero5, pcg_JTJp = zero10, pcg_zTr_old = 113 / 25, pcg_zTr = 0,
      pcg_divisors = [], pcg_tested = [], pcg_stopped = False\<rparr> =
     \<lparr>pcg_x = example_step, pcg_r = zero10, pcg_p = example_step, pcg_z = zero10,
      pcg_Jp = [- (9 / 5), - (9 / 5), 8 / 5, 0, 0], pcg_JTJp = example_gradient,
      pcg_zTr_old = 113 / 25, pcg_zTr = 0,
      pcg_divisors = [113 / 25], pcg_tested = [0], pcg_stopped = False\<rparr>"
  unfolding solveUpdatePCG_head_def Let_def pcg_state.simps ex_gemv_N ex_gemv_T example_dot
    example_axpy example_elementwise
  by (simp add: std_max_def assms)

lemma example_pcg_tail1:
  assumes "kNearZero params = 1 / 1000000"
  shows "solveUpdatePCG_tail params 10
     \<lparr>pcg_x = example_step, pcg_r = zero10, pcg_p = example_step, pcg_z = zero10,
      pcg_Jp = [- (9 / 5), - (9 / 5), 8 / 5, 0, 0], pcg_JTJp = example_gradient,
      pcg_zTr_old = 113 / 25, pcg_zTr = 0,
      pcg_divisors = [113 / 25], pcg_tested = [0], pcg_stopped = False\<rparr> =
     \<lparr>pcg_x = example_step, pcg_r = zero10, pcg_p = zero10, pcg_z = zero10,
      pcg_Jp = [- (9 / 5), - (9 / 5), 8 / 5, 0, 0], pcg_JTJp = example_gradient,
      pcg_zTr_old = 0, pcg_zTr = 0,
      pcg_divisors = [113 / 25, 113 / 25], pcg_tested = [0], pcg_stopped = False\<rparr>"
  unfolding solveUpdatePCG_tail_def Let_def pcg_state.simps example_scal example_axpy
  by (simp add: std_max_def assms)

lemma example_pcg_head2:
  assumes "kNearZero params = 1 / 1000000"
  shows "solveUpdatePCG_head example_env params 10 5 example_jacobian example_M 2
     \<lparr>pcg_x = example_step, pcg_r = zero10, pcg_p = zero10, pcg_z = zero10,
      pcg_Jp = [- (9 / 5), - (9 / 5), 8 / 5, 0, 0], pcg_JTJp = example_gradient,
      pcg_zTr_old = 0, pcg_zTr = 0,
      pcg_divisors = [113 / 25, 113 / 25], pcg_tested = [0], pcg_stopped = False\<rparr> =
     \<lparr>pcg_x = example_step, pcg_r = zero10, pcg_p = zero10, pcg_z = zero10,
      pcg_Jp = zero5, pcg_JTJp = zero10, pcg_zTr_old = 0, pcg_zTr = 0,
      pcg_divisors = [113 / 25, 113 / 25, 1 / 1000000], pcg_tested = [0, 0],
      pcg_stopped = False\<rparr>"
  unfolding solveUpdatePCG_head_def Let_def pcg_state.simps ex_gemv_N ex_gemv_T example_dot
    example_axpy example_elementwise
  by (simp add: std_max_def assms)

lemma example_pcg_tail2:
  assumes "kNearZero params = 1 / 1000000"
  shows "solveUpdatePCG_tail params 10
     \<lparr>pcg_x = example_step, pcg_r = zero10, pcg_p = zero10, pcg_z = zero10,
      pcg_Jp = zero5, pcg_JTJp = zero10, pcg_zTr_old = 0, pcg_zTr = 0,
      pcg_divisors = [113 / 25, 113 / 25, 1 / 1000000], pcg_tested = [0, 0],
      pcg_stopped = False\<rparr> =
     \<lparr>pcg_x = example_step, pcg_r = zero10, pcg_p = zero10, pcg_z = zero10,
      pcg_Jp = zero5, pcg_JTJp = zero10, pcg_zTr_old = 0, pcg_zTr = 0,
      pcg_divisors = [113 / 25, 113 / 25, 1 / 1000000, 1 / 1000000], pcg_tested = [0, 0],
      pcg_stopped = False\<rparr>"
  unfolding solveUpdatePCG_tail_def Let_def pcg_state.simps example_scal example_axpy
  by (simp add: std_max_def assms)

lemma example_run_full:
  "solveUpdatePCG_run example_env example_params_full 10 5 example_jacobian example_residuals
      2 (- 1) =
     (2, \<lparr>pcg_x = example_step, pcg_r = zero10, pcg_p = zero10, pcg_z = zero10,
      pcg_Jp = zero5, pcg_JTJp = zero10, pcg_zTr_old = 0, pcg_zTr = 0,
      pcg_divisors = [113 / 25, 113 / 25, 1 / 1000000, 1 / 1000000], pcg_tested = [0, 0],
      pcg_stopped = False\<rparr>)"
proof -
  have k: "kNearZero example_params_full = 1 / 1000000" by (simp add: example_params_full_def)
  have b: "min (int 10) (num_pcg_iterations example_params_full) = 2"
    and t: "kTolerance example_params_full = 0"
    by (simp_all add: example_params_full_def)
  show ?thesis
    unfolding solveUpdatePCG_run_def Let_def ex_M example_init
    apply (subst solveUpdatePCG_loop.simps, unfold example_pcg_head1[OF k] Let_def b t)
    apply (simp add: example_pcg_tail1[OF k])
    apply (subst solveUpdatePCG_loop.simps, unfold example_pcg_head2[OF k] Let_def b t)
    apply (simp add: example_pcg_tail2[OF k])
    apply (subst solveUpdatePCG_loop.simps, unfold b)
    apply simp
    done
qed

lemma example_cg_init:
  "solveUpdateCG_init example_env 10 5 example_jacobian example_residuals (- 1) =
     \<lparr>cg_x = zero10, cg_r = example_gradient, cg_p = example_gradient,
      cg_Jp = zero5, cg_JTJp = zero10, cg_rTr_old = 0, cg_rTr = 226 / 25,
      cg_divisors = [], cg_tested = [], cg_stopped = False\<rparr>"
  unfolding solveUpdateCG_init_def Let_def example_residuals_def ex_gemv_T example_copy example_dot
  by (simp add: memset0_def DeviceArray_def example_env_def upt_0_5 upt_0_10 eval_nat_numeral)

lemma example_cg_head1:
  assumes "kNearZero params = 1 / 1000000"
  shows "solveUpdateCG_head params 10 5 example_jacobian 2
     \<lparr>cg_x = zero10, cg_r = example_gradient, cg_p = example_gradient,
      cg_Jp = zero5, cg_JTJp = zero10, cg_rTr_old = 0, cg_rTr = 226 / 25,
      cg_divisors = [], cg_tested = [], cg_stopped = False\<rparr> =
     \<lparr>cg_x = example_step, cg_r = zero10, cg_p = example_gradient,
      cg_Jp = [- (18 / 5), - (18 / 5), 16 / 5, 0, 0],
      cg_JTJp = [0, 0, 0, 0, 0, 0, 0, - (18 / 5), - (18 / 5), 16 / 5],
      cg_rTr_old = 226 / 25, cg_rTr = 0,
      cg_divisors = [452 / 25], cg_tested = [0], cg_stopped = False\<rparr>"
  unfolding solveUpdateCG_head_def Let_def cg_state.simps ex_gemv_N ex_gemv_T example_dot
    example_axpy
  by (simp add: std_max_def assms)

lemma example_cg_tail1:
  assumes "kNearZero params = 1 / 1000000"
  shows "solveUpdateCG_tail params 10
     \<lparr>cg_x = example_step, cg_r = zero10, cg_p = example_gradient,
      cg_Jp = [- (18 / 5), - (18 / 5), 16 / 5, 0, 0],
      cg_JTJp = [0, 0, 0, 0, 0, 0, 0, - (18 / 5), - (18 / 5), 16 / 5],
      cg_rTr_old = 226 / 25, cg_rTr = 0,
      cg_divisors = [452 / 25], cg_tested = [0], cg_stopped = False\<rparr> =
     \<lparr>cg_x = example_step, cg_r = zero10, cg_p = zero10,
      cg_Jp = [- (18 / 5), - (18 / 5), 16 / 5, 0, 0],
      cg_JTJp = [0, 0, 0, 0, 0, 0, 0, - (18 / 5), - (18 / 5), 16 / 5],
      cg_rTr_old = 226 / 25, cg_rTr = 0,
      cg_divisors = [452 / 25, 226 / 25], cg_tested = [0], cg_stopped = False\<rparr>"
  unfolding solveUpdateCG_tail_def Let_def cg_state.simps example_scal example_axpy
  by (simp add: std_max_def assms)

lemma example_cg_head2:
  assumes "kNearZero params = 1 / 1000000"
  shows "solveUpdateCG_head params 10 5 example_jacobian 2
     \<lparr>cg_x = example_step, cg_r = zero10, cg_p = zero10,
      cg_Jp = [- (18 / 5), - (18 / 5), 16 / 5, 0, 0],
      cg_JTJp = [0, 0, 0, 0, 0, 0, 0, - (18 / 5), - (18 / 5), 16 / 5],
      cg_rTr_old = 226 / 25, cg_rTr = 0,
      cg_divisors = [452 / 25, 226 / 25], cg_tested = [0], cg_stopped = False\<rparr> =
     \<lparr>cg_x = example_step, cg_r = zero10, cg_p = zero10,
      cg_Jp = zero5, cg_JTJp = zero10, cg_rTr_old = 0, cg_rTr = 0,
      cg_divisors = [452 / 25, 226 / 25, 1 / 1000000], cg_tested = [0, 0],
      cg_stopped = False\<rparr>"
  unfolding solveUpdateCG_head_def Let_def cg_state.simps ex_gemv_N ex_gemv_T example_dot
    example_axpy
  by (simp add: std_max_def assms)

lemma example_cg_tail2:
  assumes "kNearZero params = 1 / 1000000"
  shows "solveUpdateCG_tail params 10
     \<lparr>cg_x = example_step, cg_r = zero10, cg_p = zero10,
      cg_Jp = zero5, cg_JTJp = zero10, cg_rTr_old = 0, cg_rTr = 0,
      cg_divisors = [452 / 25, 226 / 25, 1 / 1000000], cg_tested = [0, 0],
      cg_stopped = False\<rparr> =
     \<lparr>cg_x = example_step, cg_r = zero10, cg_p = zero10,
      cg_Jp = zero5, cg_JTJp = zero10, cg_rTr_old = 0, cg_rTr = 0,
      cg_divisors = [452 / 25, 226 / 25, 1 / 1000000, 1 / 1000000], cg_tested = [0, 0],
      cg_stopped = False\<rparr>"
  unfolding solveUpdateCG_tail_def Let_def cg_state.simps example_scal example_axpy
  by (simp add: std_max_def assms)

lemma example_cg_run:
  "solveUpdateCG_run example_env example_params 10 5 example_jacobian example_residuals 2 (- 1) =
     (0, \<lparr>cg_x = example_step, cg_r = zero10, cg_p = example_gradient,
      cg_Jp = [- (18 / 5), - (18 / 5), 16 / 5, 0, 0],
      cg_JTJp = [0, 0, 0, 0, 0, 0, 0, - (18 / 5), - (18 / 5), 16 / 5],
      cg_rTr_old = 226 / 25, cg_rTr = 0,
      cg_divisors = [452 / 25], cg_tested = [0], cg_stopped = True\<rparr>)"
proof -
  have k: "kNearZero example_params = 1 / 1000000" by (simp add: example_params_def)
  show ?thesis
    unfolding solveUpdateCG_run_def example_cg_init
    by (subst solveUpdateCG_loop.simps, unfold example_cg_head1[OF k] Let_def)
       (simp add: example_params_def)
qed

lemma example_cg_run_full:
  "solveUpdateCG_run example_env example_params_full 10 5 example_jacobian example_residuals
      2 (- 1) =
     (2, \<lparr>cg_x = example_step, cg_r = zero10, cg_p = zero10,
      cg_Jp = zero5, cg_JTJp = zero10, cg_rTr_old = 0, cg_rTr = 0,
      cg_divisors = [452 / 25, 226 / 25, 1 / 1000000, 1 / 1000000], cg_tested = [0, 0],
      cg_stopped = False\<rparr>)"
proof -
  have k: "kNearZero example_params_full = 1 / 1000000" by (simp add: example_params_full_def)
  have b: "min (int 10) (num_pcg_iterations example_params_full) = 2"
    and t: "kTolerance example_params_full = 0"
    by (simp_all add: example_params_full_def)
  show ?thesis
    unfolding solveUpdateCG_run_def example_cg_init
    apply (subst solveUpdateCG_loop.simps, unfold example_cg_head1[OF k] Let_def b t)
    apply (simp add: example_cg_tail1[OF k])
    apply (subst solveUpdateCG_loop.simps, unfold example_cg_head2[OF k] Let_def b t)
    apply (simp add: example_cg_tail2[OF k])
    apply (subst solveUpdateCG_loop.simps, unfold b)
    apply simp
    done
qed

theorem solver_denominators_floored_witness:
  "kNearZero example_params_full = 1 / 1000000 \<and>
   cublasSdot 10 (pcg_p example_pcg_null)
     (cublasSgemv CUBLAS_OP_T 5 10 1 example_jacobian 5
        (cublasSgemv CUBLAS_OP_N 5 10 2 example_jacobian 5 (pcg_p example_pcg_null) 0
           (pcg_Jp example_pcg_null)) 0 (pcg_JTJp example_pcg_null)) = 0 \<and>
   pcg_zTr_old example_pcg_null = 1 / 2000000 \<and> pcg_zTr example_pcg_null = 1 / 250000 \<and>
   pcg_x (solveUpdatePCG_head example_env example_params_full 10 5 example_jacobian example_M 2
            example_pcg_null) = [1 / 2, 0, 0, 0, 0, 0, 0, 0, 0, 0] \<and>
   pcg_divisors (solveUpdatePCG_head example_env example_params_full 10 5 example_jacobian
            example_M 2 example_pcg_null) = [1 / 1000000] \<and>
   pcg_p (solveUpdatePCG_tail example_params_full 10 example_pcg_null)
     = [4, 0, 0, 0, 0, 0, 0, 0, 0, 0] \<and>
   pcg_divisors (solveUpdatePCG_tail example_params_full 10 example_pcg_null) = [1 / 1000000] \<and>
   cg_rTr_old example_cg_null = 1 / 2000000 \<and> cg_rTr example_cg_null = 1 / 250000 \<and>
   cg_x (solveUpdateCG_head example_params_full 10 5 example_jacobian 2 example_cg_null)
     = [4, 0, 0, 0, 0, 0, 0, 0, 0, 0] \<and>
   cg_divisors (solveUpdateCG_head example_params_full 10 5 example_jacobian 2 example_cg_null)
     = [1 / 1000000] \<and>
   cg_p (solveUpdateCG_tail example_params_full 10 example_cg_null)
     = [4, 0, 0, 0, 0, 0, 0, 0, 0, 0] \<and>
   cg_divisors (solveUpdateCG_tail example_params_full 10 example_cg_null) = [1 / 1000000] \<and>
   pcg_divisors (snd (solveUpdatePCG_run example_env example_params_full 10 5
          example_jacobian example_residuals 2 (- 1)))
     = [113 / 25, 113 / 25, 1 / 1000000, 1 / 1000000] \<and>
   cg_divisors (snd (solveUpdateCG_run example_env example_params_full 10 5
          example_jacobian example_residuals 2 (- 1)))
     = [452 / 25, 226 / 25, 1 / 1000000, 1 / 1000000]"
proof -
  note t = solver_denominators_floored [where params = example_params_full and env = example_env
      and nU = 10 and nR = 5 and jacobian = example_jacobian and M = example_M
      and alphaLHS = 2 and alphaRHS = "- 1" and residuals = example_residuals
      and st = example_pcg_null and ct = example_cg_null,
      OF refl refl refl refl refl refl refl refl refl refl refl]
  have k: "kNearZero example_params_full = 1 / 1000000" by (simp add: example_params_full_def)
  have f: "pcg_x example_pcg_null = zero10" "pcg_r example_pcg_null = zero10"
    "pcg_p example_pcg_null = [1, 0, 0, 0, 0, 0, 0, 0, 0, 0]" "pcg_z example_pcg_null = zero10"
    "pcg_Jp example_pcg_null = zero5" "pcg_JTJp example_pcg_null = zero10"
    "pcg_zTr_old example_pcg_null = 1 / 2000000" "pcg_zTr example_pcg_null = 1 / 250000"
    "pcg_divisors example_pcg_null = []"
    by (simp_all add: example_pcg_null_def)
  have g: "cg_x example_cg_null = zero10" "cg_r example_cg_null = zero10"
    "cg_p example_cg_null = [1, 0, 0, 0, 0, 0, 0, 0, 0, 0]"
    "cg_Jp example_cg_null = zero5" "cg_JTJp example_cg_null = zero10"
    "cg_rTr_old example_cg_null = 1 / 2000000" "cg_rTr example_cg_null = 1 / 250000"
    "cg_divisors example_cg_null = []"
    by (simp_all add: example_cg_null_def)
  have q: "cublasSgemv CUBLAS_OP_T 5 10 1 example_jacobian 5
        (cublasSgemv CUBLAS_OP_N 5 10 2 example_jacobian 5 [1, 0, 0, 0, 0, 0, 0, 0, 0, 0] 0
           zero5) 0 zero10 = zero10"
    unfolding ex_gemv_N ex_gemv_T by simp
  have dot: "cublasSdot 10 [1, 0, 0, 0, 0, 0, 0, 0, 0, 0] zero10 = 0"
    unfolding example_dot by simp
  note t' = t[unfolded f g q dot k example_run_full example_cg_run_full example_scal
      example_axpy]
  show ?thesis
    unfolding f g q dot k example_run_full example_cg_run_full
    using t' by simp
qed



section \<open>The iterations of \<^verbatim>\<open>solve\<close>\<close>

lemma sizes_ok_spec_apply_delta:
  "sizes_ok params (spec_apply_delta nS nE delta (computeFace env face)) = sizes_ok params face"
  by (simp add: sizes_ok_def spec_apply_delta_def computeFace_def)

lemma solve_linearise_spec:
  "solve_linearise env params fs w st =
     (fst (spec_recompute_geometry env (gn_face st)),
      spec_build_system env params fs w (gn_projection st)
        (fst (spec_recompute_geometry env (gn_face st)))
        (snd (spec_recompute_geometry env (gn_face st)))
        (spec_rotation_derivatives env (fst (spec_recompute_geometry env (gn_face st))))
        (gn_jacobian_gpu st, gn_residuals_gpu st))"
  by (simp add: solve_linearise_def spec_recompute_geometry_def spec_rotation_derivatives_def
        spec_build_system_def Let_def powf_def case_prod_beta)

lemma solve_iteration_spec:
  assumes ok: "sizes_ok params (gn_face st)"
  shows "solve_iteration env params fs w st = Some (spec_gn_iteration env params fs w st)"
proof -
  let ?face1 = "fst (spec_recompute_geometry env (gn_face st))"
  let ?sys = "spec_build_system env params fs w (gn_projection st) ?face1
        (snd (spec_recompute_geometry env (gn_face st)))
        (spec_rotation_derivatives env ?face1)
        (gn_jacobian_gpu st, gn_residuals_gpu st)"
  have lin: "solve_linearise env params fs w st = (?face1, fst ?sys, snd ?sys)"
    by (simp add: solve_linearise_spec)
  show ?thesis
    unfolding solve_iteration_closed[OF ok lin refl]
    by (simp add: spec_gn_iteration_def spec_linear_solve_def iteration_calls_def Let_def
          case_prod_beta)
qed

lemma sizes_ok_spec_gn_iteration:
  "sizes_ok params (gn_face (spec_gn_iteration env params fs w st)) = sizes_ok params (gn_face st)"
  by (simp add: spec_gn_iteration_def spec_recompute_geometry_def Let_def case_prod_beta
        sizes_ok_spec_apply_delta)

lemma sizes_ok_spec_gn_iterations:
  "sizes_ok params (gn_face ((spec_gn_iteration env params fs w ^^ k) st))
     = sizes_ok params (gn_face st)"
  by (induction k) (simp_all add: sizes_ok_spec_gn_iteration)

lemma solve_loop_spec:
  assumes "sizes_ok params (gn_face st)"
  shows "solve_loop env params fs w i st =
           Some ((spec_gn_iteration env params fs w ^^ nat (num_gn_iterations params - i)) st)"
  using assms
proof (induction env params fs w i st rule: solve_loop.induct)
  case (1 env params fs w i st)
  show ?case
  proof (cases "i < num_gn_iterations params")
    case False
    then show ?thesis by (subst solve_loop.simps) simp
  next
    case True
    let ?st1 = "spec_gn_iteration env params fs w st"
    have it: "solve_iteration env params fs w st = Some ?st1"
      using "1.prems" by (rule solve_iteration_spec)
    have ok1: "sizes_ok params (gn_face ?st1)"
      using "1.prems" by (simp add: sizes_ok_spec_gn_iteration)
    have n: "nat (num_gn_iterations params - i) = Suc (nat (num_gn_iterations params - (i + 1)))"
      using True by linarith
    have "solve_loop env params fs w i st = solve_loop env params fs w (i + 1) ?st1"
      using True it by (subst solve_loop.simps) simp
    also have "\<dots> = Some ((spec_gn_iteration env params fs w
                 ^^ nat (num_gn_iterations params - (i + 1))) ?st1)"
      using "1.IH"[OF True it ok1] .
    finally show ?thesis unfolding n by (simp add: funpow_swap1)
  qed
qed

lemma spec_gn_iteration_result:
  "length (gn_result_gpu (spec_gn_iteration env params fs w st))
     = 7 + (num_shape_coefficients params + num_expression_coefficients params)"
  "gn_calls (spec_gn_iteration env params fs w st)
     = gn_calls st @ iteration_calls (gn_result_gpu (spec_gn_iteration env params fs w st))"
  by (simp_all add: spec_gn_iteration_def spec_linear_solve_def Let_def case_prod_beta)

lemma spec_gn_iterations_calls:
  "gn_calls ((spec_gn_iteration env params fs w ^^ k) st)
     = gn_calls st @ concat (map (\<lambda>j. iteration_calls
         (gn_result_gpu ((spec_gn_iteration env params fs w ^^ Suc j) st))) [0..<k])"
proof (induction k)
  case 0
  show ?case by simp
next
  case (Suc k)
  have "gn_calls ((spec_gn_iteration env params fs w ^^ Suc k) st)
      = gn_calls ((spec_gn_iteration env params fs w ^^ k) st)
          @ iteration_calls (gn_result_gpu ((spec_gn_iteration env params fs w ^^ Suc k) st))"
    using spec_gn_iteration_result(2)
      [of env params fs w "(spec_gn_iteration env params fs w ^^ k) st"]
    by simp
  then show ?case unfolding Suc.IH by simp
qed

text \<open>
  C4. For a non-empty feature sequence (and a face model with at least the configured
  numbers of coefficients and standard deviations) \<^verbatim>\<open>solve\<close> returns the face model and
  the projection reached from the ones it was given by exactly \<open>n = max(0,
  num_gn_iterations)\<close> runs of its loop body; nothing ends the loop earlier. Run \<open>k\<close> of
  the body takes state \<open>k\<close> to state \<open>k + 1\<close> and is the iteration as the specification
  words it: from the current coefficients the vertex positions and the model matrix; then
  the three rotation-derivative matrices of the recomputed face model; then the Jacobian
  and the residuals, built from these; then the linear solver on that system, which
  returns \<open>7 + nShape + nExpr\<close> elements; then the update rule with that vector. The calls
  made are, per iteration and in this order, \<^verbatim>\<open>computeFace\<close>, \<^verbatim>\<open>computeModelMatrix\<close>,
  \<^verbatim>\<open>computeRotationDerivatives\<close>, the two kernels that build the Jacobian and the
  residuals, \<^verbatim>\<open>solveUpdatePCG\<close>, and the application of the step it returned.
\<close>

theorem solve_runs_all_iterations:
  assumes ne: "sparse_features \<noteq> []"
    and ok: "sizes_ok params face"
    and n: "n = nat (num_gn_iterations params)"
    and state: "state = (\<lambda>k. (spec_gn_iteration env params sparse_features (projection 1 1) ^^ k)
                  (spec_gn_start env params sparse_features face projection))"
  shows "solve env params sparse_features face projection
       = Some (gn_face (state n), gn_projection (state n), gn_calls (state n)) \<and>
     int n = max 0 (num_gn_iterations params) \<and>
     state 0 = spec_gn_start env params sparse_features face projection \<and>
     (\<forall>k<n. solve_iteration env params sparse_features (projection 1 1) (state k)
               = Some (state (Suc k)) \<and>
            state (Suc k)
               = spec_gn_iteration env params sparse_features (projection 1 1) (state k) \<and>
            length (gn_result_gpu (state (Suc k)))
               = 7 + num_shape_coefficients params + num_expression_coefficients params) \<and>
     gn_calls (state n) =
       concat (map (\<lambda>k.
         [Call_computeFace, Call_computeModelMatrix, Call_computeRotationDerivatives,
          Call_computeJacobianSparseFeatures, Call_computeRegularizer,
          Call_solveUpdatePCG (gn_result_gpu (state (Suc k))),
          Apply_step (gn_result_gpu (state (Suc k)))]) [0..<n])"
proof -
  let ?st0 = "spec_gn_start env params sparse_features face projection"
  let ?f = "spec_gn_iteration env params sparse_features (projection 1 1)"
  have ok0: "sizes_ok params (gn_face ?st0)"
    using ok by (simp add: spec_gn_start_def Let_def)
  have st: "state k = (?f ^^ k) ?st0" for k by (simp add: state)
  have loop: "solve_loop env params sparse_features (projection 1 1) 0 ?st0 = Some (state n)"
    unfolding st n using solve_loop_spec[OF ok0, of env sparse_features "projection 1 1" 0]
    by simp
  have run: "solve env params sparse_features face projection
       = Some (gn_face (state n), gn_projection (state n), gn_calls (state n))"
    using ne loop by (simp add: solve_def Let_def spec_gn_start_def)
  have cnt: "int n = max 0 (num_gn_iterations params)" unfolding n by simp
  have step: "solve_iteration env params sparse_features (projection 1 1) (state k)
               = Some (state (Suc k)) \<and>
            state (Suc k) = ?f (state k) \<and>
            length (gn_result_gpu (state (Suc k)))
               = 7 + num_shape_coefficients params + num_expression_coefficients params" for k
  proof -
    have "sizes_ok params (gn_face (state k))"
      unfolding st using ok0 by (simp add: sizes_ok_spec_gn_iterations)
    then have "solve_iteration env params sparse_features (projection 1 1) (state k)
        = Some (?f (state k))"
      unfolding solve_iteration_def solve_linearise_def spec_gn_iteration_def
        spec_recompute_geometry_def spec_rotation_derivatives_def spec_build_system_def
        spec_linear_solve_def iteration_calls_def
      by (simp add: Let_def case_prod_beta powf_def util_copy_id solve_apply_step_closed
            sizes_ok_def computeFace_def)
    moreover have s: "state (Suc k) = ?f (state k)" by (simp add: st)
    moreover have "length (gn_result_gpu (state (Suc k)))
               = 7 + num_shape_coefficients params + num_expression_coefficients params"
      unfolding s by (simp add: spec_gn_iteration_result(1))
    ultimately show ?thesis by simp
  qed
  have calls: "gn_calls (state n) =
       concat (map (\<lambda>k.
         [Call_computeFace, Call_computeModelMatrix, Call_computeRotationDerivatives,
          Call_computeJacobianSparseFeatures, Call_computeRegularizer,
          Call_solveUpdatePCG (gn_result_gpu (state (Suc k))),
          Apply_step (gn_result_gpu (state (Suc k)))]) [0..<n])"
    unfolding st spec_gn_iterations_calls[where env = env and params = params
        and fs = sparse_features and w = "projection 1 1" and k = n and st = ?st0]
      iteration_calls_def
    by (simp add: spec_gn_start_def Let_def)
  show ?thesis
  proof (intro conjI)
    show "solve env params sparse_features face projection
       = Some (gn_face (state n), gn_projection (state n), gn_calls (state n))" by (rule run)
    show "int n = max 0 (num_gn_iterations params)" by (rule cnt)
    show "state 0 = ?st0" by (simp add: st)
    show "\<forall>k<n. solve_iteration env params sparse_features (projection 1 1) (state k)
               = Some (state (Suc k)) \<and>
            state (Suc k) = ?f (state k) \<and>
            length (gn_result_gpu (state (Suc k)))
               = 7 + num_shape_coefficients params + num_expression_coefficients params"
      using step by blast
    show "gn_calls (state n) =
       concat (map (\<lambda>k.
         [Call_computeFace, Call_computeModelMatrix, Call_computeRotationDerivatives,
          Call_computeJacobianSparseFeatures, Call_computeRegularizer,
          Call_solveUpdatePCG (gn_result_gpu (state (Suc k))),
          Apply_step (gn_result_gpu (state (Suc k)))]) [0..<n])" by (rule calls)
  qed
qed

lemma example_apply_delta:
  assumes "m_shape_coefficients face = [s]" "m_shape_std_dev face = [1]"
    "m_expression_coefficients face = [e0, e1]" "m_expression_std_dev face = [1, 1]"
    "rotation_coefficients face = Vec3 0 0 0" "translation_coefficients face = Vec3 0 0 (- 1)"
    "m_current_face_gpu face = [Vec3 0 0 1]"
  shows "spec_apply_delta 1 2 example_step (computeFace example_env face) =
     face\<lparr>m_shape_coefficients := [s + 9 / 10],
          m_expression_coefficients := [clamp (e0 + 9 / 10) 0 1, clamp (e1 - 4 / 5) 0 1]\<rparr>"
  using assms
  by (cases face)
     (simp add: spec_apply_delta_def spec_shape_update_def spec_expression_update_def
        computeFace_def example_env_def upt_rec)

lemma example_solve:
  "solve example_env example_params [Vec2 0 0] example_face example_projection =
     Some (example_face\<lparr>m_shape_coefficients := [23 / 10], m_expression_coefficients := [1, 0]\<rparr>,
           example_projection,
           iteration_calls example_step @ iteration_calls example_step)"
proof -
  let ?f1 = "example_face\<lparr>m_shape_coefficients := [7 / 5], m_expression_coefficients := [1, 0]\<rparr>"
  let ?f2 = "example_face\<lparr>m_shape_coefficients := [23 / 10], m_expression_coefficients := [1, 0]\<rparr>"
  have nS: "num_shape_coefficients example_params = 1"
    and nE: "num_expression_coefficients example_params = 2"
    and n: "num_gn_iterations example_params = 2"
    by (simp_all add: example_params_def)
  have d: "example_step = solveUpdatePCG example_env example_params
       (7 + (num_shape_coefficients example_params + num_expression_coefficients example_params))
       (2 * length [Vec2 0 0]
          + (num_shape_coefficients example_params + num_expression_coefficients example_params))
       example_jacobian example_residuals 2 (- 1)"
    by (simp add: nS nE example_delta)
  have proj: "mat4_set p 0 0 (p 0 0 - example_step ! 0) = p" for p
    by (simp add: mat4_set_def)
  have a1: "spec_apply_delta 1 2 example_step (computeFace example_env example_face) = ?f1"
    by (subst example_apply_delta[where s = "1 / 2" and ?e0.0 = "1 / 2" and ?e1.0 = "1 / 2"])
       (simp_all add: example_face_def clamp_def)
  have a2: "spec_apply_delta 1 2 example_step (computeFace example_env ?f1) = ?f2"
    by (subst example_apply_delta[where s = "7 / 5" and ?e0.0 = 1 and ?e1.0 = 0])
       (simp_all add: example_face_def clamp_def)
  have step: "solve_iteration example_env example_params [Vec2 0 0] w
         \<lparr>gn_face = f, gn_projection = p, gn_jacobian_gpu = J, gn_residuals_gpu = r,
          gn_result_gpu = x, gn_calls = cs\<rparr> =
       Some \<lparr>gn_face = spec_apply_delta 1 2 example_step (computeFace example_env f),
             gn_projection = p, gn_jacobian_gpu = example_jacobian,
             gn_residuals_gpu = example_residuals, gn_result_gpu = example_step,
             gn_calls = cs @ iteration_calls example_step\<rparr>"
    if "sizes_ok example_params f" for f p J r x cs w
    using solve_iteration_closed[where st =
        "\<lparr>gn_face = f, gn_projection = p, gn_jacobian_gpu = J, gn_residuals_gpu = r,
          gn_result_gpu = x, gn_calls = cs\<rparr>" and fs = "[Vec2 0 0]" and w = w
          and params = example_params and env = example_env,
        OF _ example_linearise_any d] that
    by (simp add: nS nE iteration_calls_def mat4_set_def)
  have ok0: "sizes_ok example_params example_face"
    and ok1: "sizes_ok example_params ?f1"
    by (simp_all add: sizes_ok_def example_params_def example_face_def)
  let ?c1 = "iteration_calls example_step"
  let ?st2 = "\<lparr>gn_face = ?f2, gn_projection = example_projection,
      gn_jacobian_gpu = example_jacobian, gn_residuals_gpu = example_residuals,
      gn_result_gpu = example_step, gn_calls = ?c1 @ ?c1\<rparr>"
  let ?st1 = "\<lparr>gn_face = ?f1, gn_projection = example_projection,
      gn_jacobian_gpu = example_jacobian, gn_residuals_gpu = example_residuals,
      gn_result_gpu = example_step, gn_calls = [] @ ?c1\<rparr>"
  have i0: "solve_iteration example_env example_params [Vec2 0 0] w
         \<lparr>gn_face = example_face, gn_projection = example_projection, gn_jacobian_gpu = J,
          gn_residuals_gpu = r, gn_result_gpu = x, gn_calls = []\<rparr> = Some ?st1" for w J r x
    using step[OF ok0] unfolding a1 .
  have i1: "solve_iteration example_env example_params [Vec2 0 0] w ?st1 = Some ?st2" for w
    using step[OF ok1, of w example_projection example_jacobian example_residuals example_step
      "[] @ ?c1"] unfolding a2 by simp
  have l2: "solve_loop example_env example_params [Vec2 0 0] w 2 ?st2 = Some ?st2" for w
    by (subst solve_loop.simps) (simp add: n)
  have l1: "solve_loop example_env example_params [Vec2 0 0] w 1 ?st1 = Some ?st2" for w
    by (subst solve_loop.simps) (simp add: n i1 l2 del: append_Nil)
  have l0: "solve_loop example_env example_params [Vec2 0 0] w 0
         \<lparr>gn_face = example_face, gn_projection = example_projection, gn_jacobian_gpu = J,
          gn_residuals_gpu = r, gn_result_gpu = x, gn_calls = []\<rparr> = Some ?st2" for w J r x
    by (subst solve_loop.simps) (simp add: n i0 l1 del: append_Nil)
  show ?thesis
    unfolding solve_def Let_def l0 by simp
qed

theorem solve_runs_all_iterations_witness:
  "solve example_env example_params [Vec2 0 0] example_face example_projection =
     Some (example_face\<lparr>m_shape_coefficients := [23 / 10], m_expression_coefficients := [1, 0]\<rparr>,
           example_projection,
           [Call_computeFace, Call_computeModelMatrix, Call_computeRotationDerivatives,
            Call_computeJacobianSparseFeatures, Call_computeRegularizer,
            Call_solveUpdatePCG example_step, Apply_step example_step,
            Call_computeFace, Call_computeModelMatrix, Call_computeRotationDerivatives,
            Call_computeJacobianSparseFeatures, Call_computeRegularizer,
            Call_solveUpdatePCG example_step, Apply_step example_step]) \<and>
   nat (num_gn_iterations example_params) = 2 \<and>
   gn_face ((spec_gn_iteration example_env example_params [Vec2 0 0] (example_projection 1 1) ^^ 2)
              (spec_gn_start example_env example_params [Vec2 0 0] example_face
                 example_projection))
     = example_face\<lparr>m_shape_coefficients := [23 / 10], m_expression_coefficients := [1, 0]\<rparr> \<and>
   gn_projection
       ((spec_gn_iteration example_env example_params [Vec2 0 0] (example_projection 1 1) ^^ 2)
              (spec_gn_start example_env example_params [Vec2 0 0] example_face
                 example_projection))
     = example_projection \<and>
   gn_result_gpu
       ((spec_gn_iteration example_env example_params [Vec2 0 0] (example_projection 1 1) ^^ 1)
              (spec_gn_start example_env example_params [Vec2 0 0] example_face
                 example_projection))
     = example_step \<and>
   gn_result_gpu
       ((spec_gn_iteration example_env example_params [Vec2 0 0] (example_projection 1 1) ^^ 2)
              (spec_gn_start example_env example_params [Vec2 0 0] example_face
                 example_projection))
     = example_step \<and>
   length example_step
     = 7 + num_shape_coefficients example_params + num_expression_coefficients example_params"
proof -
  have ne: "[Vec2 0 0] \<noteq> []" by simp
  have ok: "sizes_ok example_params example_face"
    by (simp add: sizes_ok_def example_params_def example_face_def)
  have n: "nat (num_gn_iterations example_params) = 2"
    and l: "length example_step
     = 7 + num_shape_coefficients example_params + num_expression_coefficients example_params"
    by (simp_all add: example_params_def)
  have u: "[0..<2] = [0, 1]" by (simp add: upt_rec)
  let ?S = "\<lambda>k. (spec_gn_iteration example_env example_params [Vec2 0 0] (example_projection 1 1)
                  ^^ k)
              (spec_gn_start example_env example_params [Vec2 0 0] example_face
                 example_projection)"
  note t = solve_runs_all_iterations[where env = example_env and projection = example_projection
      and params = example_params and face = example_face and sparse_features = "[Vec2 0 0]",
      OF ne ok refl refl, unfolded n example_solve iteration_calls_def u]
  have run: "Some (example_face\<lparr>m_shape_coefficients := [23 / 10],
                                 m_expression_coefficients := [1, 0]\<rparr>,
           example_projection,
           [Call_computeFace, Call_computeModelMatrix, Call_computeRotationDerivatives,
            Call_computeJacobianSparseFeatures, Call_computeRegularizer,
            Call_solveUpdatePCG example_step, Apply_step example_step] @
           [Call_computeFace, Call_computeModelMatrix, Call_computeRotationDerivatives,
            Call_computeJacobianSparseFeatures, Call_computeRegularizer,
            Call_solveUpdatePCG example_step, Apply_step example_step])
       = Some (gn_face (?S 2), gn_projection (?S 2), gn_calls (?S 2))"
    and calls: "gn_calls (?S 2) =
       concat (map (\<lambda>k.
         [Call_computeFace, Call_computeModelMatrix, Call_computeRotationDerivatives,
          Call_computeJacobianSparseFeatures, Call_computeRegularizer,
          Call_solveUpdatePCG (gn_result_gpu (?S (Suc k))),
          Apply_step (gn_result_gpu (?S (Suc k)))]) [0, 1])"
    using t by blast+
  have f: "gn_face (?S 2) = example_face\<lparr>m_shape_coefficients := [23 / 10],
                                 m_expression_coefficients := [1, 0]\<rparr>"
    and p: "gn_projection (?S 2) = example_projection"
    and c: "gn_calls (?S 2) =
           [Call_computeFace, Call_computeModelMatrix, Call_computeRotationDerivatives,
            Call_computeJacobianSparseFeatures, Call_computeRegularizer,
            Call_solveUpdatePCG example_step, Apply_step example_step,
            Call_computeFace, Call_computeModelMatrix, Call_computeRotationDerivatives,
            Call_computeJacobianSparseFeatures, Call_computeRegularizer,
            Call_solveUpdatePCG example_step, Apply_step example_step]"
    using run by simp_all
  have d: "example_step = gn_result_gpu (?S (Suc 0)) \<and>
           example_step = gn_result_gpu (?S (Suc (Suc 0)))"
    using calls[unfolded c, simplified] by (simp (no_asm))
  have d1: "gn_result_gpu (?S 1) = example_step"
    using d[THEN conjunct1, symmetric] unfolding One_nat_def .
  have d2: "gn_result_gpu (?S 2) = example_step"
    using d[THEN conjunct2, symmetric] unfolding numeral_2_eq_2 .
  show ?thesis
    unfolding example_solve iteration_calls_def
    by (intro conjI n f p d1 d2 l) simp
qed

section \<open>The regulariser of \<^verbatim>\<open>solve_CPU\<close>\<close>

lemma solve_CPU_regularizer_shape_body:
  "solve_CPU_regularizer_shape face wReg nR R0 C0 =
     regularizer_body (m_shape_std_dev face) (m_shape_coefficients face) wReg nR R0 C0"
  by (intro ext)
     (auto simp: solve_CPU_regularizer_shape_def regularizer_body_def at_index_def Let_def)

lemma solve_CPU_regularizer_expression_body:
  "solve_CPU_regularizer_expression face wReg nR R0 C0 =
     regularizer_body (m_expression_std_dev face) (m_expression_coefficients face) wReg nR R0 C0"
  by (intro ext)
     (auto simp: solve_CPU_regularizer_expression_def regularizer_body_def at_index_def Let_def)

lemma jac_index_inj:
  assumes "r < nR" "r' < nR"
  shows "jac_index nR r c = jac_index nR r' c' \<longleftrightarrow> r = r' \<and> c = c'"
proof
  assume eq: "jac_index nR r c = jac_index nR r' c'"
  have "(r + c * nR) mod nR = r" "(r' + c' * nR) mod nR = r'" using assms by simp_all
  then have r: "r = r'" using eq unfolding jac_index_def by metis
  then have "c * nR = c' * nR" using eq by (simp add: jac_index_def)
  then have "c = c'" using assms by simp
  with r show "r = r' \<and> c = c'" by simp
qed simp

lemma jac_index_less:
  assumes "r < nR" "c < nU"
  shows "jac_index nR r c < nR * nU"
proof -
  have "r + c * nR < nR + c * nR" using assms by simp
  also have "\<dots> = nR * Suc c" by simp
  also have "\<dots> \<le> nR * nU" using assms by (intro mult_le_mono2) simp
  finally show ?thesis by (simp add: jac_index_def)
qed

lemma fold_update_length:
  "length (fold (\<lambda>(r, c) J. J[f r c := g r c]) ps J) = length J"
  by (induction ps arbitrary: J) (auto split: prod.splits)

lemma fold_update_frame:
  "(\<And>r c. (r, c) \<in> set ps \<Longrightarrow> f r c \<noteq> k) \<Longrightarrow>
   fold (\<lambda>(r, c) J. J[f r c := g r c]) ps J ! k = J ! k"
proof (induction ps arbitrary: J)
  case Nil
  then show ?case by simp
next
  case (Cons p ps)
  obtain r c where p: "p = (r, c)" by (cases p)
  have "f r c \<noteq> k" using Cons.prems[of r c] p by simp
  then show ?case using Cons.IH[of "J[f r c := g r c]"] Cons.prems p by simp
qed

lemma length_set_block [simp]: "length (set_block nRows J r0 c0 nr nc B) = length J"
  by (simp add: set_block_def fold_update_length)

lemma set_block_frame:
  assumes "r0 + nr \<le> lo" "lo \<le> r" "r < nRows"
  shows "set_block nRows J r0 c0 nr nc B ! jac_index nRows r c = J ! jac_index nRows r c"
  unfolding set_block_def
proof (rule fold_update_frame)
  fix r' c' assume "(r', c') \<in> set (List.product [0..<nr] [0..<nc])"
  then have "r0 + r' < lo" using assms(1) by auto
  then have "r0 + r' \<noteq> r" "r0 + r' < nRows" using assms(2,3) by auto
  then show "jac_index nRows (r0 + r') (c0 + c') \<noteq> jac_index nRows r c"
    using assms(3) by (simp add: jac_index_inj)
qed

lemma solve_CPU_feature_frame:
  assumes "solve_CPU_feature ids fs face cur pose drx dry drz proj w11 jl nR nS nE i (J, res)
             = Some (J', res')"
    and "i < nF" "2 * nF \<le> nR"
  shows "length J' = length J \<and> length res' = length res \<and>
     (\<forall>r c. 2 * nF \<le> r \<and> r < nR \<longrightarrow> J' ! jac_index nR r c = J ! jac_index nR r c) \<and>
     (\<forall>r. 2 * nF \<le> r \<longrightarrow> res' ! r = res ! r)"
proof -
  have blk: "i * 2 + 2 \<le> 2 * nF" using assms(2) by simp
  note fr = set_block_frame[OF blk]
  show ?thesis
    using assms(1,2)
    by (auto simp: solve_CPU_feature_def Let_def fr split: bind_splits)
qed

lemma feature_loop_frame:
  assumes loop: "for_range 0 nF
       (solve_CPU_feature ids fs face cur pose drx dry drz proj w11 jl nR nS nE) (J, res)
         = Some (J', res')"
    and "2 * nF \<le> nR"
  shows "length J' = length J \<and> length res' = length res \<and>
     (\<forall>r c. 2 * nF \<le> r \<and> r < nR \<longrightarrow> J' ! jac_index nR r c = J ! jac_index nR r c) \<and>
     (\<forall>r. 2 * nF \<le> r \<longrightarrow> res' ! r = res ! r)"
proof -
  let ?P = "\<lambda>(j::nat) s. length (fst s) = length J \<and> length (snd s) = length res \<and>
     (\<forall>r c. 2 * nF \<le> r \<and> r < nR \<longrightarrow> fst s ! jac_index nR r c = J ! jac_index nR r c) \<and>
     (\<forall>r. 2 * nF \<le> r \<longrightarrow> snd s ! r = res ! r)"
  have "?P nF (J', res')"
  proof (rule for_range_partial[where P = "?P", OF loop])
    show "0 \<le> nF" by simp
    show "?P 0 (J, res)" by simp
  next
    fix j t t' assume j: "0 \<le> j" "j < nF" and t: "?P j t"
      and b: "solve_CPU_feature ids fs face cur pose drx dry drz proj w11 jl nR nS nE j t = Some t'"
    obtain J1 r1 where t1: "t = (J1, r1)" by (cases t)
    obtain J2 r2 where t2: "t' = (J2, r2)" by (cases t')
    from solve_CPU_feature_frame[OF b[unfolded t1 t2] j(2) assms(2)] t
    show "?P (j + 1) t'" by (simp add: t1 t2)
  qed
  then show ?thesis by simp
qed

lemma regularizer_loop:
  assumes loop: "for_range 0 n (regularizer_body sd cf wReg nR R0 C0) (J, res) = Some (J', res')"
    and "R0 + n \<le> nR" "C0 + n \<le> nU" "length J = nR * nU" "length res = nR"
  shows "length J' = length J \<and> length res' = length res \<and>
     (\<forall>i<n. J' ! jac_index nR (R0 + i) (C0 + i) = 1 / sd ! i * (1 / sd ! i) * cf ! i * wReg * 2 \<and>
            res' ! (R0 + i) = 0) \<and>
     (\<forall>r c. r < nR \<and> (r < R0 \<or> R0 + n \<le> r \<or> c \<noteq> C0 + (r - R0)) \<longrightarrow>
        J' ! jac_index nR r c = J ! jac_index nR r c) \<and>
     (\<forall>r. r < R0 \<or> R0 + n \<le> r \<longrightarrow> res' ! r = res ! r)"
proof -
  let ?P = "\<lambda>(j::nat) s. length (fst s) = length J \<and> length (snd s) = length res \<and>
     (\<forall>i<j. fst s ! jac_index nR (R0 + i) (C0 + i) = 1 / sd ! i * (1 / sd ! i) * cf ! i * wReg * 2 \<and>
            snd s ! (R0 + i) = 0) \<and>
     (\<forall>r c. r < nR \<and> (r < R0 \<or> R0 + j \<le> r \<or> c \<noteq> C0 + (r - R0)) \<longrightarrow>
        fst s ! jac_index nR r c = J ! jac_index nR r c) \<and>
     (\<forall>r. r < R0 \<or> R0 + j \<le> r \<longrightarrow> snd s ! r = res ! r)"
  have "?P n (J', res')"
  proof (rule for_range_partial[where P = "?P", OF loop])
    show "0 \<le> n" by simp
    show "?P 0 (J, res)" by simp
  next
    fix j t t' assume j: "0 \<le> j" "j < n" and t: "?P j t"
      and b: "regularizer_body sd cf wReg nR R0 C0 j t = Some t'"
    obtain J1 r1 where t1: "t = (J1, r1)" by (cases t)
    let ?k = "jac_index nR (R0 + j) (C0 + j)"
    let ?v = "1 / sd ! j * (1 / sd ! j) * cf ! j * wReg * 2"
    have t': "t' = (J1[?k := ?v], r1[R0 + j := 0])"
      using b by (auto simp: regularizer_body_def t1 split: if_splits)
    have row: "R0 + j < nR" and col: "C0 + j < nU" using j assms(2,3) by simp_all
    have k: "?k < length J1" using jac_index_less[OF row col] t assms(4) by (simp add: t1)
    have rj: "R0 + j < length r1" using row t assms(5) by (simp add: t1)
    have diag: "J1[?k := ?v] ! jac_index nR (R0 + i) (C0 + i)
          = 1 / sd ! i * (1 / sd ! i) * cf ! i * wReg * 2 \<and> r1[R0 + j := 0] ! (R0 + i) = 0"
      if "i < j + 1" for i
    proof (cases "i = j")
      case True
      then show ?thesis using k rj by simp
    next
      case False
      then have "i < j" using that by simp
      moreover have "jac_index nR (R0 + i) (C0 + i) \<noteq> ?k"
        using False row \<open>i < j\<close> by (simp add: jac_index_inj)
      ultimately show ?thesis using t False by (simp add: t1)
    qed
    have frame: "J1[?k := ?v] ! jac_index nR r c = J ! jac_index nR r c"
      if "r < nR" "r < R0 \<or> R0 + (j + 1) \<le> r \<or> c \<noteq> C0 + (r - R0)" for r c
    proof -
      have "jac_index nR r c \<noteq> ?k"
        using that row by (auto simp: jac_index_inj)
      moreover have "r < R0 \<or> R0 + j \<le> r \<or> c \<noteq> C0 + (r - R0)" using that(2) by auto
      ultimately show ?thesis using t that(1) by (simp add: t1)
    qed
    have rframe: "r1[R0 + j := 0] ! r = res ! r" if "r < R0 \<or> R0 + (j + 1) \<le> r" for r
    proof -
      have "r \<noteq> R0 + j" "r < R0 \<or> R0 + j \<le> r" using that by auto
      then show ?thesis using t by (auto simp: t1)
    qed
    show "?P (j + 1) t'"
      unfolding t' using t diag frame rframe by (simp add: t1)
  qed
  then show ?thesis by simp
qed

lemma solve_CPU_build_block:
  assumes build: "solve_CPU_build env params fs w face projection (J, res) = Some (J', res')"
    and nF: "nF = length fs" and nS: "nS = num_shape_coefficients params"
    and nE: "nE = num_expression_coefficients params"
    and nR: "nR = 2 * nF + nS + nE"
    and lam: "lam = 10 powr regularisation_weight_exponent params"
    and clear: "regularizer_rows_clear nF nS nE J" and lres: "length res = nR"
  shows "regularizer_rows_clear nF nS nE J' \<and> length res' = nR \<and>
     (\<forall>i<nS. J' ! jac_index nR (2 * nF + i) (7 + i) =
          (1 / m_shape_std_dev face ! i)\<^sup>2 * m_shape_coefficients face ! i * lam * 2 \<and>
        res' ! (2 * nF + i) = 0) \<and>
     (\<forall>i<nE. J' ! jac_index nR (2 * nF + nS + i) (7 + nS + i) =
          (1 / m_expression_std_dev face ! i)\<^sup>2 * m_expression_coefficients face ! i * lam * 2 \<and>
        res' ! (2 * nF + nS + i) = 0)"
proof -
  let ?nU = "7 + nS + nE"
  from build obtain cur pose drx dry drz jl b1 b2 where
    l1: "for_range 0 nF (solve_CPU_feature (getPriorIds env) fs face cur pose drx dry drz
           projection w jl nR nS nE) (J, res) = Some b1"
    and l2: "for_range 0 nS (regularizer_body (m_shape_std_dev face) (m_shape_coefficients face)
           lam nR (2 * nF) 7) b1 = Some b2"
    and l3: "for_range 0 nE (regularizer_body (m_expression_std_dev face)
           (m_expression_coefficients face) lam nR (2 * nF + nS) (7 + nS)) b2 = Some (J', res')"
    unfolding solve_CPU_build_def Let_def nF nS nE nR lam powf_def
      solve_CPU_regularizer_shape_body solve_CPU_regularizer_expression_body
    by (auto simp: add.assoc split: bind_splits prod.splits if_splits)
  obtain J1 r1 where b1: "b1 = (J1, r1)" by (cases b1)
  obtain J2 r2 where b2: "b2 = (J2, r2)" by (cases b2)
  have lJ: "length J = nR * ?nU" using clear by (simp add: regularizer_rows_clear_def nR)
  have f1: "length J1 = length J" "length r1 = length res"
    "\<And>r c. 2 * nF \<le> r \<Longrightarrow> r < nR \<Longrightarrow> J1 ! jac_index nR r c = J ! jac_index nR r c"
    using feature_loop_frame[OF l1[unfolded b1]] by (simp_all add: nR)
  have f2: "length J2 = length J1" "length r2 = length r1"
    "\<And>i. i < nS \<Longrightarrow> J2 ! jac_index nR (2 * nF + i) (7 + i)
        = 1 / m_shape_std_dev face ! i * (1 / m_shape_std_dev face ! i)
            * m_shape_coefficients face ! i * lam * 2 \<and> r2 ! (2 * nF + i) = 0"
    "\<And>r c. r < nR \<Longrightarrow> r < 2 * nF \<or> 2 * nF + nS \<le> r \<or> c \<noteq> 7 + (r - 2 * nF) \<Longrightarrow>
        J2 ! jac_index nR r c = J1 ! jac_index nR r c"
    using regularizer_loop[OF l2[unfolded b1 b2], of ?nU] f1(1,2) lJ lres
    by (auto simp: nR)
  have f3: "length J' = length J2" "length res' = length r2"
    "\<And>i. i < nE \<Longrightarrow> J' ! jac_index nR (2 * nF + nS + i) (7 + nS + i)
        = 1 / m_expression_std_dev face ! i * (1 / m_expression_std_dev face ! i)
            * m_expression_coefficients face ! i * lam * 2 \<and> res' ! (2 * nF + nS + i) = 0"
    "\<And>r c. r < nR \<Longrightarrow>
        r < 2 * nF + nS \<or> 2 * nF + nS + nE \<le> r \<or> c \<noteq> 7 + nS + (r - (2 * nF + nS)) \<Longrightarrow>
        J' ! jac_index nR r c = J2 ! jac_index nR r c"
    "\<And>r. r < 2 * nF + nS \<or> 2 * nF + nS + nE \<le> r \<Longrightarrow> res' ! r = r2 ! r"
    using regularizer_loop[OF l3[unfolded b2], of ?nU] f2(1,2) f1(1,2) lJ lres
    by (auto simp: nR)
  have off: "J' ! jac_index nR r c = 0"
    if "2 * nF \<le> r" "r < nR" "c < ?nU" "c \<noteq> 7 + (r - 2 * nF)" for r c
  proof -
    have "J' ! jac_index nR r c = J2 ! jac_index nR r c"
      using that by (intro f3(4)) auto
    also have "\<dots> = J1 ! jac_index nR r c"
      using that by (intro f2(4)) auto
    also have "\<dots> = J ! jac_index nR r c" using that by (intro f1(3)) auto
    also have "\<dots> = 0" using clear that by (simp add: regularizer_rows_clear_def nR)
    finally show ?thesis .
  qed
  have shape: "J' ! jac_index nR (2 * nF + i) (7 + i) =
          (1 / m_shape_std_dev face ! i)\<^sup>2 * m_shape_coefficients face ! i * lam * 2 \<and>
        res' ! (2 * nF + i) = 0" if "i < nS" for i
  proof -
    have "J' ! jac_index nR (2 * nF + i) (7 + i) = J2 ! jac_index nR (2 * nF + i) (7 + i)"
      using that by (intro f3(4)) (auto simp: nR)
    moreover have "res' ! (2 * nF + i) = r2 ! (2 * nF + i)"
      using that by (intro f3(5)) auto
    ultimately show ?thesis using f2(3)[OF that] by (simp add: power2_eq_square)
  qed
  have expr: "J' ! jac_index nR (2 * nF + nS + i) (7 + nS + i) =
          (1 / m_expression_std_dev face ! i)\<^sup>2 * m_expression_coefficients face ! i * lam * 2 \<and>
        res' ! (2 * nF + nS + i) = 0" if "i < nE" for i
    using f3(3)[OF that] by (simp add: power2_eq_square)
  have "length J' = (2 * nF + nS + nE) * ?nU" using f3(1) f2(1) f1(1) lJ by (simp add: nR)
  then have "regularizer_rows_clear nF nS nE J'"
    unfolding regularizer_rows_clear_def using off[unfolded nR] by blast
  moreover have "length res' = nR" using f3(2) f2(2) f1(2) lres by simp
  ultimately show ?thesis using shape expr by blast
qed

lemma solve_CPU_feature_total:
  assumes "at_index ids i = Some v" "at_index cur v = Some l" "at_index fs i = Some f"
    "basis_block (m_shape_basis face) (m_number_of_vertices face * 3)
       (length (m_shape_coefficients face)) (3 * v) nS = Some sb"
    "basis_block (m_expression_basis face) (m_number_of_vertices face * 3)
       (length (m_expression_coefficients face)) (3 * v) nE = Some eb"
  shows "\<exists>b. solve_CPU_feature ids fs face cur pose drx dry drz proj w11 jl nR nS nE i buffers
           = Some b"
  by (cases buffers) (simp add: solve_CPU_feature_def Let_def assms)

lemma regularizer_loop_total:
  assumes "n \<le> length sd" "n \<le> length cf"
  shows "\<exists>b. for_range 0 n (regularizer_body sd cf wReg nR R0 C0) s = Some b"
proof -
  have "\<exists>s'. for_range 0 n (regularizer_body sd cf wReg nR R0 C0) s = Some s' \<and> True"
  proof (rule for_range_total[where P = "\<lambda>_ _. True"])
    fix j t assume "j < n"
    then show "\<exists>t'. regularizer_body sd cf wReg nR R0 C0 j t = Some t' \<and> True"
      using assms by (cases t) (simp add: regularizer_body_def)
  qed simp_all
  then show ?thesis by simp
qed

lemma solve_CPU_build_total:
  assumes ok: "solve_CPU_inputs_ok env params fs face"
  shows "\<exists>b. solve_CPU_build env params fs w (computeFace env face) projection buffers = Some b"
proof -
  let ?face = "computeFace env face"
  let ?nV = "m_number_of_vertices face"
  let ?cur = "take ?nV (computeFace_vertices env face)"
  let ?nS = "num_shape_coefficients params"
  let ?nE = "num_expression_coefficients params"
  let ?nR = "2 * length fs + (?nS + ?nE)"
  obtain drx dry drz where d: "computeRotationDerivatives env ?face = (drx, dry, drz)"
    by (cases "computeRotationDerivatives env ?face")
  have sz: "sizes_ok params face" and nv: "?nV \<le> length (computeFace_vertices env face)"
    and ids: "length fs \<le> length (getPriorIds env)"
    and vs: "list_all (\<lambda>v. v < ?nV) (take (length fs) (getPriorIds env))"
    and sb: "?nV * 3 * length (m_shape_coefficients face) \<le> length (m_shape_basis face)"
    and eb: "?nV * 3 * length (m_expression_coefficients face) \<le> length (m_expression_basis face)"
    using ok by (simp_all add: solve_CPU_inputs_ok_def)
  let ?body = "solve_CPU_feature (getPriorIds env) fs ?face ?cur (computeModelMatrix env ?face)
      drx dry drz projection w (\<lambda>r c. computeModelMatrix env ?face c r) ?nR ?nS ?nE"
  have "\<exists>s'. for_range 0 (length fs) ?body buffers = Some s' \<and> True"
  proof (rule for_range_total[where P = "\<lambda>_ _. True"])
    fix j t assume j: "j < length fs"
    let ?v = "getPriorIds env ! j"
    have "?v \<in> set (take (length fs) (getPriorIds env))"
      using j ids by (auto simp: in_set_conv_nth intro!: exI[of _ j])
    then have v: "?v < ?nV" using vs by (auto simp: list_all_iff)
    have a1: "at_index (getPriorIds env) j = Some ?v" using j ids by (simp add: at_index_def)
    have a2: "at_index ?cur ?v = Some (?cur ! ?v)" using v nv by (simp add: at_index_def)
    have a3: "at_index fs j = Some (fs ! j)" using j by (simp add: at_index_def)
    have a4: "basis_block (m_shape_basis ?face) (m_number_of_vertices ?face * 3)
       (length (m_shape_coefficients ?face)) (3 * ?v) ?nS
         = Some (\<lambda>r c. m_shape_basis ?face ! (3 * ?v + r + c * (m_number_of_vertices ?face * 3)))"
      using v sb sz by (simp add: basis_block_def computeFace_def sizes_ok_def)
    have a5: "basis_block (m_expression_basis ?face) (m_number_of_vertices ?face * 3)
       (length (m_expression_coefficients ?face)) (3 * ?v) ?nE
         = Some (\<lambda>r c. m_expression_basis ?face
                    ! (3 * ?v + r + c * (m_number_of_vertices ?face * 3)))"
      using v eb sz by (simp add: basis_block_def computeFace_def sizes_ok_def)
    have cur: "take (m_number_of_vertices ?face) (m_current_face_gpu ?face) = ?cur"
      by (simp add: computeFace_def)
    show "\<exists>t'. ?body j t = Some t' \<and> True"
      using solve_CPU_feature_total[OF a1 a2 a3 a4 a5] by simp
  qed simp_all
  then obtain b1 where b1: "for_range 0 (length fs) ?body buffers = Some b1" by blast
  obtain b2 where b2: "for_range 0 ?nS (regularizer_body (m_shape_std_dev ?face)
      (m_shape_coefficients ?face) (powf 10 (regularisation_weight_exponent params)) ?nR
      (2 * length fs) 7) b1 = Some b2"
  proof -
    have "?nS \<le> length (m_shape_std_dev ?face)" "?nS \<le> length (m_shape_coefficients ?face)"
      using sz by (simp_all add: sizes_ok_def computeFace_def)
    from regularizer_loop_total[OF this] that show ?thesis by blast
  qed
  obtain b3 where b3: "for_range 0 ?nE (regularizer_body (m_expression_std_dev ?face)
      (m_expression_coefficients ?face) (powf 10 (regularisation_weight_exponent params)) ?nR
      (2 * length fs + ?nS) (7 + ?nS)) b2 = Some b3"
  proof -
    have "?nE \<le> length (m_expression_std_dev ?face)"
      "?nE \<le> length (m_expression_coefficients ?face)"
      using sz by (simp_all add: sizes_ok_def computeFace_def)
    from regularizer_loop_total[OF this] that show ?thesis by blast
  qed
  have cur: "take (m_number_of_vertices ?face) (m_current_face_gpu ?face) = ?cur"
    and nv': "m_number_of_vertices ?face \<le> length (m_current_face_gpu ?face)"
    using nv by (simp_all add: computeFace_def)
  show ?thesis
    unfolding solve_CPU_build_def Let_def d prod.case cur
      solve_CPU_regularizer_shape_body solve_CPU_regularizer_expression_body
    using nv' by (simp add: b1 b2 b3)
qed

lemma solve_CPU_apply_step_closed:
  assumes "7 + nS + nE \<le> length result"
    "nS \<le> length (m_shape_coefficients face)" "nS \<le> length (m_shape_std_dev face)"
    "nE \<le> length (m_expression_coefficients face)" "nE \<le> length (m_expression_std_dev face)"
  shows "solve_CPU_apply_step nS nE result face projection =
     Some (spec_apply_delta nS nE result face,
           mat4_set projection 0 0 (projection 0 0 - result ! 0))"
proof -
  have "solve_CPU_apply_step nS nE result face projection
      = solve_apply_step nS nE result face projection"
    by (simp add: solve_CPU_apply_step_def solve_apply_step_def solve_CPU_update_shape_eq
          solve_CPU_update_expression_eq)
  then show ?thesis using assms by (simp add: solve_apply_step_closed)
qed

lemma solve_CPU_iteration_total:
  assumes ok: "solve_CPU_inputs_ok env params fs (cpu_face st)"
  shows "\<exists>st'. solve_CPU_iteration env params fs w st = Some st'"
proof -
  let ?face = "computeFace env (cpu_face st)"
  obtain J' r' where b: "solve_CPU_build env params fs w ?face (cpu_projection st)
       (cpu_jacobian st, cpu_residuals st) = Some (J', r')"
    using solve_CPU_build_total[OF ok, of w "cpu_projection st"
        "(cpu_jacobian st, cpu_residuals st)"] by auto
  have sz: "sizes_ok params ?face"
    using ok by (simp add: solve_CPU_inputs_ok_def sizes_ok_def computeFace_def)
  show ?thesis
    unfolding solve_CPU_iteration_def Let_def b
    using sz by (simp add: solve_CPU_apply_step_closed sizes_ok_def)
qed

lemma solve_CPU_iteration_build:
  assumes "solve_CPU_iteration env params fs w st = Some st'"
  shows "solve_CPU_build env params fs w (computeFace env (cpu_face st)) (cpu_projection st)
       (cpu_jacobian st, cpu_residuals st) = Some (cpu_jacobian st', cpu_residuals st') \<and>
     cpu_jacobian_gpu st' = util_copy
        ((7 + (num_shape_coefficients params + num_expression_coefficients params))
           * (2 * length fs + (num_shape_coefficients params + num_expression_coefficients params)))
        (cpu_jacobian st') \<and>
     cpu_residuals_gpu st' = util_copy
        (2 * length fs + (num_shape_coefficients params + num_expression_coefficients params))
        (cpu_residuals st')"
  using assms
  by (auto simp: solve_CPU_iteration_def Let_def split: bind_splits prod.splits)

lemma solve_CPU_init_invariant:
  "solve_CPU_invariant params fs (solve_CPU_init env params fs face projection)"
  by (auto simp: solve_CPU_invariant_def solve_CPU_init_def Let_def regularizer_rows_clear_def
        add.assoc intro!: nth_replicate jac_index_less)

lemma solve_CPU_iteration_invariant:
  assumes "solve_CPU_invariant params fs st" "solve_CPU_iteration env params fs w st = Some st'"
  shows "solve_CPU_invariant params fs st'"
  using solve_CPU_build_block[OF solve_CPU_iteration_build[OF assms(2), THEN conjunct1]
      refl refl refl refl refl] assms(1)
  by (simp add: solve_CPU_invariant_def)

lemma solve_CPU_reaches_invariant:
  assumes "solve_CPU_reaches env params fs w st0 st" "solve_CPU_invariant params fs st0"
  shows "solve_CPU_invariant params fs st"
  using assms by (induction rule: solve_CPU_reaches.induct) (auto intro: solve_CPU_iteration_invariant)

text \<open>
  C8. In every iteration of \<^verbatim>\<open>solve_CPU\<close> the rows of the Jacobian after the feature
  rows hold one entry per regularised coefficient: for shape coefficient \<open>i\<close> the entry at
  row \<open>2 * nFeatures + i\<close>, column \<open>7 + i\<close> is \<open>(1/\<sigma>\<^sub>i)\<^sup>2 \<cdot> coeff\<^sub>i \<cdot> \<lambda> \<cdot> 2\<close> with
  \<open>\<lambda> = 10\<close> to the power of the regularisation weight exponent, \<open>\<sigma>\<^sub>i\<close> the standard
  deviation and \<open>coeff\<^sub>i\<close> the coefficient at the start of the iteration; every other entry
  of that row is \<open>0\<close> and the residual of that row is \<open>0\<close>. The expression coefficients have
  the same construction at row \<open>2 * nFeatures + nShape + i\<close>, column \<open>7 + nShape + i\<close>. This
  Jacobian and these residuals are what the linear solver receives.
\<close>

theorem solve_CPU_regularizer_block:
  assumes reach: "solve_CPU_reaches env params sparse_features world11
                    (solve_CPU_init env params sparse_features face0 projection0) st"
    and iter: "solve_CPU_iteration env params sparse_features world11 st = Some st'"
    and nF: "nF = length sparse_features"
    and nS: "nS = num_shape_coefficients params"
    and nE: "nE = num_expression_coefficients params"
    and nR: "nR = 2 * nF + nS + nE"
    and lam: "lam = 10 powr regularisation_weight_exponent params"
  shows "(\<forall>i<nS.
        cpu_jacobian st' ! jac_index nR (2 * nF + i) (7 + i) =
          (1 / m_shape_std_dev (cpu_face st) ! i)\<^sup>2 * m_shape_coefficients (cpu_face st) ! i
            * lam * 2 \<and>
        cpu_residuals st' ! (2 * nF + i) = 0 \<and>
        (\<forall>c<7 + nS + nE. c \<noteq> 7 + i \<longrightarrow>
           cpu_jacobian st' ! jac_index nR (2 * nF + i) c = 0)) \<and>
     (\<forall>i<nE.
        cpu_jacobian st' ! jac_index nR (2 * nF + nS + i) (7 + nS + i) =
          (1 / m_expression_std_dev (cpu_face st) ! i)\<^sup>2
            * m_expression_coefficients (cpu_face st) ! i * lam * 2 \<and>
        cpu_residuals st' ! (2 * nF + nS + i) = 0 \<and>
        (\<forall>c<7 + nS + nE. c \<noteq> 7 + nS + i \<longrightarrow>
           cpu_jacobian st' ! jac_index nR (2 * nF + nS + i) c = 0)) \<and>
     cpu_jacobian_gpu st' = cpu_jacobian st' \<and> cpu_residuals_gpu st' = cpu_residuals st'"
proof -
  have inv: "solve_CPU_invariant params sparse_features st"
    using reach solve_CPU_init_invariant by (rule solve_CPU_reaches_invariant)
  note ib = solve_CPU_iteration_build[OF iter]
  have clear: "regularizer_rows_clear nF nS nE (cpu_jacobian st)"
    and lres: "length (cpu_residuals st) = nR"
    using inv by (simp_all add: solve_CPU_invariant_def nF nS nE nR)
  note blk = solve_CPU_build_block[OF ib[THEN conjunct1] nF nS nE nR lam clear lres]
  have clear': "regularizer_rows_clear nF nS nE (cpu_jacobian st')"
    and lres': "length (cpu_residuals st') = nR"
    using blk by simp_all
  have off: "cpu_jacobian st' ! jac_index nR r c = 0"
    if "2 * nF \<le> r" "r < nR" "c < 7 + nS + nE" "c \<noteq> 7 + (r - 2 * nF)" for r c
    using clear' that unfolding regularizer_rows_clear_def nR by blast
  have gJ: "cpu_jacobian_gpu st' = cpu_jacobian st'"
    using ib clear' by (simp add: regularizer_rows_clear_def nF nS nE util_copy_id mult.commute
          add.assoc)
  have gr: "cpu_residuals_gpu st' = cpu_residuals st'"
    using ib lres' by (simp add: nF nS nE nR util_copy_id add.assoc)
  have shape: "\<forall>c<7 + nS + nE. c \<noteq> 7 + i \<longrightarrow>
           cpu_jacobian st' ! jac_index nR (2 * nF + i) c = 0" if "i < nS" for i
  proof (intro allI impI)
    fix c assume "c < 7 + nS + nE" "c \<noteq> 7 + i"
    then show "cpu_jacobian st' ! jac_index nR (2 * nF + i) c = 0"
      using that by (intro off) (simp_all add: nR)
  qed
  have expr: "\<forall>c<7 + nS + nE. c \<noteq> 7 + nS + i \<longrightarrow>
           cpu_jacobian st' ! jac_index nR (2 * nF + nS + i) c = 0" if "i < nE" for i
  proof (intro allI impI)
    fix c assume "c < 7 + nS + nE" "c \<noteq> 7 + nS + i"
    then show "cpu_jacobian st' ! jac_index nR (2 * nF + nS + i) c = 0"
      using that by (intro off) (simp_all add: nR)
  qed
  show ?thesis
    using blk shape expr gJ gr by (simp add: computeFace_def)
qed

theorem solve_CPU_regularizer_block_witness:
  "\<exists>st'. solve_CPU_iteration example_env example_params [Vec2 0 0] 1
       (solve_CPU_init example_env example_params [Vec2 0 0] example_face_reg example_projection)
       = Some st' \<and>
     cpu_jacobian st' ! jac_index 5 2 7 = 3 / 200 \<and>
     cpu_jacobian st' ! jac_index 5 3 8 = 1 / 100 \<and>
     cpu_jacobian st' ! jac_index 5 4 9 = 1 / 800 \<and>
     cpu_jacobian st' ! jac_index 5 2 8 = 0 \<and>
     cpu_jacobian st' ! jac_index 5 3 0 = 0 \<and>
     cpu_residuals st' ! 2 = 0 \<and> cpu_residuals st' ! 3 = 0 \<and> cpu_residuals st' ! 4 = 0 \<and>
     cpu_jacobian_gpu st' = cpu_jacobian st'"
proof -
  let ?st0 = "solve_CPU_init example_env example_params [Vec2 0 0] example_face_reg
                example_projection"
  have face: "cpu_face ?st0 = example_face_reg" by (simp add: solve_CPU_init_def Let_def)
  have "solve_CPU_inputs_ok example_env example_params [Vec2 0 0] (cpu_face ?st0)"
    unfolding face
    by (simp add: solve_CPU_inputs_ok_def sizes_ok_def example_env_def example_params_def
          example_face_reg_def)
  then obtain st' where it: "solve_CPU_iteration example_env example_params [Vec2 0 0] 1 ?st0
      = Some st'"
    using solve_CPU_iteration_total by blast
  have nS: "num_shape_coefficients example_params = 1"
    and nE: "num_expression_coefficients example_params = 2"
    and lam: "10 powr regularisation_weight_exponent example_params = 1 / 100"
    by (simp_all add: example_params_def powr_minus)
  note th = solve_CPU_regularizer_block[OF reaches_start it refl refl refl refl refl,
      unfolded nS nE lam face]
  have s0: "cpu_jacobian st' ! jac_index 5 2 7 = 3 / 200 \<and> cpu_residuals st' ! 2 = 0 \<and>
      cpu_jacobian st' ! jac_index 5 2 8 = 0"
    using th[THEN conjunct1, rule_format, of 0]
    by (simp add: example_face_reg_def power2_eq_square)
  have e0: "cpu_jacobian st' ! jac_index 5 3 8 = 1 / 100 \<and> cpu_residuals st' ! 3 = 0 \<and>
      cpu_jacobian st' ! jac_index 5 3 0 = 0"
    using th[THEN conjunct2, THEN conjunct1, rule_format, of 0]
    by (simp add: example_face_reg_def power2_eq_square)
  have e1: "cpu_jacobian st' ! jac_index 5 4 9 = 1 / 800 \<and> cpu_residuals st' ! 4 = 0"
    using th[THEN conjunct2, THEN conjunct1, rule_format, of 1]
    by (simp add: example_face_reg_def power2_eq_square)
  have g: "cpu_jacobian_gpu st' = cpu_jacobian st'" using th by simp
  show ?thesis using it s0 e0 e1 g by simp
qed

section \<open>The solvers against the conjugate gradient of the specification\<close>

lemma map2_index:
  "length u = n \<Longrightarrow> length v = n \<Longrightarrow> map2 f u v = map (\<lambda>i. f (u ! i) (v ! i)) [0..<n]"
  by (rule nth_equalityI) simp_all

lemma cublasSdot_spec: "length u = n \<Longrightarrow> length v = n \<Longrightarrow> cublasSdot n u v = spec_dot u v"
  using map2_index[of u n v "(*)"] by (simp add: cublasSdot_def spec_dot_def)

lemma gemv_JTJ:
  "cublasSgemv CUBLAS_OP_T nR nU 1 J nR (cublasSgemv CUBLAS_OP_N nR nU aL J nR p 0 ya) 0 yb
     = spec_JTJ_times aL nR nU J p"
  by (simp add: cublasSgemv_def spec_JTJ_times_def spec_JT_times_def spec_J_times_def o_def)

lemma gemv_JT:
  "cublasSgemv CUBLAS_OP_T nR nU aR J nR res 0 y
     = map (\<lambda>v. aR * v) (spec_JT_times nR nU J res)"
  by (simp add: cublasSgemv_def spec_JT_times_def o_def)

lemma length_spec_JTJ_times [simp]: "length (spec_JTJ_times aL nR nU J p) = nU"
  by (simp add: spec_JTJ_times_def spec_JT_times_def)

lemma saxpy_add:
  "length u = n \<Longrightarrow> length v = n \<Longrightarrow>
   cublasSaxpy n a u v = map2 (\<lambda>vi ui. vi + a * ui) v u"
  by (simp add: map2_index[of v n u] cublasSaxpy_def)

lemma saxpy_sub:
  "length u = n \<Longrightarrow> length v = n \<Longrightarrow>
   cublasSaxpy n (- a) u v = map2 (\<lambda>vi ui. vi - a * ui) v u"
  by (simp add: map2_index[of v n u] cublasSaxpy_def)

lemma scal_axpy:
  "length z = n \<Longrightarrow> length p = n \<Longrightarrow>
   cublasSaxpy n 1 z (cublasSscal n bk p) = map2 (\<lambda>zi pi. zi + bk * pi) z p"
  by (simp add: map2_index[of z n p] cublasSaxpy_def cublasSscal_def)

lemma elementwise_spec:
  "length M = n \<Longrightarrow> length r = n \<Longrightarrow> spec_elementwiseMultiplication n M r = map2 (*) M r"
  by (simp add: map2_index[of M n r] spec_elementwiseMultiplication_def)

lemma pcg_head_spec:
  assumes ew: "elementwiseMultiplication env = spec_elementwiseMultiplication"
    and len: "length M = nU" "length (pcg_x st) = nU" "length (pcg_r st) = nU"
      "length (pcg_p st) = nU"
    and q: "q = spec_JTJ_times aL nR nU J (pcg_p st)"
    and ak: "ak = pcg_zTr_old st / max (spec_dot (pcg_p st) q) (kNearZero params)"
    and r': "r' = map2 (\<lambda>ri qi. ri - ak * qi) (pcg_r st) q"
    and st1: "st1 = solveUpdatePCG_head env params nU nR J M aL st"
  shows "pcg_x st1 = map2 (\<lambda>xi pi. xi + ak * pi) (pcg_x st) (pcg_p st)"
    and "pcg_r st1 = r'"
    and "pcg_z st1 = map2 (*) M r'"
    and "pcg_zTr st1 = spec_dot (map2 (*) M r') r'"
    and "pcg_p st1 = pcg_p st"
    and "pcg_zTr_old st1 = pcg_zTr_old st"
proof -
  have lq: "length q = nU" by (simp add: q)
  have lr': "length r' = nU" using len lq by (simp add: r')
  have r1: "pcg_r st1 = r'"
    unfolding st1 solveUpdatePCG_head_def Let_def
    using len lq by (simp add: gemv_JTJ saxpy_sub cublasSdot_spec std_max_max q[symmetric]
          ak[symmetric] r')
  have x1: "pcg_x st1 = map2 (\<lambda>xi pi. xi + ak * pi) (pcg_x st) (pcg_p st)"
    unfolding st1 solveUpdatePCG_head_def Let_def
    using len lq by (simp add: gemv_JTJ saxpy_add cublasSdot_spec std_max_max q[symmetric]
          ak[symmetric])
  have z1: "pcg_z st1 = map2 (*) M r'"
  proof -
    have "pcg_z st1 = spec_elementwiseMultiplication nU M (pcg_r st1)"
      unfolding st1 solveUpdatePCG_head_def Let_def by (simp add: ew)
    then show ?thesis using len lr' by (simp add: r1 elementwise_spec)
  qed
  have t1: "pcg_zTr st1 = cublasSdot nU (pcg_z st1) (pcg_r st1)"
    unfolding st1 solveUpdatePCG_head_def Let_def by simp
  show "pcg_x st1 = map2 (\<lambda>xi pi. xi + ak * pi) (pcg_x st) (pcg_p st)" by (rule x1)
  show "pcg_r st1 = r'" by (rule r1)
  show "pcg_z st1 = map2 (*) M r'" by (rule z1)
  show "pcg_zTr st1 = spec_dot (map2 (*) M r') r'"
    using len lr' by (simp add: t1 z1 r1 cublasSdot_spec)
  show "pcg_p st1 = pcg_p st" "pcg_zTr_old st1 = pcg_zTr_old st"
    unfolding st1 solveUpdatePCG_head_def Let_def by simp_all
qed

lemma pcg_tail_spec:
  assumes "length (pcg_z st) = nU" "length (pcg_p st) = nU"
  shows "pcg_p (solveUpdatePCG_tail params nU st) =
           map2 (\<lambda>zi pi. zi + pcg_zTr st / max (pcg_zTr_old st) (kNearZero params) * pi)
             (pcg_z st) (pcg_p st)"
    and "pcg_zTr_old (solveUpdatePCG_tail params nU st) = pcg_zTr st"
    and "pcg_x (solveUpdatePCG_tail params nU st) = pcg_x st"
    and "pcg_r (solveUpdatePCG_tail params nU st) = pcg_r st"
  using assms by (simp_all add: solveUpdatePCG_tail_def Let_def scal_axpy std_max_max)

lemma pcg_loop_spec:
  assumes "elementwiseMultiplication env = spec_elementwiseMultiplication"
    and "length M = nU" "length (pcg_x st) = nU" "length (pcg_r st) = nU"
      "length (pcg_p st) = nU"
  shows "pcg_x (snd (solveUpdatePCG_loop env params nU nR J M aL i st)) =
     spec_cg_iterate (\<lambda>r. map2 (*) M r) (spec_JTJ_times aL nR nU J) (kNearZero params)
       (kTolerance params) (nat (min (int nU) (num_pcg_iterations params) - i))
       (pcg_x st) (pcg_r st) (pcg_p st) (pcg_zTr_old st)"
  using assms
proof (induction env params nU nR J M aL i st rule: solveUpdatePCG_loop.induct)
  case (1 env params nU nR J M aL i st)
  let ?b = "min (int nU) (num_pcg_iterations params)"
  show ?case
  proof (cases "i < ?b")
    case False
    then have "nat (?b - i) = 0" by linarith
    then show ?thesis using False
      by (subst solveUpdatePCG_loop.simps) (simp del: min_less_iff_conj)
  next
    case True
    then have n: "nat (?b - i) = Suc (nat (?b - (i + 1)))" by linarith
    let ?st1 = "solveUpdatePCG_head env params nU nR J M aL st"
    let ?q = "spec_JTJ_times aL nR nU J (pcg_p st)"
    let ?ak = "pcg_zTr_old st / max (spec_dot (pcg_p st) ?q) (kNearZero params)"
    let ?r' = "map2 (\<lambda>ri qi. ri - ?ak * qi) (pcg_r st) ?q"
    note h = pcg_head_spec[OF "1.prems" refl refl refl refl]
    have l1: "length (pcg_x ?st1) = nU" "length (pcg_r ?st1) = nU" "length (pcg_z ?st1) = nU"
      "length (pcg_p ?st1) = nU"
      using "1.prems" by (simp_all add: h)
    show ?thesis
    proof (cases "pcg_zTr ?st1 < kTolerance params")
      case stop: True
      have "pcg_x (snd (solveUpdatePCG_loop env params nU nR J M aL i st)) = pcg_x ?st1"
        using True stop by (subst solveUpdatePCG_loop.simps) (simp add: Let_def del: min_less_iff_conj)
      then show ?thesis
        using stop unfolding n spec_cg_iterate.simps Let_def by (simp add: h)
    next
      case go: False
      let ?st2 = "solveUpdatePCG_tail params nU ?st1"
      note t = pcg_tail_spec[OF l1(3,4), of params]
      have l2: "length (pcg_x ?st2) = nU" "length (pcg_r ?st2) = nU" "length (pcg_p ?st2) = nU"
        using l1 by (simp_all add: t)
      have "pcg_x (snd (solveUpdatePCG_loop env params nU nR J M aL i st)) =
          pcg_x (snd (solveUpdatePCG_loop env params nU nR J M aL (i + 1) ?st2))"
        using True go by (subst solveUpdatePCG_loop.simps) (simp add: Let_def del: min_less_iff_conj)
      also have "\<dots> = spec_cg_iterate (\<lambda>r. map2 (*) M r) (spec_JTJ_times aL nR nU J)
          (kNearZero params) (kTolerance params) (nat (?b - (i + 1)))
          (pcg_x ?st2) (pcg_r ?st2) (pcg_p ?st2) (pcg_zTr_old ?st2)"
        using "1.IH"[OF True refl go "1.prems"(1,2) l2] .
      finally show ?thesis
        using go unfolding n spec_cg_iterate.simps Let_def by (simp add: h t)
    qed
  qed
qed

lemma cg_head_spec:
  assumes len: "length (cg_x st) = nU" "length (cg_r st) = nU" "length (cg_p st) = nU"
    and q: "q = spec_JTJ_times aL nR nU J (cg_p st)"
    and ak: "ak = cg_rTr st / max (spec_dot (cg_p st) q) (kNearZero params)"
    and r': "r' = map2 (\<lambda>ri qi. ri - ak * qi) (cg_r st) q"
    and st1: "st1 = solveUpdateCG_head params nU nR J aL st"
  shows "cg_x st1 = map2 (\<lambda>xi pi. xi + ak * pi) (cg_x st) (cg_p st)"
    and "cg_r st1 = r'"
    and "cg_rTr st1 = spec_dot r' r'"
    and "cg_p st1 = cg_p st"
    and "cg_rTr_old st1 = cg_rTr st"
proof -
  have lq: "length q = nU" by (simp add: q)
  have lr': "length r' = nU" using len lq by (simp add: r')
  have r1: "cg_r st1 = r'"
    unfolding st1 solveUpdateCG_head_def Let_def
    using len lq by (simp add: gemv_JTJ saxpy_sub cublasSdot_spec std_max_max q[symmetric]
          ak[symmetric] r')
  have t1: "cg_rTr st1 = cublasSdot nU (cg_r st1) (cg_r st1)"
    unfolding st1 solveUpdateCG_head_def Let_def by simp
  show "cg_x st1 = map2 (\<lambda>xi pi. xi + ak * pi) (cg_x st) (cg_p st)"
    unfolding st1 solveUpdateCG_head_def Let_def
    using len lq by (simp add: gemv_JTJ saxpy_add cublasSdot_spec std_max_max q[symmetric]
          ak[symmetric])
  show "cg_r st1 = r'" by (rule r1)
  show "cg_rTr st1 = spec_dot r' r'" using lr' by (simp add: t1 r1 cublasSdot_spec)
  show "cg_p st1 = cg_p st" "cg_rTr_old st1 = cg_rTr st"
    unfolding st1 solveUpdateCG_head_def Let_def by simp_all
qed

lemma cg_tail_spec:
  assumes "length (cg_r st) = nU" "length (cg_p st) = nU"
  shows "cg_p (solveUpdateCG_tail params nU st) =
           map2 (\<lambda>zi pi. zi + cg_rTr st / max (cg_rTr_old st) (kNearZero params) * pi)
             (cg_r st) (cg_p st)"
    and "cg_rTr (solveUpdateCG_tail params nU st) = cg_rTr st"
    and "cg_x (solveUpdateCG_tail params nU st) = cg_x st"
    and "cg_r (solveUpdateCG_tail params nU st) = cg_r st"
  using assms by (simp_all add: solveUpdateCG_tail_def Let_def scal_axpy std_max_max)

lemma cg_loop_spec:
  assumes "length (cg_x st) = nU" "length (cg_r st) = nU" "length (cg_p st) = nU"
  shows "cg_x (snd (solveUpdateCG_loop params nU nR J aL i st)) =
     spec_cg_iterate (\<lambda>r. r) (spec_JTJ_times aL nR nU J) (kNearZero params)
       (kTolerance params) (nat (min (int nU) (num_pcg_iterations params) - i))
       (cg_x st) (cg_r st) (cg_p st) (cg_rTr st)"
  using assms
proof (induction params nU nR J aL i st rule: solveUpdateCG_loop.induct)
  case (1 params nU nR J aL i st)
  let ?b = "min (int nU) (num_pcg_iterations params)"
  show ?case
  proof (cases "i < ?b")
    case False
    then have "nat (?b - i) = 0" by linarith
    then show ?thesis using False
      by (subst solveUpdateCG_loop.simps) (simp del: min_less_iff_conj)
  next
    case True
    then have n: "nat (?b - i) = Suc (nat (?b - (i + 1)))" by linarith
    let ?st1 = "solveUpdateCG_head params nU nR J aL st"
    note h = cg_head_spec[OF "1.prems" refl refl refl refl]
    have l1: "length (cg_x ?st1) = nU" "length (cg_r ?st1) = nU" "length (cg_p ?st1) = nU"
      using "1.prems" by (simp_all add: h)
    show ?thesis
    proof (cases "cg_rTr ?st1 < kTolerance params")
      case stop: True
      have "cg_x (snd (solveUpdateCG_loop params nU nR J aL i st)) = cg_x ?st1"
        using True stop by (subst solveUpdateCG_loop.simps) (simp add: Let_def del: min_less_iff_conj)
      then show ?thesis
        using stop unfolding n spec_cg_iterate.simps Let_def by (simp add: h)
    next
      case go: False
      let ?st2 = "solveUpdateCG_tail params nU ?st1"
      note t = cg_tail_spec[OF l1(2,3), of params]
      have l2: "length (cg_x ?st2) = nU" "length (cg_r ?st2) = nU" "length (cg_p ?st2) = nU"
        using l1 by (simp_all add: t)
      have "cg_x (snd (solveUpdateCG_loop params nU nR J aL i st)) =
          cg_x (snd (solveUpdateCG_loop params nU nR J aL (i + 1) ?st2))"
        using True go by (subst solveUpdateCG_loop.simps) (simp add: Let_def del: min_less_iff_conj)
      also have "\<dots> = spec_cg_iterate (\<lambda>r. r) (spec_JTJ_times aL nR nU J)
          (kNearZero params) (kTolerance params) (nat (?b - (i + 1)))
          (cg_x ?st2) (cg_r ?st2) (cg_p ?st2) (cg_rTr ?st2)"
        using "1.IH"[OF True refl go l2] .
      finally show ?thesis
        using go unfolding n spec_cg_iterate.simps Let_def by (simp add: h t)
    qed
  qed
qed

lemma cublasScopy_id: "length v = n \<Longrightarrow> cublasScopy n v = v"
  by (auto simp: cublasScopy_def intro: nth_equalityI)

lemma length_spec_JT_times [simp]: "length (spec_JT_times nR nU J q) = nU"
  by (simp add: spec_JT_times_def)

text \<open>
  C5. With the two kernels that are not in this file taken as the specification
  describes them, \<^verbatim>\<open>solveUpdatePCG\<close> is the conjugate gradient of the specification
  with the preconditioned residual \<open>z = M\<odot>r\<close> in the place of \<open>r\<close> in the inner products,
  in the search direction and in the convergence test, \<^verbatim>\<open>solveUpdateCG\<close> is the same
  iteration with \<open>z = r\<close>, and the preconditioner is \<open>M = 1/(2\<cdot>diag(J\<^sup>tJ))\<close>, computed from
  the sums of squares of the columns of \<open>J\<close>.
\<close>

theorem pcg_is_preconditioned_cg:
  assumes pre: "computeJacobiPreconditioner env = spec_computeJacobiPreconditioner"
    and ew: "elementwiseMultiplication env = spec_elementwiseMultiplication"
    and M: "M = map (\<lambda>j. 1 / (2 * spec_JTJ_entry nResiduals jacobian j j)) [0..<nUnknowns]"
  shows "computeJacobiPreconditioner env nUnknowns nResiduals jacobian = M \<and>
     solveUpdatePCG env params nUnknowns nResiduals jacobian residuals alphaLHS alphaRHS =
       spec_cg_solve (\<lambda>r. map2 (*) M r) params nUnknowns nResiduals jacobian residuals
         alphaLHS alphaRHS \<and>
     solveUpdateCG env params nUnknowns nResiduals jacobian residuals alphaLHS alphaRHS =
       spec_cg_solve (\<lambda>r. r) params nUnknowns nResiduals jacobian residuals
         alphaLHS alphaRHS"
proof -
  let ?r = "map (\<lambda>v. alphaRHS * v) (spec_JT_times nResiduals nUnknowns jacobian residuals)"
  have m: "computeJacobiPreconditioner env nUnknowns nResiduals jacobian = M"
    by (simp add: pre M spec_computeJacobiPreconditioner_def spec_JTJ_entry_def power2_eq_square)
  have lM: "length M = nUnknowns" by (simp add: M)
  let ?p0 = "solveUpdatePCG_init env nUnknowns nResiduals jacobian residuals M alphaRHS"
  have p0: "pcg_x ?p0 = replicate nUnknowns 0" "pcg_r ?p0 = ?r" "pcg_p ?p0 = map2 (*) M ?r"
    "pcg_zTr_old ?p0 = spec_dot (map2 (*) M ?r) ?r"
    using lM
    by (simp_all add: solveUpdatePCG_init_def Let_def memset0_def gemv_JT ew elementwise_spec
          cublasScopy_id cublasSdot_spec)
  have "pcg_x (snd (solveUpdatePCG_loop env params nUnknowns nResiduals jacobian M alphaLHS 0 ?p0))
      = spec_cg_iterate (\<lambda>r. map2 (*) M r) (spec_JTJ_times alphaLHS nResiduals nUnknowns jacobian)
          (kNearZero params) (kTolerance params)
          (nat (min (int nUnknowns) (num_pcg_iterations params) - 0))
          (pcg_x ?p0) (pcg_r ?p0) (pcg_p ?p0) (pcg_zTr_old ?p0)"
    using lM by (intro pcg_loop_spec ew) (simp_all add: p0)
  then have pcg: "solveUpdatePCG env params nUnknowns nResiduals jacobian residuals alphaLHS
        alphaRHS =
      spec_cg_solve (\<lambda>r. map2 (*) M r) params nUnknowns nResiduals jacobian residuals
         alphaLHS alphaRHS"
    by (simp add: solveUpdatePCG_def solveUpdatePCG_run_def Let_def m spec_cg_solve_def p0)
  let ?c0 = "solveUpdateCG_init env nUnknowns nResiduals jacobian residuals alphaRHS"
  have c0: "cg_x ?c0 = replicate nUnknowns 0" "cg_r ?c0 = ?r" "cg_p ?c0 = ?r"
    "cg_rTr ?c0 = spec_dot ?r ?r"
    by (simp_all add: solveUpdateCG_init_def Let_def memset0_def gemv_JT cublasScopy_id
          cublasSdot_spec)
  have "cg_x (snd (solveUpdateCG_loop params nUnknowns nResiduals jacobian alphaLHS 0 ?c0))
      = spec_cg_iterate (\<lambda>r. r) (spec_JTJ_times alphaLHS nResiduals nUnknowns jacobian)
          (kNearZero params) (kTolerance params)
          (nat (min (int nUnknowns) (num_pcg_iterations params) - 0))
          (cg_x ?c0) (cg_r ?c0) (cg_p ?c0) (cg_rTr ?c0)"
    by (intro cg_loop_spec) (simp_all add: c0)
  then have cg: "solveUpdateCG env params nUnknowns nResiduals jacobian residuals alphaLHS
        alphaRHS =
      spec_cg_solve (\<lambda>r. r) params nUnknowns nResiduals jacobian residuals alphaLHS alphaRHS"
    by (simp add: solveUpdateCG_def solveUpdateCG_run_def spec_cg_solve_def Let_def c0)
  show ?thesis using m pcg cg by simp
qed

theorem pcg_is_preconditioned_cg_witness:
  "computeJacobiPreconditioner example_env 10 5 example_jacobian = example_M \<and>
   spec_cg_solve (\<lambda>r. map2 (*) example_M r) example_params 10 5 example_jacobian
     example_residuals 2 (- 1) = example_step \<and>
   spec_cg_solve (\<lambda>r. r) example_params 10 5 example_jacobian example_residuals 2 (- 1)
     = example_step \<and>
   solveUpdatePCG example_env example_params 10 5 example_jacobian example_residuals 2 (- 1)
     = example_step \<and>
   solveUpdateCG example_env example_params 10 5 example_jacobian example_residuals 2 (- 1)
     = example_step"
proof -
  have pre: "computeJacobiPreconditioner example_env = spec_computeJacobiPreconditioner"
    and ew: "elementwiseMultiplication example_env = spec_elementwiseMultiplication"
    by (simp_all add: example_env_def)
  note th = pcg_is_preconditioned_cg[where nResiduals = 5 and jacobian = example_jacobian
      and nUnknowns = 10 and params = example_params and residuals = example_residuals
      and alphaLHS = 2 and alphaRHS = "- 1", OF pre ew refl]
  have M: "map (\<lambda>j. 1 / (2 * spec_JTJ_entry 5 example_jacobian j j)) [0..<10] = example_M"
    using th ex_M by simp
  have cg: "solveUpdateCG example_env example_params 10 5 example_jacobian example_residuals
      2 (- 1) = example_step"
    by (simp add: solveUpdateCG_def example_cg_run)
  have a: "example_step = spec_cg_solve (\<lambda>r. map2 (*) example_M r) example_params 10 5
      example_jacobian example_residuals 2 (- 1)"
    and b: "example_step = spec_cg_solve (\<lambda>r. r) example_params 10 5 example_jacobian
      example_residuals 2 (- 1)"
    using th[unfolded M example_delta cg] by blast+
  show ?thesis
    using a[symmetric] b[symmetric] ex_M example_delta cg by blast
qed

end
